theory Spec2Isabelle
  imports Main "HOL-Library.Sublist" "HOL-Library.Char_ord" "HOL-Library.List_Lexorder"
begin

section \<open>Go strings\<close>

text \<open>
  A Go string is a sequence of bytes, so it is a \<open>char list\<close> here: \<open>length\<close> is Go's
  \<open>len\<close>, \<open>take\<close> and \<open>drop\<close> are its slices, and \<open><\<close> on strings (the
  lexicographic order on lists over the order of bytes) is Go's string comparison.

  \<open>strings.TrimSpace\<close> removes the leading and trailing white space "as defined by
  Unicode": the runes of \<open>unicode.IsSpace\<close>, which inside a string stand as their UTF-8
  encodings. \<open>spaceRunes\<close> lists these encodings: U+0009 to U+000D, U+0020, U+0085,
  U+00A0, U+1680, U+2000 to U+200A, U+2028, U+2029, U+202F, U+205F and U+3000. A byte
  sequence that is not a valid encoding decodes to U+FFFD, which is not a space, so
  trimming removes exactly the encodings of the table, one after the other.
\<close>

definition spaceRunes :: "string list" where
  "spaceRunes =
    [[CHR 0x09], [CHR 0x0A], [CHR 0x0B], [CHR 0x0C], [CHR 0x0D], [CHR 0x20],
     [CHR 0xC2, CHR 0x85], [CHR 0xC2, CHR 0xA0],
     [CHR 0xE1, CHR 0x9A, CHR 0x80],
     [CHR 0xE2, CHR 0x80, CHR 0x80], [CHR 0xE2, CHR 0x80, CHR 0x81],
     [CHR 0xE2, CHR 0x80, CHR 0x82], [CHR 0xE2, CHR 0x80, CHR 0x83],
     [CHR 0xE2, CHR 0x80, CHR 0x84], [CHR 0xE2, CHR 0x80, CHR 0x85],
     [CHR 0xE2, CHR 0x80, CHR 0x86], [CHR 0xE2, CHR 0x80, CHR 0x87],
     [CHR 0xE2, CHR 0x80, CHR 0x88], [CHR 0xE2, CHR 0x80, CHR 0x89],
     [CHR 0xE2, CHR 0x80, CHR 0x8A],
     [CHR 0xE2, CHR 0x80, CHR 0xA8], [CHR 0xE2, CHR 0x80, CHR 0xA9],
     [CHR 0xE2, CHR 0x80, CHR 0xAF],
     [CHR 0xE2, CHR 0x81, CHR 0x9F],
     [CHR 0xE3, CHR 0x80, CHR 0x80]]"

lemma spaceRunes_nonempty: "e \<in> set spaceRunes \<Longrightarrow> e \<noteq> []"
  by (auto simp: spaceRunes_def)

lemma find_spaceRunes_prefix:
  assumes "List.find (\<lambda>e. prefix e s) spaceRunes = Some e"
  shows "e \<in> set spaceRunes" and "prefix e s" and "e \<noteq> []" and "length e \<le> length s"
proof -
  from assms show m: "e \<in> set spaceRunes" and p: "prefix e s"
    by (auto simp: find_Some_iff)
  from m show "e \<noteq> []" by (rule spaceRunes_nonempty)
  from p show "length e \<le> length s" by (rule prefix_length_le)
qed

lemma find_spaceRunes_suffix:
  assumes "List.find (\<lambda>e. suffix e s) spaceRunes = Some e"
  shows "e \<in> set spaceRunes" and "suffix e s" and "e \<noteq> []" and "length e \<le> length s"
proof -
  from assms show m: "e \<in> set spaceRunes" and p: "suffix e s"
    by (auto simp: find_Some_iff)
  from m show "e \<noteq> []" by (rule spaceRunes_nonempty)
  from p show "length e \<le> length s" by (rule suffix_length_le)
qed

function TrimLeftSpace :: "string \<Rightarrow> string" where
  "TrimLeftSpace s =
     (case List.find (\<lambda>e. prefix e s) spaceRunes of
        None \<Rightarrow> s
      | Some e \<Rightarrow> TrimLeftSpace (drop (length e) s))"
  by pat_completeness auto
termination
proof (relation "measure length")
  show "wf (measure length)" by simp
next
  fix s e
  assume f: "List.find (\<lambda>e. prefix e s) spaceRunes = Some e"
  have "e \<noteq> []" and "length e \<le> length s"
    using find_spaceRunes_prefix [OF f] by simp_all
  then show "(drop (length e) s, s) \<in> measure length"
    by (cases e) auto
qed

function TrimRightSpace :: "string \<Rightarrow> string" where
  "TrimRightSpace s =
     (case List.find (\<lambda>e. suffix e s) spaceRunes of
        None \<Rightarrow> s
      | Some e \<Rightarrow> TrimRightSpace (take (length s - length e) s))"
  by pat_completeness auto
termination
proof (relation "measure length")
  show "wf (measure length)" by simp
next
  fix s e
  assume f: "List.find (\<lambda>e. suffix e s) spaceRunes = Some e"
  have "e \<noteq> []" and "length e \<le> length s"
    using find_spaceRunes_suffix [OF f] by simp_all
  then show "(take (length s - length e) s, s) \<in> measure length"
    by (cases e) auto
qed

declare TrimLeftSpace.simps [simp del] TrimRightSpace.simps [simp del]

definition TrimSpace :: "string \<Rightarrow> string" where
  "TrimSpace s = TrimRightSpace (TrimLeftSpace s)"

definition HasPrefix :: "string \<Rightarrow> string \<Rightarrow> bool" where
  "HasPrefix s p = prefix p s"

definition TrimPrefix :: "string \<Rightarrow> string \<Rightarrow> string" where
  "TrimPrefix s p = (if HasPrefix s p then drop (length p) s else s)"

text \<open>\<open>strings.TrimRight\<close> with a cutset of ASCII characters: the trailing bytes of the
  cutset are removed.\<close>

definition TrimRight :: "string \<Rightarrow> string \<Rightarrow> string" where
  "TrimRight s cutset = rev (dropWhile (\<lambda>c. c \<in> set cutset) (rev s))"

fun Contains :: "string \<Rightarrow> string \<Rightarrow> bool" where
  "Contains [] sub = (sub = [])"
| "Contains (c # cs) sub = (prefix sub (c # cs) \<or> Contains cs sub)"

fun Join :: "string list \<Rightarrow> string \<Rightarrow> string" where
  "Join [] sep = []"
| "Join [p] sep = p"
| "Join (p # q # ps) sep = p @ sep @ Join (q # ps) sep"

text \<open>\<open>strings.EqualFold\<close> against a string of ASCII letters none of which is k or s
  (the only ASCII letters with a case variant outside ASCII): equality of the bytes up
  to the case of the ASCII letters.\<close>

definition asciiLower :: "char \<Rightarrow> char" where
  "asciiLower c =
     (if (65::nat) \<le> of_char c \<and> of_char c \<le> (90::nat) then char_of (of_char c + (32::nat)) else c)"

definition EqualFold :: "string \<Rightarrow> string \<Rightarrow> bool" where
  "EqualFold s t = (map asciiLower s = map asciiLower t)"

text \<open>\<open>truncate\<close> of http.go (every record of this theory has a \<open>truncate\<close> of its own,
  hence the suffix).\<close>

definition truncate_str :: "string \<Rightarrow> nat \<Rightarrow> string" where
  "truncate_str s limit = (if length s \<le> limit then s else take limit s @ ''...'')"

section \<open>JSON values\<close>

text \<open>
  A value of Go's \<open>any\<close> as \<open>encoding/json\<close> reads and writes it. A number is kept as its
  literal (\<open>0.2\<close>, \<open>2048\<close>). An object is a Go map: the association list is read with
  \<open>map_of\<close>.
\<close>

datatype json =
    JNull
  | JBool bool
  | JNumber string
  | JString string
  | JArray "json list"
  | JObject "(string \<times> json) list"

text \<open>The value stored under a key of an object (\<open>payload["key"]\<close>), if any.\<close>

fun jsonField :: "json \<Rightarrow> string \<Rightarrow> json option" where
  "jsonField (JObject members) k = map_of members k"
| "jsonField v k = None"

section \<open>The HTTP transport\<close>

record http_request =
  req_method :: string
  req_url :: string
  req_header :: "(string \<times> string) list"
  req_body :: "string option"
  req_contentLength :: int

text \<open>What \<open>client.Do\<close> followed by \<open>io.ReadAll\<close> gives: the transport's error, the
  error of reading the body, or a response read in full (\<open>StatusCode\<close>, \<open>Status\<close>, body).\<close>

datatype http_result =
    TransportError string
  | BodyReadError string
  | HTTPResponse int string string

text \<open>
  What the package takes from outside: the server, which answers a request knowing all
  the requests before it, and the functions of the standard library that are not
  modelled here. An \<open>error\<close> of Go is its message.
\<close>

record runtime =
  server :: "http_request list \<Rightarrow> http_result"
  json_Marshal :: "json \<Rightarrow> string + string"
  url_error :: "string \<Rightarrow> string option"
  strings_ToLower :: "string \<Rightarrow> string"
  canonicalHeaderKey :: "string \<Rightarrow> string"

text \<open>\<open>http.NewRequest(method, url, nil)\<close> fails when the URL does not parse.\<close>

definition NewRequest :: "runtime \<Rightarrow> string \<Rightarrow> string \<Rightarrow> string + http_request" where
  "NewRequest rt m u =
     (case url_error rt u of
        Some e \<Rightarrow> Inl e
      | None \<Rightarrow> Inr \<lparr>req_method = m, req_url = u, req_header = [], req_body = None,
                     req_contentLength = 0\<rparr>)"

text \<open>\<open>Header.Set\<close>: the value stored under the canonical form of the key replaces
  the one that was there.\<close>

fun header_put :: "string \<Rightarrow> string \<Rightarrow> (string \<times> string) list \<Rightarrow> (string \<times> string) list" where
  "header_put k v [] = [(k, v)]"
| "header_put k v ((k', v') # h) =
     (if k' = k then (k, v) # h else (k', v') # header_put k v h)"

definition Header_Set :: "runtime \<Rightarrow> string \<Rightarrow> string \<Rightarrow> http_request \<Rightarrow> http_request" where
  "Header_Set rt k v req =
     req\<lparr>req_header := header_put (canonicalHeaderKey rt k) v (req_header req)\<rparr>"

definition Header_Get :: "runtime \<Rightarrow> string \<Rightarrow> http_request \<Rightarrow> string option" where
  "Header_Get rt k req = map_of (req_header req) (canonicalHeaderKey rt k)"

text \<open>The state of a call is the list of the requests handed to \<open>client.Do\<close> so far,
  oldest first.\<close>

definition client_Do :: "runtime \<Rightarrow> http_request \<Rightarrow> http_request list
    \<Rightarrow> http_result \<times> http_request list" where
  "client_Do rt req sent = (server rt (sent @ [req]), sent @ [req])"

text \<open>The first block of \<open>doJSON\<close>: the payload, when there is one, becomes the body.\<close>

definition attachPayload :: "runtime \<Rightarrow> http_request \<Rightarrow> json option \<Rightarrow> string + http_request" where
  "attachPayload rt req payload =
     (case payload of
        None \<Rightarrow> Inr req
      | Some p \<Rightarrow>
          (case json_Marshal rt p of
             Inl e \<Rightarrow> Inl (''encode request JSON: '' @ e)
           | Inr buf \<Rightarrow>
               Inr (Header_Set rt ''Content-Type'' ''application/json''
                      (req\<lparr>req_body := Some buf, req_contentLength := int (length buf)\<rparr>))))"

text \<open>
  \<open>doJSON\<close>. \<open>unmarshal body v\<close> is \<open>json.Unmarshal(body, out)\<close> for \<open>out\<close> pointing to
  \<open>v\<close>: its error, and the value \<open>out\<close> points to afterwards. \<open>out\<close> is \<open>None\<close> for a nil
  \<open>out\<close>. The result is the error (\<open>None\<close> for nil), what \<open>out\<close> points to afterwards, and
  the requests sent.
\<close>

definition doJSON :: "runtime \<Rightarrow> (string \<Rightarrow> 'a \<Rightarrow> string option \<times> 'a) \<Rightarrow> http_request
    \<Rightarrow> json option \<Rightarrow> 'a option \<Rightarrow> http_request list
    \<Rightarrow> (string option \<times> 'a option) \<times> http_request list" where
  "doJSON rt unmarshal req payload out sent =
     (case attachPayload rt req payload of
        Inl e \<Rightarrow> ((Some e, out), sent)
      | Inr req' \<Rightarrow>
          (case client_Do rt req' sent of
             (TransportError e, sent') \<Rightarrow> ((Some (''http request failed: '' @ e), out), sent')
           | (BodyReadError e, sent') \<Rightarrow> ((Some (''read response: '' @ e), out), sent')
           | (HTTPResponse code status body, sent') \<Rightarrow>
               if code \<ge> 400 then
                 ((Some (''provider returned '' @ status @ '': '' @ truncate_str body 700), out), sent')
               else
                 (case out of
                    None \<Rightarrow> ((None, None), sent')
                  | Some v \<Rightarrow>
                      if TrimSpace body = [] then ((None, Some v), sent')
                      else
                        (case unmarshal body v of
                           (None, v') \<Rightarrow> ((None, Some v'), sent')
                         | (Some e, v') \<Rightarrow>
                             ((Some (''decode response JSON: '' @ e @ ''; body=''
                                       @ truncate_str body 700), Some v'), sent')))))"

section \<open>The provider contract\<close>

record Model =
  ID :: string
  DisplayName :: string

record AskRequest =
  Model :: string
  Prompt :: string
  Question :: string
  ExpectJSON :: bool

record AskResponse =
  Text :: string

text \<open>\<open>ClientOptions\<close> without its \<open>HTTPClient\<close> (the transport is \<open>server\<close> of the
  runtime). A \<open>map[string]string\<close> is an association list; a \<open>range\<close> over it visits the
  entries in the order of the list.\<close>

record ClientOptions =
  APIKey :: string
  BaseURL :: string
  Headers :: "(string \<times> string) list"

record OpenAICompatibleSettings =
  Name :: string
  ModelsPath :: string
  ChatPath :: string
  AuthHeader :: string
  AuthPrefix :: string
  RequireAPIKey :: bool

definition normalize :: "runtime \<Rightarrow> string \<Rightarrow> string" where
  "normalize rt name = strings_ToLower rt (TrimSpace name)"

section \<open>Shared helpers (http.go)\<close>

definition validateAskRequest :: "AskRequest \<Rightarrow> string option" where
  "validateAskRequest req =
     (if TrimSpace (Model req) = [] then Some ''model is required''
      else if TrimSpace (Question req) = [] then Some ''question is required''
      else None)"

definition responseFormatLikelyUnsupported :: "runtime \<Rightarrow> string option \<Rightarrow> bool" where
  "responseFormatLikelyUnsupported rt err =
     (case err of
        None \<Rightarrow> False
      | Some e \<Rightarrow>
          (let msg = strings_ToLower rt e in
             Contains msg ''response_format'' \<or>
             Contains msg ''responsemimetype'' \<or>
             Contains msg ''response_mime_type''))"

definition joinURL :: "string \<Rightarrow> string \<Rightarrow> string" where
  "joinURL base0 path0 =
     (let base = TrimRight (TrimSpace base0) ''/''; path = TrimSpace path0 in
        if path = [] then base
        else if HasPrefix path ''http://'' \<or> HasPrefix path ''https://'' then path
        else if \<not> HasPrefix path ''/'' then base @ (''/'' @ path)
        else base @ path)"

definition ensureLeadingSlash :: "string \<Rightarrow> string" where
  "ensureLeadingSlash s0 =
     (let s = TrimSpace s0 in
        if s = [] then [] else if HasPrefix s ''/'' then s else ''/'' @ s)"

text \<open>The loop over \<open>c.headers\<close> that ends every \<open>setHeaders\<close>.\<close>

definition setStaticHeaders :: "runtime \<Rightarrow> (string \<times> string) list \<Rightarrow> http_request \<Rightarrow> http_request" where
  "setStaticHeaders rt hs req =
     fold (\<lambda>(k, v) r. if TrimSpace k = [] \<or> TrimSpace v = [] then r else Header_Set rt k v r) hs req"

text \<open>
  \<open>sort.Slice(models, less)\<close>: the insertion sort that \<open>sort.Slice\<close> runs on a slice of at
  most twelve elements. On a longer slice the library's sort may order entries with equal
  keys differently; the slice is sorted by \<open>less\<close> either way.
\<close>

fun insertLess :: "('a \<Rightarrow> 'a \<Rightarrow> bool) \<Rightarrow> 'a \<Rightarrow> 'a list \<Rightarrow> 'a list" where
  "insertLess lt x [] = [x]"
| "insertLess lt x (y # ys) = (if lt x y then x # y # ys else y # insertLess lt x ys)"

definition sortSlice :: "('a \<Rightarrow> 'a \<Rightarrow> bool) \<Rightarrow> 'a list \<Rightarrow> 'a list" where
  "sortSlice lt xs = foldl (\<lambda>acc x. insertLess lt x acc) [] xs"

definition sortModels :: "Model list \<Rightarrow> Model list" where
  "sortModels models = sortSlice (\<lambda>a b. ID a < ID b) models"

section \<open>The OpenAI-compatible client (openai_compatible.go)\<close>

record openAICompatibleClient =
  oc_name :: string
  oc_apiKey :: string
  oc_base :: string
  oc_modelsPath :: string
  oc_chatPath :: string
  oc_authHeader :: string
  oc_authPrefix :: string
  oc_requireAPIKey :: bool
  oc_headers :: "(string \<times> string) list"

definition newOpenAICompatibleClient ::
    "runtime \<Rightarrow> OpenAICompatibleSettings \<Rightarrow> ClientOptions \<Rightarrow> openAICompatibleClient" where
  "newOpenAICompatibleClient rt settings opts =
     \<lparr>oc_name = normalize rt (Name settings),
      oc_apiKey = TrimSpace (APIKey opts),
      oc_base = TrimRight (TrimSpace (BaseURL opts)) ''/'',
      oc_modelsPath = ensureLeadingSlash
        (if TrimSpace (ModelsPath settings) = [] then ''/models'' else ModelsPath settings),
      oc_chatPath = ensureLeadingSlash
        (if TrimSpace (ChatPath settings) = [] then ''/chat/completions'' else ChatPath settings),
      oc_authHeader =
        (if TrimSpace (AuthHeader settings) = [] then ''Authorization'' else AuthHeader settings),
      oc_authPrefix = (if AuthPrefix settings = [] then ''Bearer '' else AuthPrefix settings),
      oc_requireAPIKey = RequireAPIKey settings,
      oc_headers = Headers opts\<rparr>"

text \<open>\<open>NewOpenAICompatible\<close> of the registry: the constructor of a custom provider.\<close>

definition NewOpenAICompatible ::
    "runtime \<Rightarrow> OpenAICompatibleSettings \<Rightarrow> ClientOptions \<Rightarrow> string + openAICompatibleClient" where
  "NewOpenAICompatible rt settings opts =
     (let settings' = settings\<lparr>Name := normalize rt (Name settings)\<rparr> in
        if Name settings' = [] then Inl ''provider name is required''
        else if TrimSpace (BaseURL opts) = [] then Inl ''base URL is required''
        else Inr (newOpenAICompatibleClient rt settings' opts))"

definition requiresAPIKey :: "openAICompatibleClient \<Rightarrow> bool" where
  "requiresAPIKey c = oc_requireAPIKey c"

definition oc_setHeaders :: "runtime \<Rightarrow> openAICompatibleClient \<Rightarrow> http_request \<Rightarrow> http_request" where
  "oc_setHeaders rt c req =
     setStaticHeaders rt (oc_headers c)
       (if requiresAPIKey c \<and> oc_apiKey c \<noteq> []
        then Header_Set rt (oc_authHeader c) (oc_authPrefix c @ oc_apiKey c) req
        else req)"

text \<open>The loop of \<open>ListModels\<close> over \<open>resp.Data\<close>, given as the \<open>id\<close> of each entry.\<close>

fun oc_models :: "string list \<Rightarrow> Model list" where
  "oc_models [] = []"
| "oc_models (m # ms) =
     (let id = TrimSpace m in
        if id = [] then oc_models ms else \<lparr>ID = id, DisplayName = id\<rparr> # oc_models ms)"

definition oc_ListModels :: "runtime \<Rightarrow> (string \<Rightarrow> string list \<Rightarrow> string option \<times> string list)
    \<Rightarrow> openAICompatibleClient \<Rightarrow> http_request list
    \<Rightarrow> (string + Model list) \<times> http_request list" where
  "oc_ListModels rt unmarshal c sent =
     (if requiresAPIKey c \<and> oc_apiKey c = [] then
        (Inl (''API key not configured for '' @ oc_name c), sent)
      else
        (case NewRequest rt ''GET'' (joinURL (oc_base c) (oc_modelsPath c)) of
           Inl e \<Rightarrow> (Inl (''build request: '' @ e), sent)
         | Inr req \<Rightarrow>
             (case doJSON rt unmarshal (oc_setHeaders rt c req) None (Some []) sent of
                ((Some e, out), sent') \<Rightarrow> (Inl e, sent')
              | ((None, out), sent') \<Rightarrow>
                  (Inr (sortModels (oc_models (case out of Some resp \<Rightarrow> resp | None \<Rightarrow> []))),
                   sent'))))"

text \<open>The payload that \<open>askWithPayload\<close> builds.\<close>

definition chatPayload :: "AskRequest \<Rightarrow> bool \<Rightarrow> json" where
  "chatPayload reqBody includeResponseFormat =
     JObject
       ([(''model'', JString (Model reqBody)),
         (''messages'', JArray
            [JObject [(''role'', JString ''system''), (''content'', JString (Prompt reqBody))],
             JObject [(''role'', JString ''user''), (''content'', JString (Question reqBody))]]),
         (''temperature'', JNumber ''0.2'')]
        @ (if ExpectJSON reqBody \<and> includeResponseFormat
           then [(''response_format'', JObject [(''type'', JString ''json_object'')])]
           else []))"

text \<open>The response of the chat endpoint is read as the \<open>message.content\<close> of each of its
  \<open>choices\<close>. \<open>askWithPayload\<close> returns the response and the error.\<close>

definition askWithPayload :: "runtime \<Rightarrow> (string \<Rightarrow> json list \<Rightarrow> string option \<times> json list)
    \<Rightarrow> openAICompatibleClient \<Rightarrow> string \<Rightarrow> AskRequest \<Rightarrow> bool \<Rightarrow> http_request list
    \<Rightarrow> (json list \<times> string option) \<times> http_request list" where
  "askWithPayload rt unmarshal c u reqBody includeResponseFormat sent =
     (case NewRequest rt ''POST'' u of
        Inl e \<Rightarrow> (([], Some (''build request: '' @ e)), sent)
      | Inr req \<Rightarrow>
          (case doJSON rt unmarshal (oc_setHeaders rt c req)
                  (Some (chatPayload reqBody includeResponseFormat)) (Some []) sent of
             ((err, out), sent') \<Rightarrow>
               ((case out of Some resp \<Rightarrow> resp | None \<Rightarrow> [], err), sent')))"

text \<open>The loop of \<open>extractMessageContent\<close> over the items of an array.\<close>

fun textParts :: "json list \<Rightarrow> string list" where
  "textParts [] = []"
| "textParts (item # items) =
     (case item of
        JObject obj \<Rightarrow>
          (let text = (case map_of obj ''text'' of Some (JString t) \<Rightarrow> t | _ \<Rightarrow> []) in
             if TrimSpace text \<noteq> [] then text # textParts items else textParts items)
      | _ \<Rightarrow> textParts items)"

text \<open>What \<open>%T\<close> prints for a decoded JSON value.\<close>

definition goTypeName :: "json \<Rightarrow> string" where
  "goTypeName v =
     (case v of
        JNull \<Rightarrow> ''<nil>''
      | JBool b \<Rightarrow> ''bool''
      | JNumber n \<Rightarrow> ''float64''
      | JString s \<Rightarrow> ''string''
      | JArray a \<Rightarrow> ''[]interface {}''
      | JObject obj \<Rightarrow> ''map[string]interface {}'')"

definition extractMessageContent :: "json \<Rightarrow> string + string" where
  "extractMessageContent content =
     (case content of
        JString v \<Rightarrow> Inr (TrimSpace v)
      | JArray v \<Rightarrow>
          (let parts = textParts v in
             if parts = [] then Inl ''array content had no text parts''
             else Inr (TrimSpace (Join parts ''\<newline>'')))
      | _ \<Rightarrow> Inl (''unsupported content type '' @ goTypeName content))"

text \<open>The end of \<open>Ask\<close>, from the check of \<open>resp.Choices\<close> on.\<close>

definition oc_answer :: "openAICompatibleClient \<Rightarrow> json list \<Rightarrow> string + AskResponse" where
  "oc_answer c resp =
     (case resp of
        [] \<Rightarrow> Inl (''no choices returned by '' @ oc_name c)
      | content # rest \<Rightarrow>
          (case extractMessageContent content of
             Inl e \<Rightarrow> Inl (''decode '' @ oc_name c @ '' response content: '' @ e)
           | Inr text \<Rightarrow> Inr \<lparr>Text = text\<rparr>))"

definition oc_Ask :: "runtime \<Rightarrow> (string \<Rightarrow> json list \<Rightarrow> string option \<times> json list)
    \<Rightarrow> openAICompatibleClient \<Rightarrow> AskRequest \<Rightarrow> http_request list
    \<Rightarrow> (string + AskResponse) \<times> http_request list" where
  "oc_Ask rt unmarshal c reqBody sent =
     (case validateAskRequest reqBody of
        Some e \<Rightarrow> (Inl e, sent)
      | None \<Rightarrow>
          if requiresAPIKey c \<and> oc_apiKey c = [] then
            (Inl (''API key not configured for '' @ oc_name c), sent)
          else
            (let u = joinURL (oc_base c) (oc_chatPath c);
                 ((resp1, err1), sent1) = askWithPayload rt unmarshal c u reqBody True sent;
                 ((resp, err), sent2) =
                   (if err1 \<noteq> None \<and> ExpectJSON reqBody \<and> responseFormatLikelyUnsupported rt err1
                    then askWithPayload rt unmarshal c u reqBody False sent1
                    else ((resp1, err1), sent1))
             in case err of
                  Some e \<Rightarrow> (Inl e, sent2)
                | None \<Rightarrow> (oc_answer c resp, sent2)))"

section \<open>The Ollama client (ollama.go)\<close>

record ollamaClient =
  ol_base :: string

definition newOllamaClient :: "ClientOptions \<Rightarrow> ollamaClient" where
  "newOllamaClient opts =
     \<lparr>ol_base = TrimRight
        (TrimSpace (if TrimSpace (BaseURL opts) = [] then ''http://127.0.0.1:11434''
                    else BaseURL opts)) ''/''\<rparr>"

text \<open>The loop of \<open>ListModels\<close> over \<open>resp.Models\<close>, given as the \<open>name\<close> of each entry.\<close>

fun ol_models :: "string list \<Rightarrow> Model list" where
  "ol_models [] = []"
| "ol_models (m # ms) =
     (let id = TrimSpace m in
        if id = [] then ol_models ms else \<lparr>ID = id, DisplayName = id\<rparr> # ol_models ms)"

definition ol_ListModels :: "runtime \<Rightarrow> (string \<Rightarrow> string list \<Rightarrow> string option \<times> string list)
    \<Rightarrow> ollamaClient \<Rightarrow> http_request list \<Rightarrow> (string + Model list) \<times> http_request list" where
  "ol_ListModels rt unmarshal c sent =
     (case NewRequest rt ''GET'' (joinURL (ol_base c) ''/api/tags'') of
        Inl e \<Rightarrow> (Inl (''build request: '' @ e), sent)
      | Inr req \<Rightarrow>
          (case doJSON rt unmarshal req None (Some []) sent of
             ((Some e, out), sent') \<Rightarrow> (Inl e, sent')
           | ((None, out), sent') \<Rightarrow>
               (Inr (sortModels (ol_models (case out of Some resp \<Rightarrow> resp | None \<Rightarrow> []))),
                sent')))"

definition ol_payload :: "AskRequest \<Rightarrow> json" where
  "ol_payload reqBody =
     JObject
       ([(''model'', JString (Model reqBody)),
         (''messages'', JArray
            [JObject [(''role'', JString ''system''), (''content'', JString (Prompt reqBody))],
             JObject [(''role'', JString ''user''), (''content'', JString (Question reqBody))]]),
         (''stream'', JBool False)]
        @ (if ExpectJSON reqBody then [(''format'', JString ''json'')] else []))"

text \<open>The response of \<open>/api/chat\<close> is read as its \<open>message.content\<close>.\<close>

definition ol_Ask :: "runtime \<Rightarrow> (string \<Rightarrow> string \<Rightarrow> string option \<times> string)
    \<Rightarrow> ollamaClient \<Rightarrow> AskRequest \<Rightarrow> http_request list
    \<Rightarrow> (string + AskResponse) \<times> http_request list" where
  "ol_Ask rt unmarshal c reqBody sent =
     (case validateAskRequest reqBody of
        Some e \<Rightarrow> (Inl e, sent)
      | None \<Rightarrow>
          (case NewRequest rt ''POST'' (joinURL (ol_base c) ''/api/chat'') of
             Inl e \<Rightarrow> (Inl (''build request: '' @ e), sent)
           | Inr req \<Rightarrow>
               (case doJSON rt unmarshal req (Some (ol_payload reqBody)) (Some []) sent of
                  ((Some e, out), sent') \<Rightarrow> (Inl e, sent')
                | ((None, out), sent') \<Rightarrow>
                    (let content = (case out of Some resp \<Rightarrow> resp | None \<Rightarrow> []) in
                       if TrimSpace content = [] then
                         (Inl ''ollama response had empty content'', sent')
                       else (Inr \<lparr>Text = content\<rparr>, sent')))))"

section \<open>The Anthropic client\<close>

record anthropicClient =
  an_apiKey :: string
  an_base :: string
  an_headers :: "(string \<times> string) list"

definition newAnthropicClient :: "ClientOptions \<Rightarrow> anthropicClient" where
  "newAnthropicClient opts =
     \<lparr>an_apiKey = TrimSpace (APIKey opts),
      an_base = TrimRight
        (TrimSpace (if TrimSpace (BaseURL opts) = [] then ''https://api.anthropic.com''
                    else BaseURL opts)) ''/'',
      an_headers = Headers opts\<rparr>"

definition an_setHeaders :: "runtime \<Rightarrow> anthropicClient \<Rightarrow> http_request \<Rightarrow> http_request" where
  "an_setHeaders rt c req =
     setStaticHeaders rt (an_headers c)
       (Header_Set rt ''anthropic-version'' ''2023-06-01''
          (Header_Set rt ''x-api-key'' (an_apiKey c) req))"

text \<open>The loop of \<open>ListModels\<close> over \<open>resp.Data\<close>, given as the pair of \<open>id\<close> and
  \<open>display_name\<close> of each entry.\<close>

fun an_models :: "(string \<times> string) list \<Rightarrow> Model list" where
  "an_models [] = []"
| "an_models ((mid, mname) # ms) =
     (let id = TrimSpace mid in
        if id = [] then an_models ms
        else (let name = TrimSpace mname in
                \<lparr>ID = id, DisplayName = (if name = [] then id else name)\<rparr> # an_models ms))"

definition an_ListModels :: "runtime
    \<Rightarrow> (string \<Rightarrow> (string \<times> string) list \<Rightarrow> string option \<times> (string \<times> string) list)
    \<Rightarrow> anthropicClient \<Rightarrow> http_request list \<Rightarrow> (string + Model list) \<times> http_request list" where
  "an_ListModels rt unmarshal c sent =
     (if an_apiKey c = [] then (Inl ''ANTHROPIC_API_KEY not configured'', sent)
      else
        (case NewRequest rt ''GET'' (joinURL (an_base c) ''/v1/models'') of
           Inl e \<Rightarrow> (Inl (''build request: '' @ e), sent)
         | Inr req \<Rightarrow>
             (case doJSON rt unmarshal (an_setHeaders rt c req) None (Some []) sent of
                ((Some e, out), sent') \<Rightarrow> (Inl e, sent')
              | ((None, out), sent') \<Rightarrow>
                  (Inr (sortModels (an_models (case out of Some resp \<Rightarrow> resp | None \<Rightarrow> []))),
                   sent'))))"

definition an_payload :: "AskRequest \<Rightarrow> json" where
  "an_payload reqBody =
     JObject
       [(''model'', JString (Model reqBody)),
        (''max_tokens'', JNumber ''2048''),
        (''system'', JString (Prompt reqBody)),
        (''messages'', JArray
           [JObject
              [(''role'', JString ''user''),
               (''content'', JArray
                  [JObject [(''type'', JString ''text''),
                            (''text'', JString (Question reqBody))]])]])]"

text \<open>The loop of \<open>Ask\<close> over \<open>resp.Content\<close>, given as the pair of \<open>type\<close> and \<open>text\<close> of
  each block.\<close>

fun an_parts :: "(string \<times> string) list \<Rightarrow> string list" where
  "an_parts [] = []"
| "an_parts ((btype, btext) # blocks) =
     (if btype = ''text'' \<and> TrimSpace btext \<noteq> [] then btext # an_parts blocks
      else an_parts blocks)"

definition an_Ask :: "runtime
    \<Rightarrow> (string \<Rightarrow> (string \<times> string) list \<Rightarrow> string option \<times> (string \<times> string) list)
    \<Rightarrow> anthropicClient \<Rightarrow> AskRequest \<Rightarrow> http_request list
    \<Rightarrow> (string + AskResponse) \<times> http_request list" where
  "an_Ask rt unmarshal c reqBody sent =
     (case validateAskRequest reqBody of
        Some e \<Rightarrow> (Inl e, sent)
      | None \<Rightarrow>
          if an_apiKey c = [] then (Inl ''ANTHROPIC_API_KEY not configured'', sent)
          else
            (case NewRequest rt ''POST'' (joinURL (an_base c) ''/v1/messages'') of
               Inl e \<Rightarrow> (Inl (''build request: '' @ e), sent)
             | Inr req \<Rightarrow>
                 (case doJSON rt unmarshal (an_setHeaders rt c req) (Some (an_payload reqBody))
                         (Some []) sent of
                    ((Some e, out), sent') \<Rightarrow> (Inl e, sent')
                  | ((None, out), sent') \<Rightarrow>
                      (let parts = an_parts (case out of Some resp \<Rightarrow> resp | None \<Rightarrow> []) in
                         if parts = [] then
                           (Inl ''no text content returned by Anthropic'', sent')
                         else (Inr \<lparr>Text = Join parts ''\<newline>''\<rparr>, sent')))))"

section \<open>The Gemini client\<close>

record geminiClient =
  ge_apiKey :: string
  ge_base :: string
  ge_headers :: "(string \<times> string) list"

definition newGeminiClient :: "ClientOptions \<Rightarrow> geminiClient" where
  "newGeminiClient opts =
     \<lparr>ge_apiKey = TrimSpace (APIKey opts),
      ge_base = TrimRight
        (TrimSpace (if TrimSpace (BaseURL opts) = []
                    then ''https://generativelanguage.googleapis.com/v1beta''
                    else BaseURL opts)) ''/'',
      ge_headers = Headers opts\<rparr>"

definition ge_setHeaders :: "runtime \<Rightarrow> geminiClient \<Rightarrow> http_request \<Rightarrow> http_request" where
  "ge_setHeaders rt c req =
     setStaticHeaders rt (ge_headers c) (Header_Set rt ''x-goog-api-key'' (ge_apiKey c) req)"

fun supportsGenerateContent :: "string list \<Rightarrow> bool" where
  "supportsGenerateContent [] = False"
| "supportsGenerateContent (method # methods) =
     (if EqualFold (TrimSpace method) ''generateContent'' then True
      else supportsGenerateContent methods)"

record geminiModelEntry =
  gm_name :: string
  gm_displayName :: string
  gm_supportedGenerationMethods :: "string list"

text \<open>The loop of \<open>ListModels\<close> over \<open>resp.Models\<close>.\<close>

fun ge_models :: "geminiModelEntry list \<Rightarrow> Model list" where
  "ge_models [] = []"
| "ge_models (m # ms) =
     (if \<not> supportsGenerateContent (gm_supportedGenerationMethods m) then ge_models ms
      else
        (let id = TrimPrefix (TrimSpace (gm_name m)) ''models/'' in
           if id = [] then ge_models ms
           else (let display = TrimSpace (gm_displayName m) in
                   \<lparr>ID = id, DisplayName = (if display = [] then id else display)\<rparr>
                   # ge_models ms)))"

definition ge_ListModels :: "runtime
    \<Rightarrow> (string \<Rightarrow> geminiModelEntry list \<Rightarrow> string option \<times> geminiModelEntry list)
    \<Rightarrow> geminiClient \<Rightarrow> http_request list \<Rightarrow> (string + Model list) \<times> http_request list" where
  "ge_ListModels rt unmarshal c sent =
     (if ge_apiKey c = [] then (Inl ''GEMINI_API_KEY not configured'', sent)
      else
        (case NewRequest rt ''GET'' (joinURL (ge_base c) ''/models'') of
           Inl e \<Rightarrow> (Inl (''build request: '' @ e), sent)
         | Inr req \<Rightarrow>
             (case doJSON rt unmarshal (ge_setHeaders rt c req) None (Some []) sent of
                ((Some e, out), sent') \<Rightarrow> (Inl e, sent')
              | ((None, out), sent') \<Rightarrow>
                  (Inr (sortModels (ge_models (case out of Some resp \<Rightarrow> resp | None \<Rightarrow> []))),
                   sent'))))"

text \<open>The payload of \<open>Ask\<close>; \<open>withMimeType\<close> is \<open>reqBody.ExpectJSON\<close> for the first request
  and false for \<open>payloadNoFormat\<close>.\<close>

definition ge_payload :: "AskRequest \<Rightarrow> bool \<Rightarrow> json" where
  "ge_payload reqBody withMimeType =
     JObject
       [(''systemInstruction'', JObject
           [(''parts'', JArray [JObject [(''text'', JString (Prompt reqBody))]])]),
        (''contents'', JArray
           [JObject
              [(''role'', JString ''user''),
               (''parts'', JArray [JObject [(''text'', JString (Question reqBody))]])]]),
        (''generationConfig'', JObject
           ([(''temperature'', JNumber ''0.2'')]
            @ (if withMimeType then [(''responseMimeType'', JString ''application/json'')]
               else [])))]"

text \<open>The model id and the path of \<open>Ask\<close>.\<close>

definition ge_modelID :: "AskRequest \<Rightarrow> string" where
  "ge_modelID reqBody = TrimPrefix (TrimSpace (Model reqBody)) ''models/''"

definition ge_path :: "string \<Rightarrow> string" where
  "ge_path model = ''/models/'' @ model @ '':generateContent''"

text \<open>The response is read as the texts of the parts of each candidate. The end of
  \<open>Ask\<close>, from the check of \<open>resp.Candidates\<close> on:\<close>

fun ge_parts :: "string list \<Rightarrow> string list" where
  "ge_parts [] = []"
| "ge_parts (t # ts) = (if TrimSpace t \<noteq> [] then t # ge_parts ts else ge_parts ts)"

definition ge_answer :: "string list list \<Rightarrow> string + AskResponse" where
  "ge_answer candidates =
     (case candidates of
        [] \<Rightarrow> Inl ''no candidates returned by Gemini''
      | first # rest \<Rightarrow>
          (let parts = ge_parts first in
             if parts = [] then Inl ''Gemini response had no text parts''
             else Inr \<lparr>Text = Join parts ''\<newline>''\<rparr>))"

definition ge_Ask :: "runtime
    \<Rightarrow> (string \<Rightarrow> string list list \<Rightarrow> string option \<times> string list list)
    \<Rightarrow> geminiClient \<Rightarrow> AskRequest \<Rightarrow> http_request list
    \<Rightarrow> (string + AskResponse) \<times> http_request list" where
  "ge_Ask rt unmarshal c reqBody sent =
     (case validateAskRequest reqBody of
        Some e \<Rightarrow> (Inl e, sent)
      | None \<Rightarrow>
          if ge_apiKey c = [] then (Inl ''GEMINI_API_KEY not configured'', sent)
          else if ge_modelID reqBody = [] then (Inl ''model is required'', sent)
          else
            (case NewRequest rt ''POST'' (joinURL (ge_base c) (ge_path (ge_modelID reqBody))) of
               Inl e \<Rightarrow> (Inl (''build request: '' @ e), sent)
             | Inr req \<Rightarrow>
                 (case doJSON rt unmarshal (ge_setHeaders rt c req)
                         (Some (ge_payload reqBody (ExpectJSON reqBody))) (Some []) sent of
                    ((None, out), sent1) \<Rightarrow>
                      (ge_answer (case out of Some resp \<Rightarrow> resp | None \<Rightarrow> []), sent1)
                  | ((Some e, out), sent1) \<Rightarrow>
                      if ExpectJSON reqBody \<and> responseFormatLikelyUnsupported rt (Some e) then
                        (case NewRequest rt ''POST''
                                (joinURL (ge_base c) (ge_path (ge_modelID reqBody))) of
                           Inl buildErr \<Rightarrow> (Inl (''build retry request: '' @ buildErr), sent1)
                         | Inr retryReq \<Rightarrow>
                             (case doJSON rt unmarshal (ge_setHeaders rt c retryReq)
                                     (Some (ge_payload reqBody False)) out sent1 of
                                ((Some retryErr, out2), sent2) \<Rightarrow> (Inl retryErr, sent2)
                              | ((None, out2), sent2) \<Rightarrow>
                                  (ge_answer (case out2 of Some resp \<Rightarrow> resp | None \<Rightarrow> []),
                                   sent2)))
                      else (Inl e, sent1))))"

section \<open>Properties of the helpers\<close>

subsection \<open>White space\<close>

lemma spaceRunes_prefix_free:
  "e \<in> set spaceRunes \<Longrightarrow> e' \<in> set spaceRunes \<Longrightarrow> prefix e e' \<Longrightarrow> e = e'"
  unfolding spaceRunes_def by (simp only: set_simps insert_iff empty_iff) (elim disjE; simp)

lemma spaceRunes_newline:
  "e \<in> set spaceRunes \<Longrightarrow> i < length e \<Longrightarrow> e ! i = CHR 0x0A \<Longrightarrow> e = [CHR 0x0A]"
  unfolding spaceRunes_def
  by (simp only: set_simps insert_iff empty_iff) (elim disjE; simp add: nth_Cons' split: if_splits)

lemma newline_in_spaceRunes: "[CHR 0x0A] \<in> set spaceRunes"
  by (simp add: spaceRunes_def)

lemma spaceRunes_unique:
  assumes "e \<in> set spaceRunes" "e' \<in> set spaceRunes" "prefix e s" "prefix e' s"
  shows "e = e'"
proof -
  from assms(3,4) have "prefix e e' \<or> prefix e' e"
    by (rule prefix_same_cases)
  with assms(1,2) show ?thesis
    by (auto dest: spaceRunes_prefix_free)
qed

lemma find_prefix_unique:
  assumes "e \<in> set spaceRunes" "prefix e s"
  shows "List.find (\<lambda>e. prefix e s) spaceRunes = Some e"
proof (cases "List.find (\<lambda>e. prefix e s) spaceRunes")
  case None
  with assms show ?thesis by (auto simp: find_None_iff)
next
  case (Some e')
  from find_spaceRunes_prefix(1,2) [OF Some] assms show ?thesis
    using Some spaceRunes_unique by blast
qed

lemma TrimLeftSpace_no_prefix:
  "List.find (\<lambda>e. prefix e (TrimLeftSpace s)) spaceRunes = None"
proof (induction s rule: TrimLeftSpace.induct)
  case (1 s)
  show ?case
  proof (cases "List.find (\<lambda>e. prefix e s) spaceRunes")
    case None
    then show ?thesis by (simp add: TrimLeftSpace.simps [of s])
  next
    case (Some e)
    with 1 show ?thesis by (simp add: TrimLeftSpace.simps [of s])
  qed
qed

lemma TrimRightSpace_no_suffix:
  "List.find (\<lambda>e. suffix e (TrimRightSpace s)) spaceRunes = None"
proof (induction s rule: TrimRightSpace.induct)
  case (1 s)
  show ?case
  proof (cases "List.find (\<lambda>e. suffix e s) spaceRunes")
    case None
    then show ?thesis by (simp add: TrimRightSpace.simps [of s])
  next
    case (Some e)
    with 1 show ?thesis by (simp add: TrimRightSpace.simps [of s])
  qed
qed

lemma TrimRightSpace_prefix: "prefix (TrimRightSpace s) s"
proof (induction s rule: TrimRightSpace.induct)
  case (1 s)
  show ?case
  proof (cases "List.find (\<lambda>e. suffix e s) spaceRunes")
    case None
    then show ?thesis by (simp add: TrimRightSpace.simps [of s])
  next
    case (Some e)
    with 1 have "prefix (TrimRightSpace s) (take (length s - length e) s)"
      by (simp add: TrimRightSpace.simps [of s])
    moreover have "prefix (take (length s - length e) s) s"
      by (rule take_is_prefix)
    ultimately show ?thesis by (rule prefix_order.trans)
  qed
qed

lemma TrimLeftSpace_fixed:
  "List.find (\<lambda>e. prefix e s) spaceRunes = None \<Longrightarrow> TrimLeftSpace s = s"
  by (simp add: TrimLeftSpace.simps [of s])

lemma TrimRightSpace_fixed:
  "List.find (\<lambda>e. suffix e s) spaceRunes = None \<Longrightarrow> TrimRightSpace s = s"
  by (simp add: TrimRightSpace.simps [of s])

lemma TrimSpace_no_prefix: "List.find (\<lambda>e. prefix e (TrimSpace s)) spaceRunes = None"
proof -
  have "prefix (TrimSpace s) (TrimLeftSpace s)"
    unfolding TrimSpace_def by (rule TrimRightSpace_prefix)
  then show ?thesis
    using TrimLeftSpace_no_prefix [of s]
    by (auto simp: find_None_iff dest: prefix_order.trans)
qed

lemma TrimSpace_no_suffix: "List.find (\<lambda>e. suffix e (TrimSpace s)) spaceRunes = None"
  unfolding TrimSpace_def by (rule TrimRightSpace_no_suffix)

lemma TrimSpace_idem: "TrimSpace (TrimSpace s) = TrimSpace s"
proof -
  have "TrimLeftSpace (TrimSpace s) = TrimSpace s"
    by (rule TrimLeftSpace_fixed) (rule TrimSpace_no_prefix)
  moreover have "TrimRightSpace (TrimSpace s) = TrimSpace s"
    by (rule TrimRightSpace_fixed) (rule TrimSpace_no_suffix)
  ultimately show ?thesis
    by (simp add: TrimSpace_def [of "TrimSpace s"])
qed

lemma TrimRightSpace_Nil: "TrimRightSpace [] = []"
  by (rule TrimRightSpace_fixed) (auto simp: find_None_iff dest: spaceRunes_nonempty)

lemma TrimLeftSpace_Nil: "TrimLeftSpace [] = []"
  by (rule TrimLeftSpace_fixed) (auto simp: find_None_iff dest: spaceRunes_nonempty)

lemma TrimSpace_Nil_iff: "TrimSpace s = [] \<longleftrightarrow> TrimLeftSpace s = []"
proof
  assume "TrimLeftSpace s = []"
  then show "TrimSpace s = []"
    by (simp add: TrimSpace_def TrimRightSpace_Nil)
next
  assume e: "TrimSpace s = []"
  have *: "TrimRightSpace t = [] \<Longrightarrow> t \<noteq> [] \<Longrightarrow> \<exists>e\<in>set spaceRunes. prefix e t" for t
  proof (induction t rule: TrimRightSpace.induct)
    case (1 t)
    show ?case
    proof (cases "List.find (\<lambda>e. suffix e t) spaceRunes")
      case None
      with 1 show ?thesis by (simp add: TrimRightSpace.simps [of t])
    next
      case (Some e)
      note f = find_spaceRunes_suffix [OF Some]
      let ?t' = "take (length t - length e) t"
      from f(2) have t: "t = ?t' @ e"
        by (auto simp: suffix_def)
      from Some 1(2) have r: "TrimRightSpace ?t' = []"
        by (simp add: TrimRightSpace.simps [of t])
      show ?thesis
      proof (cases "?t' = []")
        case True
        with t have "t = e" by simp
        with f(1) show ?thesis by auto
      next
        case False
        from 1(1) [OF Some r False] obtain e' where "e' \<in> set spaceRunes" "prefix e' ?t'"
          by blast
        moreover have "prefix ?t' t" by (rule take_is_prefix)
        ultimately show ?thesis
          by (blast dest: prefix_order.trans)
      qed
    qed
  qed
  show "TrimLeftSpace s = []"
  proof (rule ccontr)
    assume n: "TrimLeftSpace s \<noteq> []"
    from e have "TrimRightSpace (TrimLeftSpace s) = []" by (simp add: TrimSpace_def)
    from * [OF this n] TrimLeftSpace_no_prefix [of s] show False
      by (auto simp: find_None_iff)
  qed
qed

lemma TrimLeftSpace_newline_split:
  "TrimLeftSpace (a @ CHR 0x0A # b) = [] \<Longrightarrow> TrimLeftSpace a = [] \<and> TrimLeftSpace b = []"
proof (induction a rule: TrimLeftSpace.induct)
  case (1 a)
  let ?s = "a @ CHR 0x0A # b"
  show ?case
  proof (cases "List.find (\<lambda>e. prefix e a) spaceRunes")
    case (Some e)
    note f = find_spaceRunes_prefix [OF Some]
    from f(2) have "prefix e ?s" by (simp add: prefix_prefix)
    with f(1) have "List.find (\<lambda>e. prefix e ?s) spaceRunes = Some e"
      by (rule find_prefix_unique)
    with 1(2) f(4) have "TrimLeftSpace (drop (length e) a @ CHR 0x0A # b) = []"
      by (simp add: TrimLeftSpace.simps [of ?s])
    from 1(1) [OF Some this] Some show ?thesis
      by (simp add: TrimLeftSpace.simps [of a])
  next
    case None
    from 1(2) obtain e where fe: "List.find (\<lambda>e. prefix e ?s) spaceRunes = Some e"
      by (cases "List.find (\<lambda>e. prefix e ?s) spaceRunes")
        (auto simp: TrimLeftSpace.simps [of ?s])
    note f = find_spaceRunes_prefix [OF fe]
    from None f(1) have np: "\<not> prefix e a" by (auto simp: find_None_iff)
    with f(2) have la: "length a < length e"
      by (metis prefix_append prefix_length_prefix linorder_not_less prefix_order.order_refl prefix_def)
    with f(2) have "e ! length a = CHR 0x0A"
      by (auto simp: prefix_def nth_append dest!: arg_cong [where f = "\<lambda>l. l ! length a"])
    with f(1) la have e: "e = [CHR 0x0A]"
      by (auto dest: spaceRunes_newline)
    with la have a: "a = []" by simp
    with fe e 1(2) have "TrimLeftSpace b = []"
      by (simp add: TrimLeftSpace.simps [of "CHR 0x0A # b"])
    with a None show ?thesis
      by (simp add: TrimLeftSpace_Nil)
  qed
qed

lemma TrimSpace_Join_Nil:
  "TrimSpace (Join parts ''\<newline>'') = [] \<Longrightarrow> p \<in> set parts \<Longrightarrow> TrimSpace p = []"
proof (induction parts "''\<newline>''" rule: Join.induct)
  case 1
  then show ?case by simp
next
  case (2 q)
  then show ?case by simp
next
  case (3 q r ps)
  from 3(2) have "TrimLeftSpace (q @ CHR 0x0A # Join (r # ps) ''\<newline>'') = []"
    by (simp add: TrimSpace_Nil_iff)
  then have "TrimLeftSpace q = []" and "TrimLeftSpace (Join (r # ps) ''\<newline>'') = []"
    by (auto dest: TrimLeftSpace_newline_split)
  with 3(1,3) show ?case
    by (auto simp: TrimSpace_Nil_iff)
qed

subsection \<open>Sorting\<close>

lemma set_insertLess: "set (insertLess lt x ys) = insert x (set ys)"
  by (induction ys) auto

lemma length_insertLess: "length (insertLess lt x ys) = Suc (length ys)"
  by (induction ys) auto

lemma sorted_insertLess_key:
  fixes f :: "'a \<Rightarrow> 'k::linorder"
  assumes "sorted (map f ys)"
  shows "sorted (map f (insertLess (\<lambda>a b. f a < f b) x ys))"
  using assms
proof (induction ys)
  case Nil
  then show ?case by simp
next
  case (Cons y ys)
  show ?case
  proof (cases "f x < f y")
    case True
    with Cons.prems show ?thesis by (auto simp: less_imp_le)
  next
    case False
    with Cons show ?thesis by (auto simp: set_insertLess)
  qed
qed

lemma sorted_foldl_insertLess:
  fixes f :: "'a \<Rightarrow> 'k::linorder"
  shows "sorted (map f acc) \<Longrightarrow>
    sorted (map f (foldl (\<lambda>acc x. insertLess (\<lambda>a b. f a < f b) x acc) acc xs))"
  by (induction xs arbitrary: acc) (simp_all add: sorted_insertLess_key)

lemma set_foldl_insertLess:
  "set (foldl (\<lambda>acc x. insertLess lt x acc) acc xs) = set acc \<union> set xs"
  by (induction xs arbitrary: acc) (auto simp: set_insertLess)

lemma length_foldl_insertLess:
  "length (foldl (\<lambda>acc x. insertLess lt x acc) acc xs) = length acc + length xs"
  by (induction xs arbitrary: acc) (auto simp: length_insertLess)

lemma sorted_sortModels: "sorted (map ID (sortModels ms))"
  unfolding sortModels_def sortSlice_def by (rule sorted_foldl_insertLess) simp

lemma set_sortModels: "set (sortModels ms) = set ms"
  unfolding sortModels_def sortSlice_def by (simp add: set_foldl_insertLess)

lemma length_sortModels: "length (sortModels ms) = length ms"
  unfolding sortModels_def sortSlice_def by (simp add: length_foldl_insertLess)

subsection \<open>The loops over the catalog\<close>

lemma oc_models_ID: "m \<in> set (oc_models ids) \<Longrightarrow> ID m \<noteq> [] \<and> ID m \<in> TrimSpace ` set ids"
  by (induction ids) (auto simp: Let_def split: if_splits)

lemma ol_models_ID: "m \<in> set (ol_models ids) \<Longrightarrow> ID m \<noteq> [] \<and> ID m \<in> TrimSpace ` set ids"
  by (induction ids) (auto simp: Let_def split: if_splits)

lemma an_models_ID:
  "m \<in> set (an_models es) \<Longrightarrow> ID m \<noteq> [] \<and> ID m \<in> (\<lambda>e. TrimSpace (fst e)) ` set es"
  by (induction es rule: an_models.induct) (auto simp: Let_def split: if_splits)

lemma ge_models_ID:
  "m \<in> set (ge_models es) \<Longrightarrow>
     ID m \<noteq> [] \<and> ID m \<in> (\<lambda>e. TrimPrefix (TrimSpace (gm_name e)) ''models/'') ` set es"
  by (induction es) (auto simp: Let_def split: if_splits)

lemma oc_ListModels_result:
  assumes "oc_ListModels rt un c sent = (Inr ms, sent')"
  shows "\<exists>ids. ms = sortModels (oc_models ids)"
proof -
  from assms have
    "ms = sortModels (oc_models []) \<or> (\<exists>ids. ms = sortModels (oc_models ids))"
    by (auto simp: oc_ListModels_def split: if_splits sum.splits prod.splits option.splits)
  then show ?thesis by blast
qed

lemma ol_ListModels_result:
  assumes "ol_ListModels rt un c sent = (Inr ms, sent')"
  shows "\<exists>ids. ms = sortModels (ol_models ids)"
proof -
  from assms have
    "ms = sortModels (ol_models []) \<or> (\<exists>ids. ms = sortModels (ol_models ids))"
    by (auto simp: ol_ListModels_def split: if_splits sum.splits prod.splits option.splits)
  then show ?thesis by blast
qed

lemma an_ListModels_result:
  assumes "an_ListModels rt un c sent = (Inr ms, sent')"
  shows "\<exists>es. ms = sortModels (an_models es)"
proof -
  from assms have
    "ms = sortModels (an_models []) \<or> (\<exists>es. ms = sortModels (an_models es))"
    by (auto simp: an_ListModels_def split: if_splits sum.splits prod.splits option.splits)
  then show ?thesis by blast
qed

lemma ge_ListModels_result:
  assumes "ge_ListModels rt un c sent = (Inr ms, sent')"
  shows "\<exists>es. ms = sortModels (ge_models es)"
proof -
  from assms have
    "ms = sortModels (ge_models []) \<or> (\<exists>es. ms = sortModels (ge_models es))"
    by (auto simp: ge_ListModels_def split: if_splits sum.splits prod.splits option.splits)
  then show ?thesis by blast
qed

section \<open>Examples\<close>

text \<open>
  A runtime for the examples: requests always build, a payload is written as \<open>{}\<close>
  (the examples do not read it), header keys are kept as they are written, and lower
  case is that of the ASCII letters (the messages of the examples are ASCII).
\<close>

definition exampleRuntime :: "(http_request list \<Rightarrow> http_result) \<Rightarrow> runtime" where
  "exampleRuntime srv =
     \<lparr>server = srv,
      json_Marshal = (\<lambda>j. Inr ''{}''),
      url_error = (\<lambda>u. None),
      strings_ToLower = map asciiLower,
      canonicalHeaderKey = (\<lambda>k. k)\<rparr>"

text \<open>A stand-in for \<open>json.Unmarshal\<close>: the bodies of the table decode to the values
  beside them, every other body is an error.\<close>

definition exampleUnmarshal :: "(string \<times> 'a) list \<Rightarrow> string \<Rightarrow> 'a \<Rightarrow> string option \<times> 'a" where
  "exampleUnmarshal table body v =
     (case map_of table body of
        Some v' \<Rightarrow> (None, v')
      | None \<Rightarrow> (Some ''invalid character'', v))"

definition getModels :: http_request where
  "getModels = \<lparr>req_method = ''GET'', req_url = ''http://127.0.0.1:11434/api/tags'',
     req_header = [], req_body = None, req_contentLength = 0\<rparr>"

definition blankModelRequest :: AskRequest where
  "blankModelRequest = \<lparr>Model = ''  '', Prompt = ''p'', Question = ''q'', ExpectJSON = True\<rparr>"

definition blankQuestionRequest :: AskRequest where
  "blankQuestionRequest = \<lparr>Model = ''m'', Prompt = ''p'', Question = [CHR 0x09, CHR 0xC2, CHR 0xA0],
     ExpectJSON = False\<rparr>"

text \<open>The catalogs of the examples, as the server sends them and as the decoder of each
  client reads them.\<close>

definition openaiCatalog :: string where
  \<open>openaiCatalog = ''{"data":[{"id":"gpt-b"},{"id":"  "},{"id":"gpt-a"}]}''\<close>

definition anthropicCatalog :: string where
  \<open>anthropicCatalog = ''{"data":[{"id":"claude-b","display_name":"Claude B"},{"id":" ","display_name":"none"},{"id":"claude-a"}]}''\<close>

definition geminiCatalog :: string where
  \<open>geminiCatalog = ''{"models":[{"name":"models/gemini-2.0-flash","displayName":"Gemini 2.0 Flash","supportedGenerationMethods":["generateContent"]},{"name":"models/text-embedding-004","displayName":"Text Embedding","supportedGenerationMethods":["embedContent"]},{"name":"models/gemini-1.5-pro","supportedGenerationMethods":["countTokens","GenerateContent"]}]}''\<close>

definition ollamaCatalog :: string where
  \<open>ollamaCatalog = ''{"models":[{"name":"mistral"},{"name":"llama3.2"},{"name":""}]}''\<close>

definition geminiEntries :: "geminiModelEntry list" where
  "geminiEntries =
     [\<lparr>gm_name = ''models/gemini-2.0-flash'', gm_displayName = ''Gemini 2.0 Flash'',
       gm_supportedGenerationMethods = [''generateContent'']\<rparr>,
      \<lparr>gm_name = ''models/text-embedding-004'', gm_displayName = ''Text Embedding'',
       gm_supportedGenerationMethods = [''embedContent'']\<rparr>,
      \<lparr>gm_name = ''models/gemini-1.5-pro'', gm_displayName = [],
       gm_supportedGenerationMethods = [''countTokens'', ''GenerateContent'']\<rparr>]"

definition okServer :: "string \<Rightarrow> http_request list \<Rightarrow> http_result" where
  "okServer body reqs = HTTPResponse 200 ''200 OK'' body"

definition proxyClient :: openAICompatibleClient where
  "proxyClient =
     newOpenAICompatibleClient (exampleRuntime (okServer []))
       \<lparr>Name = ''proxy'', ModelsPath = [], ChatPath = [], AuthHeader = [], AuthPrefix = [],
        RequireAPIKey = True\<rparr>
       \<lparr>APIKey = ''test-key'', BaseURL = ''http://localhost/v1'', Headers = []\<rparr>"

definition anthropicExample :: anthropicClient where
  "anthropicExample = newAnthropicClient \<lparr>APIKey = ''ak-test'', BaseURL = [], Headers = []\<rparr>"

definition geminiExample :: geminiClient where
  "geminiExample = newGeminiClient \<lparr>APIKey = ''g-test'', BaseURL = [], Headers = []\<rparr>"

definition ollamaExample :: ollamaClient where
  "ollamaExample = newOllamaClient \<lparr>APIKey = [], BaseURL = [], Headers = []\<rparr>"

text \<open>A server that rejects the first request it sees for its \<open>response_format\<close> and
  answers the second.\<close>

definition chatError :: string where
  \<open>chatError = ''{"error":{"message":"Unknown parameter: response_format"}}''\<close>

definition chatReply :: string where
  \<open>chatReply = ''{"choices":[{"message":{"content":"ok"}}]}''\<close>

definition fallbackServer :: "http_request list \<Rightarrow> http_result" where
  "fallbackServer reqs =
     (if length reqs = 1 then HTTPResponse 400 ''400 Bad Request'' chatError
      else HTTPResponse 200 ''200 OK'' chatReply)"

definition jsonRequest :: AskRequest where
  "jsonRequest = \<lparr>Model = ''gpt-test'', Prompt = ''system'', Question = ''hello'',
     ExpectJSON = True\<rparr>"

text \<open>A custom provider that requires no key, built with a key in its options.\<close>

definition customSettings :: OpenAICompatibleSettings where
  "customSettings = \<lparr>Name = ''myproxy'', ModelsPath = [], ChatPath = ''/chat/completions'',
     AuthHeader = [], AuthPrefix = [], RequireAPIKey = False\<rparr>"

definition customOptions :: ClientOptions where
  "customOptions = \<lparr>APIKey = ''secret'', BaseURL = ''http://localhost:8080'',
     Headers = [(''X-Title'', ''ask'')]\<rparr>"

definition customClient :: openAICompatibleClient where
  "customClient = newOpenAICompatibleClient (exampleRuntime (okServer chatReply))
     customSettings customOptions"

definition plainRequest :: AskRequest where
  "plainRequest = \<lparr>Model = ''m'', Prompt = ''p'', Question = ''q'', ExpectJSON = False\<rparr>"

definition geminiModelsRequest :: http_request where
  "geminiModelsRequest =
     \<lparr>req_method = ''GET'',
      req_url = ''https://generativelanguage.googleapis.com/v1beta/models'',
      req_header = [], req_body = None, req_contentLength = 0\<rparr>"

definition prefixOnlyRequest :: AskRequest where
  "prefixOnlyRequest = \<lparr>Model = ''models/'', Prompt = ''p'', Question = ''q'',
     ExpectJSON = False\<rparr>"

definition geminiReply :: string where
  \<open>geminiReply = ''{"candidates":[{"content":{"parts":[{"text":"ok"}]}}]}''\<close>

definition flashRequest :: AskRequest where
  "flashRequest = \<lparr>Model = ''models/gemini-2.0-flash'', Prompt = ''system prompt'',
     Question = ''question'', ExpectJSON = True\<rparr>"

text \<open>Replies whose text is padded with spaces, and a reply whose content is empty.\<close>

definition ollamaReply :: string where
  \<open>ollamaReply = ''{"message":{"content":" hi "}}''\<close>

definition anthropicReply :: string where
  \<open>anthropicReply = ''{"content":[{"type":"text","text":" hi "}]}''\<close>

definition geminiPaddedReply :: string where
  \<open>geminiPaddedReply = ''{"candidates":[{"content":{"parts":[{"text":" hi "}]}}]}''\<close>

definition chatEmptyReply :: string where
  \<open>chatEmptyReply = ''{"choices":[{"message":{"content":""}}]}''\<close>

text \<open>Replies with no usable content, a Gemini server that rejects the response format of
  the first request it sees, and replies of the chat endpoint whose content is a list, is
  missing or is \<open>null\<close>.\<close>

definition ollamaBlankReply :: string where
  \<open>ollamaBlankReply = ''{"message":{"content":" "}}''\<close>

definition anthropicToolReply :: string where
  \<open>anthropicToolReply = ''{"content":[{"type":"tool_use","id":"t1"},{"type":"text","text":" "}]}''\<close>

definition geminiNoCandidatesReply :: string where
  \<open>geminiNoCandidatesReply = ''{"candidates":[]}''\<close>

definition geminiBlankReply :: string where
  \<open>geminiBlankReply = ''{"candidates":[{"content":{"parts":[{"text":" "}]}}]}''\<close>

definition geminiError :: string where
  \<open>geminiError = ''{"error":{"message":"Invalid JSON payload: unknown field responseMimeType"}}''\<close>

definition geminiFallbackServer :: "http_request list \<Rightarrow> http_result" where
  "geminiFallbackServer reqs =
     (if length reqs = 1 then HTTPResponse 400 ''400 Bad Request'' geminiError
      else HTTPResponse 200 ''200 OK'' geminiPaddedReply)"

definition chatListReply :: string where
  \<open>chatListReply = ''{"choices":[{"message":{"content":[{"type":"text","text":"part-1"},{"type":"image_url"},{"type":"text","text":" "},{"type":"text","text":"part-2 "}]}}]}''\<close>

definition chatListItems :: "json list" where
  "chatListItems =
     [JObject [(''type'', JString ''text''), (''text'', JString ''part-1'')],
      JObject [(''type'', JString ''image_url'')],
      JObject [(''type'', JString ''text''), (''text'', JString '' '')],
      JObject [(''type'', JString ''text''), (''text'', JString ''part-2 '')]]"

definition chatBlankListReply :: string where
  \<open>chatBlankListReply = ''{"choices":[{"message":{"content":[{"type":"image_url"},{"type":"text","text":" "}]}}]}''\<close>

definition chatBlankListItems :: "json list" where
  "chatBlankListItems =
     [JObject [(''type'', JString ''image_url'')],
      JObject [(''type'', JString ''text''), (''text'', JString '' '')]]"

definition chatNoChoicesReply :: string where
  \<open>chatNoChoicesReply = ''{"choices":[]}''\<close>

definition chatNullReply :: string where
  \<open>chatNullReply = ''{"choices":[{"message":{"content":null}}]}''\<close>

text \<open>A custom provider that requires no key, configured with a static \<open>Authorization\<close>
  header.\<close>

definition basicAuthOptions :: ClientOptions where
  "basicAuthOptions = \<lparr>APIKey = ''secret'', BaseURL = ''http://localhost:8080'',
     Headers = [(''Authorization'', ''Basic abc'')]\<rparr>"

definition basicAuthClient :: openAICompatibleClient where
  "basicAuthClient = newOpenAICompatibleClient (exampleRuntime (okServer chatReply))
     customSettings basicAuthOptions"

section \<open>The transport routine\<close>

text \<open>
  C9. When the request went out and a response came back in full: a status code of 400 or
  more makes \<open>doJSON\<close> return the error \<open>provider returned <status>: <body>\<close>, the body cut
  after 700 bytes (with \<open>...\<close> after the cut), and leaves \<open>out\<close> as it was; below 400, a
  body that is empty after trimming leaves \<open>out\<close> as it was with no error, and any other
  body is decoded into \<open>out\<close>, the decoder's error being returned with the cut body.
\<close>

theorem doJSON_classifies_response:
  assumes "attachPayload rt req payload = Inr req'"
    and "server rt (sent @ [req']) = HTTPResponse code status body"
  shows "(400 \<le> code \<longrightarrow>
            doJSON rt unmarshal req payload out sent =
              ((Some (''provider returned '' @ status @ '': '' @ truncate_str body 700), out),
               sent @ [req'])) \<and>
         truncate_str body 700 = (if length body \<le> 700 then body else take 700 body @ ''...'') \<and>
         (code < 400 \<and> TrimSpace body = [] \<longrightarrow>
            doJSON rt unmarshal req payload out sent = ((None, out), sent @ [req'])) \<and>
         (code < 400 \<and> TrimSpace body \<noteq> [] \<longrightarrow>
            doJSON rt unmarshal req payload (Some v) sent =
              (case unmarshal body v of
                 (None, v') \<Rightarrow> ((None, Some v'), sent @ [req'])
               | (Some e, v') \<Rightarrow>
                   ((Some (''decode response JSON: '' @ e @ ''; body='' @ truncate_str body 700),
                     Some v'), sent @ [req'])))"
  using assms
  by (auto simp: doJSON_def client_Do_def truncate_str_def split: option.splits prod.splits)

theorem doJSON_classifies_response_witness:
  "(attachPayload (exampleRuntime (okServer [])) getModels None = Inr getModels \<and>
    server (exampleRuntime (\<lambda>reqs. HTTPResponse 404 ''404 Not Found'' ''no such page''))
       ([] @ [getModels]) = HTTPResponse 404 ''404 Not Found'' ''no such page'' \<and>
    doJSON (exampleRuntime (\<lambda>reqs. HTTPResponse 404 ''404 Not Found'' ''no such page''))
       (exampleUnmarshal [(''{}'', [''x''])]) getModels None (Some []) [] =
      ((Some ''provider returned 404 Not Found: no such page'', Some []), [getModels])) \<and>
   (server (exampleRuntime (\<lambda>reqs. HTTPResponse 500 ''500 Internal Server Error''
               (replicate 701 (CHR ''x''))))
       ([] @ [getModels]) =
      HTTPResponse 500 ''500 Internal Server Error'' (replicate 701 (CHR ''x'')) \<and>
    doJSON (exampleRuntime (\<lambda>reqs. HTTPResponse 500 ''500 Internal Server Error''
               (replicate 701 (CHR ''x''))))
       (exampleUnmarshal [(''{}'', [''x''])]) getModels None (Some []) [] =
      ((Some (''provider returned 500 Internal Server Error: '' @ replicate 700 (CHR ''x'')
                @ ''...''), Some []), [getModels])) \<and>
   (server (exampleRuntime (okServer '' '')) ([] @ [getModels]) =
      HTTPResponse 200 ''200 OK'' '' '' \<and>
    TrimSpace '' '' = [] \<and>
    doJSON (exampleRuntime (okServer '' ''))
       (exampleUnmarshal [(''{}'', [''x''])]) getModels None (Some [''y'']) [] =
      ((None, Some [''y'']), [getModels])) \<and>
   (server (exampleRuntime (okServer ''{}'')) ([] @ [getModels]) =
      HTTPResponse 200 ''200 OK'' ''{}'' \<and>
    TrimSpace ''{}'' \<noteq> [] \<and>
    doJSON (exampleRuntime (okServer ''{}''))
       (exampleUnmarshal [(''{}'', [''x''])]) getModels None (Some [''y'']) [] =
      ((None, Some [''x'']), [getModels]))"
proof -
  let ?rt = "\<lambda>code status body. exampleRuntime (\<lambda>reqs. HTTPResponse code status body)"
  let ?un = "exampleUnmarshal [(''{}'', [''x''])] :: string \<Rightarrow> string list \<Rightarrow> _"
  have "okServer body = (\<lambda>reqs. HTTPResponse 200 ''200 OK'' body)" for body
    by (rule ext) (simp add: okServer_def)
  then have ok: "exampleRuntime (okServer body) = ?rt 200 ''200 OK'' body" for body
    by simp
  have a: "attachPayload (?rt code status body) getModels None = Inr getModels"
    for code status body
    by (simp add: attachPayload_def)
  have s: "server (?rt code status body) ([] @ [getModels]) = HTTPResponse code status body"
    for code status body
    by (simp add: exampleRuntime_def)
  have t1: "TrimSpace '' '' = []" by code_simp
  have t2: "TrimSpace ''{}'' \<noteq> []" by code_simp
  have u: "?un ''{}'' [''y''] = (None, [''x''])"
    by (simp add: exampleUnmarshal_def)
  from doJSON_classifies_response [OF a s, of 404 "''404 Not Found''" "''no such page''" ?un "Some []" "[]"]
  have 1: "doJSON (?rt 404 ''404 Not Found'' ''no such page'') ?un getModels None (Some []) [] =
      ((Some ''provider returned 404 Not Found: no such page'', Some []), [getModels])"
    by (simp add: truncate_str_def)
  from doJSON_classifies_response [OF a s, of 500 "''500 Internal Server Error''"
      "replicate 701 (CHR ''x'')" ?un "Some []" "[]"]
  have 2: "doJSON (?rt 500 ''500 Internal Server Error'' (replicate 701 (CHR ''x''))) ?un
      getModels None (Some []) [] =
      ((Some (''provider returned 500 Internal Server Error: '' @ replicate 700 (CHR ''x'')
                @ ''...''), Some []), [getModels])"
    by simp
  from doJSON_classifies_response [OF a s, of 200 "''200 OK''" "'' ''" ?un "Some [''y'']" "[]"] t1
  have 3: "doJSON (?rt 200 ''200 OK'' '' '') ?un getModels None (Some [''y'']) [] =
      ((None, Some [''y'']), [getModels])"
    by simp
  from doJSON_classifies_response [OF a s, of 200 "''200 OK''" "''{}''" ?un _ "[''y'']"] t2 u
  have 4: "doJSON (?rt 200 ''200 OK'' ''{}'') ?un getModels None (Some [''y'']) [] =
      ((None, Some [''x'']), [getModels])"
    by simp
  from 1 2 3 4 a s t1 t2 show ?thesis
    unfolding ok by simp
qed

section \<open>Validation\<close>

text \<open>
  C2. When the model or the question of a request is empty after trimming, \<open>Ask\<close> of every
  client returns the validation error (\<open>model is required\<close>, or \<open>question is required\<close>
  when only the question is empty) and the list of requests sent is the one it was given:
  no request is built or executed, whatever the runtime, and nothing is tried again.
\<close>

theorem Ask_validates_before_http:
  assumes "TrimSpace (Model r) = [] \<or> TrimSpace (Question r) = []"
  shows "oc_Ask rt un1 c1 r sent =
           (Inl (if TrimSpace (Model r) = [] then ''model is required''
                 else ''question is required''), sent) \<and>
         an_Ask rt un2 c2 r sent =
           (Inl (if TrimSpace (Model r) = [] then ''model is required''
                 else ''question is required''), sent) \<and>
         ge_Ask rt un3 c3 r sent =
           (Inl (if TrimSpace (Model r) = [] then ''model is required''
                 else ''question is required''), sent) \<and>
         ol_Ask rt un4 c4 r sent =
           (Inl (if TrimSpace (Model r) = [] then ''model is required''
                 else ''question is required''), sent)"
  using assms
  by (auto simp: oc_Ask_def an_Ask_def ge_Ask_def ol_Ask_def validateAskRequest_def)

theorem Ask_validates_before_http_witness:
  "((TrimSpace (Model blankModelRequest) = [] \<or> TrimSpace (Question blankModelRequest) = []) \<and>
    oc_Ask (exampleRuntime (okServer chatReply)) (exampleUnmarshal []) proxyClient
      blankModelRequest [] = (Inl ''model is required'', []) \<and>
    an_Ask (exampleRuntime (okServer chatReply)) (exampleUnmarshal []) anthropicExample
      blankModelRequest [] = (Inl ''model is required'', []) \<and>
    ge_Ask (exampleRuntime (okServer chatReply)) (exampleUnmarshal []) geminiExample
      blankModelRequest [] = (Inl ''model is required'', []) \<and>
    ol_Ask (exampleRuntime (okServer chatReply)) (exampleUnmarshal []) ollamaExample
      blankModelRequest [] = (Inl ''model is required'', [])) \<and>
   ((TrimSpace (Model blankQuestionRequest) = [] \<or>
     TrimSpace (Question blankQuestionRequest) = []) \<and>
    oc_Ask (exampleRuntime (okServer chatReply)) (exampleUnmarshal []) proxyClient
      blankQuestionRequest [] = (Inl ''question is required'', []) \<and>
    an_Ask (exampleRuntime (okServer chatReply)) (exampleUnmarshal []) anthropicExample
      blankQuestionRequest [] = (Inl ''question is required'', []) \<and>
    ge_Ask (exampleRuntime (okServer chatReply)) (exampleUnmarshal []) geminiExample
      blankQuestionRequest [] = (Inl ''question is required'', []) \<and>
    ol_Ask (exampleRuntime (okServer chatReply)) (exampleUnmarshal []) ollamaExample
      blankQuestionRequest [] = (Inl ''question is required'', []))"
proof -
  have m: "TrimSpace (Model blankModelRequest) = []"
    by code_simp
  have q: "TrimSpace (Question blankQuestionRequest) = []"
    and n: "TrimSpace (Model blankQuestionRequest) \<noteq> []"
    by code_simp+
  from m have hm: "TrimSpace (Model blankModelRequest) = [] \<or>
      TrimSpace (Question blankModelRequest) = []"
    by simp
  from q have hq: "TrimSpace (Model blankQuestionRequest) = [] \<or>
      TrimSpace (Question blankQuestionRequest) = []"
    by simp
  from Ask_validates_before_http [OF hm] Ask_validates_before_http [OF hq] m q n show ?thesis
    by simp
qed

section \<open>The model catalog\<close>

text \<open>
  C4. Whatever the decoded catalog, a list that \<open>ListModels\<close> of a client returns is sorted
  in ascending order of \<open>ID\<close> and has no entry with an empty \<open>ID\<close>: the ids that the loop
  of each client collects are the identifiers of the catalog, trimmed (for Gemini also
  without the \<open>models/\<close> prefix, and of the entries that support \<open>generateContent\<close>), less
  the ones that are empty then.
\<close>

theorem ListModels_sorted_nonempty_ids:
  "(fst (oc_ListModels rt un1 c1 sent) = Inr ms1 \<longrightarrow>
      sorted (map ID ms1) \<and> [] \<notin> set (map ID ms1)) \<and>
   (fst (an_ListModels rt un2 c2 sent) = Inr ms2 \<longrightarrow>
      sorted (map ID ms2) \<and> [] \<notin> set (map ID ms2)) \<and>
   (fst (ge_ListModels rt un3 c3 sent) = Inr ms3 \<longrightarrow>
      sorted (map ID ms3) \<and> [] \<notin> set (map ID ms3)) \<and>
   (fst (ol_ListModels rt un4 c4 sent) = Inr ms4 \<longrightarrow>
      sorted (map ID ms4) \<and> [] \<notin> set (map ID ms4)) \<and>
   map ID (oc_models ids) = filter (\<lambda>i. i \<noteq> []) (map TrimSpace ids) \<and>
   map ID (an_models pairs) = filter (\<lambda>i. i \<noteq> []) (map (\<lambda>e. TrimSpace (fst e)) pairs) \<and>
   map ID (ge_models entries) =
     filter (\<lambda>i. i \<noteq> [])
       (map (\<lambda>e. TrimPrefix (TrimSpace (gm_name e)) ''models/'')
          (filter (\<lambda>e. supportsGenerateContent (gm_supportedGenerationMethods e)) entries)) \<and>
   map ID (ol_models ids) = filter (\<lambda>i. i \<noteq> []) (map TrimSpace ids)"
proof (intro conjI impI)
  show "map ID (oc_models ids) = filter (\<lambda>i. i \<noteq> []) (map TrimSpace ids)"
    by (induction ids) (simp_all add: Let_def)
  show "map ID (ol_models ids) = filter (\<lambda>i. i \<noteq> []) (map TrimSpace ids)"
    by (induction ids) (simp_all add: Let_def)
  show "map ID (an_models pairs) =
      filter (\<lambda>i. i \<noteq> []) (map (\<lambda>e. TrimSpace (fst e)) pairs)"
    by (induction pairs rule: an_models.induct) (simp_all add: Let_def)
  show "map ID (ge_models entries) =
     filter (\<lambda>i. i \<noteq> [])
       (map (\<lambda>e. TrimPrefix (TrimSpace (gm_name e)) ''models/'')
          (filter (\<lambda>e. supportsGenerateContent (gm_supportedGenerationMethods e)) entries))"
    by (induction entries) (simp_all add: Let_def)
next
  assume "fst (oc_ListModels rt un1 c1 sent) = Inr ms1"
  then obtain ids where "ms1 = sortModels (oc_models ids)"
    by (metis oc_ListModels_result prod.collapse)
  then show "sorted (map ID ms1)" and "[] \<notin> set (map ID ms1)"
    by (auto simp: sorted_sortModels set_sortModels dest: oc_models_ID)
next
  assume "fst (an_ListModels rt un2 c2 sent) = Inr ms2"
  then obtain es where "ms2 = sortModels (an_models es)"
    by (metis an_ListModels_result prod.collapse)
  then show "sorted (map ID ms2)" and "[] \<notin> set (map ID ms2)"
    by (auto simp: sorted_sortModels set_sortModels dest: an_models_ID)
next
  assume "fst (ge_ListModels rt un3 c3 sent) = Inr ms3"
  then obtain es where "ms3 = sortModels (ge_models es)"
    by (metis ge_ListModels_result prod.collapse)
  then show "sorted (map ID ms3)" and "[] \<notin> set (map ID ms3)"
    by (auto simp: sorted_sortModels set_sortModels dest: ge_models_ID)
next
  assume "fst (ol_ListModels rt un4 c4 sent) = Inr ms4"
  then obtain ids where "ms4 = sortModels (ol_models ids)"
    by (metis ol_ListModels_result prod.collapse)
  then show "sorted (map ID ms4)" and "[] \<notin> set (map ID ms4)"
    by (auto simp: sorted_sortModels set_sortModels dest: ol_models_ID)
qed

theorem ListModels_sorted_nonempty_ids_witness:
  "(fst (oc_ListModels (exampleRuntime (okServer openaiCatalog))
          (exampleUnmarshal [(openaiCatalog, [''gpt-b'', ''  '', ''gpt-a''])]) proxyClient []) =
      Inr [\<lparr>ID = ''gpt-a'', DisplayName = ''gpt-a''\<rparr>, \<lparr>ID = ''gpt-b'', DisplayName = ''gpt-b''\<rparr>] \<and>
    sorted (map ID [\<lparr>ID = ''gpt-a'', DisplayName = ''gpt-a''\<rparr>,
                    \<lparr>ID = ''gpt-b'', DisplayName = ''gpt-b''\<rparr>]) \<and>
    [] \<notin> set (map ID [\<lparr>ID = ''gpt-a'', DisplayName = ''gpt-a''\<rparr>,
                       \<lparr>ID = ''gpt-b'', DisplayName = ''gpt-b''\<rparr>])) \<and>
   (fst (an_ListModels (exampleRuntime (okServer anthropicCatalog))
          (exampleUnmarshal [(anthropicCatalog,
             [(''claude-b'', ''Claude B''), ('' '', ''none''), (''claude-a'', [])])])
          anthropicExample []) =
      Inr [\<lparr>ID = ''claude-a'', DisplayName = ''claude-a''\<rparr>,
           \<lparr>ID = ''claude-b'', DisplayName = ''Claude B''\<rparr>] \<and>
    sorted (map ID [\<lparr>ID = ''claude-a'', DisplayName = ''claude-a''\<rparr>,
                    \<lparr>ID = ''claude-b'', DisplayName = ''Claude B''\<rparr>]) \<and>
    [] \<notin> set (map ID [\<lparr>ID = ''claude-a'', DisplayName = ''claude-a''\<rparr>,
                       \<lparr>ID = ''claude-b'', DisplayName = ''Claude B''\<rparr>])) \<and>
   (fst (ge_ListModels (exampleRuntime (okServer geminiCatalog))
          (exampleUnmarshal [(geminiCatalog, geminiEntries)]) geminiExample []) =
      Inr [\<lparr>ID = ''gemini-1.5-pro'', DisplayName = ''gemini-1.5-pro''\<rparr>,
           \<lparr>ID = ''gemini-2.0-flash'', DisplayName = ''Gemini 2.0 Flash''\<rparr>] \<and>
    sorted (map ID [\<lparr>ID = ''gemini-1.5-pro'', DisplayName = ''gemini-1.5-pro''\<rparr>,
                    \<lparr>ID = ''gemini-2.0-flash'', DisplayName = ''Gemini 2.0 Flash''\<rparr>]) \<and>
    [] \<notin> set (map ID [\<lparr>ID = ''gemini-1.5-pro'', DisplayName = ''gemini-1.5-pro''\<rparr>,
                       \<lparr>ID = ''gemini-2.0-flash'', DisplayName = ''Gemini 2.0 Flash''\<rparr>])) \<and>
   (fst (ol_ListModels (exampleRuntime (okServer ollamaCatalog))
          (exampleUnmarshal [(ollamaCatalog, [''mistral'', ''llama3.2'', []])])
          ollamaExample []) =
      Inr [\<lparr>ID = ''llama3.2'', DisplayName = ''llama3.2''\<rparr>,
           \<lparr>ID = ''mistral'', DisplayName = ''mistral''\<rparr>] \<and>
    sorted (map ID [\<lparr>ID = ''llama3.2'', DisplayName = ''llama3.2''\<rparr>,
                    \<lparr>ID = ''mistral'', DisplayName = ''mistral''\<rparr>]) \<and>
    [] \<notin> set (map ID [\<lparr>ID = ''llama3.2'', DisplayName = ''llama3.2''\<rparr>,
                       \<lparr>ID = ''mistral'', DisplayName = ''mistral''\<rparr>]))"
proof -
  let ?oc = "oc_ListModels (exampleRuntime (okServer openaiCatalog))
          (exampleUnmarshal [(openaiCatalog, [''gpt-b'', ''  '', ''gpt-a''])]) proxyClient []"
  let ?an = "an_ListModels (exampleRuntime (okServer anthropicCatalog))
          (exampleUnmarshal [(anthropicCatalog,
             [(''claude-b'', ''Claude B''), ('' '', ''none''), (''claude-a'', [])])])
          anthropicExample []"
  let ?ge = "ge_ListModels (exampleRuntime (okServer geminiCatalog))
          (exampleUnmarshal [(geminiCatalog, geminiEntries)]) geminiExample []"
  let ?ol = "ol_ListModels (exampleRuntime (okServer ollamaCatalog))
          (exampleUnmarshal [(ollamaCatalog, [''mistral'', ''llama3.2'', []])])
          ollamaExample []"
  have 1: "fst ?oc =
     Inr [\<lparr>ID = ''gpt-a'', DisplayName = ''gpt-a''\<rparr>, \<lparr>ID = ''gpt-b'', DisplayName = ''gpt-b''\<rparr>]"
    by code_simp
  have 2: "fst ?an = Inr [\<lparr>ID = ''claude-a'', DisplayName = ''claude-a''\<rparr>,
          \<lparr>ID = ''claude-b'', DisplayName = ''Claude B''\<rparr>]"
    by code_simp
  have 3: "fst ?ge = Inr [\<lparr>ID = ''gemini-1.5-pro'', DisplayName = ''gemini-1.5-pro''\<rparr>,
          \<lparr>ID = ''gemini-2.0-flash'', DisplayName = ''Gemini 2.0 Flash''\<rparr>]"
    by code_simp
  have 4: "fst ?ol = Inr [\<lparr>ID = ''llama3.2'', DisplayName = ''llama3.2''\<rparr>,
          \<lparr>ID = ''mistral'', DisplayName = ''mistral''\<rparr>]"
    by code_simp
  from ListModels_sorted_nonempty_ids [THEN conjunct1, rule_format, OF 1]
    ListModels_sorted_nonempty_ids [THEN conjunct2, THEN conjunct1, rule_format, OF 2]
    ListModels_sorted_nonempty_ids [THEN conjunct2, THEN conjunct2, THEN conjunct1, rule_format, OF 3]
    ListModels_sorted_nonempty_ids [THEN conjunct2, THEN conjunct2, THEN conjunct2,
      THEN conjunct1, rule_format, OF 4]
    1 2 3 4
  show ?thesis
    by blast
qed

section \<open>The format fallback of the OpenAI-compatible client\<close>

lemma doJSON_sent:
  assumes "doJSON rt un req payload out sent = (res, sent')"
  shows "sent' = sent \<or>
         (\<exists>req'. attachPayload rt req payload = Inr req' \<and> sent' = sent @ [req'])"
  using assms
  by (auto simp: doJSON_def client_Do_def
      split: sum.splits http_result.splits if_splits option.splits prod.splits)

lemma askWithPayload_sent:
  assumes "askWithPayload rt un c u r flag sent = (res, sent')"
  shows "sent' = sent \<or>
         (\<exists>req buf. json_Marshal rt (chatPayload r flag) = Inr buf \<and> sent' = sent @ [req] \<and>
            req_method req = ''POST'' \<and> req_url req = u \<and> req_body req = Some buf)"
proof (cases "NewRequest rt ''POST'' u")
  case (Inl e)
  with assms show ?thesis by (simp add: askWithPayload_def)
next
  case (Inr req0)
  then have r0: "req_method req0 = ''POST''" "req_url req0 = u"
    by (auto simp: NewRequest_def split: option.splits)
  have h: "req_method (setStaticHeaders rt hs q) = req_method q \<and>
           req_url (setStaticHeaders rt hs q) = req_url q" for hs q
    unfolding setStaticHeaders_def
    by (induction hs arbitrary: q) (auto simp: Header_Set_def)
  from r0 h have r1: "req_method (oc_setHeaders rt c req0) = ''POST''"
    "req_url (oc_setHeaders rt c req0) = u"
    by (auto simp: oc_setHeaders_def Header_Set_def)
  obtain res' where d: "doJSON rt un (oc_setHeaders rt c req0)
      (Some (chatPayload r flag)) (Some []) sent = (res', sent')"
    using assms Inr by (auto simp: askWithPayload_def split: prod.splits)
  from doJSON_sent [OF d] r1 show ?thesis
    by (auto simp: attachPayload_def Header_Set_def split: sum.splits)
qed

lemma askWithPayload_length:
  "askWithPayload rt un c u r flag sent = (res, sent') \<Longrightarrow>
     \<exists>extra. sent' = sent @ extra \<and> length extra \<le> 1"
  by (drule askWithPayload_sent) auto

lemma oc_Ask_at_most_two:
  "\<exists>extra. snd (oc_Ask rt un c r sent) = sent @ extra \<and> length extra \<le> 2"
proof -
  let ?u = "joinURL (oc_base c) (oc_chatPath c)"
  obtain res1 sent1 where a1: "askWithPayload rt un c ?u r True sent = (res1, sent1)"
    by (cases "askWithPayload rt un c ?u r True sent") auto
  obtain res2 sent2 where a2: "askWithPayload rt un c ?u r False sent1 = (res2, sent2)"
    by (cases "askWithPayload rt un c ?u r False sent1") auto
  from askWithPayload_length [OF a1] obtain x1 where x1: "sent1 = sent @ x1" "length x1 \<le> 1"
    by blast
  from askWithPayload_length [OF a2] obtain x2 where x2: "sent2 = sent1 @ x2" "length x2 \<le> 1"
    by blast
  have "snd (oc_Ask rt un c r sent) \<in> {sent, sent1, sent2}"
    using a1 a2
    by (auto simp: oc_Ask_def Let_def split: option.splits prod.splits)
  then consider "snd (oc_Ask rt un c r sent) = sent" | "snd (oc_Ask rt un c r sent) = sent1"
    | "snd (oc_Ask rt un c r sent) = sent2"
    by auto
  then show ?thesis
  proof cases
    case 1
    then show ?thesis by (intro exI [of _ "[]"]) simp
  next
    case 2
    with x1 show ?thesis by (intro exI [of _ x1]) simp
  next
    case 3
    with x1 x2 show ?thesis by (intro exI [of _ "x1 @ x2"]) simp
  qed
qed

lemma oc_Ask_attempts:
  assumes "validateAskRequest r = None"
    and "\<not> (requiresAPIKey c \<and> oc_apiKey c = [])"
    and "askWithPayload rt un c (joinURL (oc_base c) (oc_chatPath c)) r True sent =
           ((resp1, err1), sent1)"
    and "askWithPayload rt un c (joinURL (oc_base c) (oc_chatPath c)) r False sent1 =
           ((resp2, err2), sent2)"
  shows "oc_Ask rt un c r sent =
           (if err1 \<noteq> None \<and> ExpectJSON r \<and> responseFormatLikelyUnsupported rt err1
            then (case err2 of Some e \<Rightarrow> Inl e | None \<Rightarrow> oc_answer c resp2, sent2)
            else (case err1 of Some e \<Rightarrow> Inl e | None \<Rightarrow> oc_answer c resp1, sent1))"
  using assms by (auto simp: oc_Ask_def Let_def split: option.splits)

text \<open>
  C1. Once the request is valid and the key is there, \<open>Ask\<close> makes a first attempt, whose
  payload carries \<open>response_format: {type: json_object}\<close> exactly when \<open>ExpectJSON\<close> is set.
  When that attempt fails, \<open>ExpectJSON\<close> is set and the lower-cased error text contains
  \<open>response_format\<close>, \<open>responsemimetype\<close> or \<open>response_mime_type\<close>, \<open>Ask\<close> makes one more
  attempt, whose payload has no \<open>response_format\<close>, and returns what that attempt gives
  (its error, if it fails). In every other case the outcome of the first attempt is
  returned, its error included, with no further request. An attempt sends at most one
  request, so \<open>Ask\<close> never sends more than two.
\<close>

theorem oc_Ask_format_fallback:
  "(validateAskRequest r = None \<and> \<not> (requiresAPIKey c \<and> oc_apiKey c = []) \<and>
    askWithPayload rt un c (joinURL (oc_base c) (oc_chatPath c)) r True sent =
      ((resp1, err1), sent1) \<and>
    askWithPayload rt un c (joinURL (oc_base c) (oc_chatPath c)) r False sent1 =
      ((resp2, err2), sent2) \<longrightarrow>
      oc_Ask rt un c r sent =
        (if err1 \<noteq> None \<and> ExpectJSON r \<and> responseFormatLikelyUnsupported rt err1
         then (case err2 of Some e \<Rightarrow> Inl e | None \<Rightarrow> oc_answer c resp2, sent2)
         else (case err1 of Some e \<Rightarrow> Inl e | None \<Rightarrow> oc_answer c resp1, sent1)) \<and>
      (sent1 = sent \<or>
       (\<exists>req buf. json_Marshal rt (chatPayload r True) = Inr buf \<and> sent1 = sent @ [req] \<and>
          req_body req = Some buf)) \<and>
      (sent2 = sent1 \<or>
       (\<exists>req buf. json_Marshal rt (chatPayload r False) = Inr buf \<and> sent2 = sent1 @ [req] \<and>
          req_body req = Some buf))) \<and>
   responseFormatLikelyUnsupported rt err =
     (\<exists>e. err = Some e \<and>
        (Contains (strings_ToLower rt e) ''response_format'' \<or>
         Contains (strings_ToLower rt e) ''responsemimetype'' \<or>
         Contains (strings_ToLower rt e) ''response_mime_type'')) \<and>
   jsonField (chatPayload r True) ''response_format'' =
     (if ExpectJSON r then Some (JObject [(''type'', JString ''json_object'')]) else None) \<and>
   jsonField (chatPayload r False) ''response_format'' = None \<and>
   (\<exists>extra. snd (oc_Ask rt un c r sent) = sent @ extra \<and> length extra \<le> 2)"
proof (intro conjI impI)
  assume a: "validateAskRequest r = None \<and> \<not> (requiresAPIKey c \<and> oc_apiKey c = []) \<and>
    askWithPayload rt un c (joinURL (oc_base c) (oc_chatPath c)) r True sent =
      ((resp1, err1), sent1) \<and>
    askWithPayload rt un c (joinURL (oc_base c) (oc_chatPath c)) r False sent1 =
      ((resp2, err2), sent2)"
  then show "oc_Ask rt un c r sent =
        (if err1 \<noteq> None \<and> ExpectJSON r \<and> responseFormatLikelyUnsupported rt err1
         then (case err2 of Some e \<Rightarrow> Inl e | None \<Rightarrow> oc_answer c resp2, sent2)
         else (case err1 of Some e \<Rightarrow> Inl e | None \<Rightarrow> oc_answer c resp1, sent1))"
    by (intro oc_Ask_attempts) simp_all
  from a have a1: "askWithPayload rt un c (joinURL (oc_base c) (oc_chatPath c)) r True sent =
      ((resp1, err1), sent1)"
    and a2: "askWithPayload rt un c (joinURL (oc_base c) (oc_chatPath c)) r False sent1 =
      ((resp2, err2), sent2)"
    by simp_all
  from askWithPayload_sent [OF a1]
  show "sent1 = sent \<or>
          (\<exists>req buf. json_Marshal rt (chatPayload r True) = Inr buf \<and> sent1 = sent @ [req] \<and>
             req_body req = Some buf)"
    by blast
  from askWithPayload_sent [OF a2]
  show "sent2 = sent1 \<or>
          (\<exists>req buf. json_Marshal rt (chatPayload r False) = Inr buf \<and> sent2 = sent1 @ [req] \<and>
             req_body req = Some buf)"
    by blast
next
  show "responseFormatLikelyUnsupported rt err =
           (\<exists>e. err = Some e \<and>
              (Contains (strings_ToLower rt e) ''response_format'' \<or>
               Contains (strings_ToLower rt e) ''responsemimetype'' \<or>
               Contains (strings_ToLower rt e) ''response_mime_type''))"
    by (cases err) (simp_all add: responseFormatLikelyUnsupported_def Let_def)
  show "jsonField (chatPayload r True) ''response_format'' =
           (if ExpectJSON r then Some (JObject [(''type'', JString ''json_object'')]) else None)"
    by (simp add: chatPayload_def)
  show "jsonField (chatPayload r False) ''response_format'' = None"
    by (simp add: chatPayload_def)
  show "\<exists>extra. snd (oc_Ask rt un c r sent) = sent @ extra \<and> length extra \<le> 2"
    by (rule oc_Ask_at_most_two)
qed

theorem oc_Ask_format_fallback_witness:
  "validateAskRequest jsonRequest = None \<and>
   \<not> (requiresAPIKey proxyClient \<and> oc_apiKey proxyClient = []) \<and>
   ExpectJSON jsonRequest \<and>
   (snd (fst (askWithPayload (exampleRuntime fallbackServer)
          (exampleUnmarshal [(chatReply, [JString ''ok''])]) proxyClient
          (joinURL (oc_base proxyClient) (oc_chatPath proxyClient)) jsonRequest True [])) =
      Some (''provider returned 400 Bad Request: '' @ chatError) \<and>
    responseFormatLikelyUnsupported (exampleRuntime fallbackServer)
      (Some (''provider returned 400 Bad Request: '' @ chatError)) \<and>
    fst (oc_Ask (exampleRuntime fallbackServer)
          (exampleUnmarshal [(chatReply, [JString ''ok''])]) proxyClient jsonRequest []) =
      Inr \<lparr>Text = ''ok''\<rparr> \<and>
    length (snd (oc_Ask (exampleRuntime fallbackServer)
          (exampleUnmarshal [(chatReply, [JString ''ok''])]) proxyClient jsonRequest [])) = 2) \<and>
   (fst (oc_Ask (exampleRuntime (\<lambda>reqs. HTTPResponse 400 ''400 Bad Request'' chatError))
          (exampleUnmarshal []) proxyClient jsonRequest []) =
      Inl (''provider returned 400 Bad Request: '' @ chatError) \<and>
    length (snd (oc_Ask (exampleRuntime (\<lambda>reqs. HTTPResponse 400 ''400 Bad Request'' chatError))
          (exampleUnmarshal []) proxyClient jsonRequest [])) = 2) \<and>
   (\<not> responseFormatLikelyUnsupported (exampleRuntime (\<lambda>reqs. TransportError ''timeout''))
        (Some ''http request failed: timeout'') \<and>
    fst (oc_Ask (exampleRuntime (\<lambda>reqs. TransportError ''timeout''))
          (exampleUnmarshal []) proxyClient jsonRequest []) =
      Inl ''http request failed: timeout'' \<and>
    length (snd (oc_Ask (exampleRuntime (\<lambda>reqs. TransportError ''timeout''))
          (exampleUnmarshal []) proxyClient jsonRequest [])) = 1)"
proof -
  let ?u = "joinURL (oc_base proxyClient) (oc_chatPath proxyClient)"
  have v: "validateAskRequest jsonRequest = None"
    by code_simp
  have k: "\<not> (requiresAPIKey proxyClient \<and> oc_apiKey proxyClient = [])"
    by code_simp
  have j: "ExpectJSON jsonRequest"
    by (simp add: jsonRequest_def)
  have h: "x = ((fst (fst x), snd (fst x)), snd x)" for x :: "(json list \<times> string option) \<times> http_request list"
    by simp
  note th = oc_Ask_format_fallback [THEN conjunct1, rule_format,
      OF conjI [OF v conjI [OF k conjI [OF h h]]], THEN conjunct1]
  have first: ?thesis if
    1: "fst (oc_Ask (exampleRuntime fallbackServer)
          (exampleUnmarshal [(chatReply, [JString ''ok''])]) proxyClient jsonRequest []) =
      Inr \<lparr>Text = ''ok''\<rparr> \<and>
    length (snd (oc_Ask (exampleRuntime fallbackServer)
          (exampleUnmarshal [(chatReply, [JString ''ok''])]) proxyClient jsonRequest [])) = 2"
    and 2: "fst (oc_Ask (exampleRuntime (\<lambda>reqs. HTTPResponse 400 ''400 Bad Request'' chatError))
          (exampleUnmarshal []) proxyClient jsonRequest []) =
      Inl (''provider returned 400 Bad Request: '' @ chatError) \<and>
    length (snd (oc_Ask (exampleRuntime (\<lambda>reqs. HTTPResponse 400 ''400 Bad Request'' chatError))
          (exampleUnmarshal []) proxyClient jsonRequest [])) = 2"
    and 3: "fst (oc_Ask (exampleRuntime (\<lambda>reqs. TransportError ''timeout''))
          (exampleUnmarshal []) proxyClient jsonRequest []) =
      Inl ''http request failed: timeout'' \<and>
    length (snd (oc_Ask (exampleRuntime (\<lambda>reqs. TransportError ''timeout''))
          (exampleUnmarshal []) proxyClient jsonRequest [])) = 1"
  proof -
    have e1: "snd (fst (askWithPayload (exampleRuntime fallbackServer)
          (exampleUnmarshal [(chatReply, [JString ''ok''])]) proxyClient ?u jsonRequest True [])) =
        Some (''provider returned 400 Bad Request: '' @ chatError)"
      by code_simp
    have m: "responseFormatLikelyUnsupported (exampleRuntime fallbackServer)
        (Some (''provider returned 400 Bad Request: '' @ chatError))"
      by code_simp
    have n: "\<not> responseFormatLikelyUnsupported (exampleRuntime (\<lambda>reqs. TransportError ''timeout''))
        (Some ''http request failed: timeout'')"
      by code_simp
    from v k j e1 m n 1 2 3 show ?thesis
      by simp
  qed
  show ?thesis
  proof (rule first)
    let ?rt = "exampleRuntime fallbackServer"
    let ?un = "exampleUnmarshal [(chatReply, [JString ''ok''])]"
    let ?a1 = "askWithPayload ?rt ?un proxyClient ?u jsonRequest True []"
    let ?a2 = "askWithPayload ?rt ?un proxyClient ?u jsonRequest False (snd ?a1)"
    have e1: "snd (fst ?a1) = Some (''provider returned 400 Bad Request: '' @ chatError)"
      by code_simp
    have m: "responseFormatLikelyUnsupported ?rt
        (Some (''provider returned 400 Bad Request: '' @ chatError))"
      by code_simp
    have e2: "snd (fst ?a2) = None"
      by code_simp
    have r2: "oc_answer proxyClient (fst (fst ?a2)) = Inr \<lparr>Text = ''ok''\<rparr>"
      by code_simp
    have l2: "length (snd ?a2) = 2"
      by code_simp
    from th [of ?rt ?un "[]"] e1 m j e2 r2
    have "oc_Ask ?rt ?un proxyClient jsonRequest [] = (Inr \<lparr>Text = ''ok''\<rparr>, snd ?a2)"
      by simp
    with l2 show "fst (oc_Ask ?rt ?un proxyClient jsonRequest []) = Inr \<lparr>Text = ''ok''\<rparr> \<and>
        length (snd (oc_Ask ?rt ?un proxyClient jsonRequest [])) = 2"
      by simp
  next
    let ?rt = "exampleRuntime (\<lambda>reqs. HTTPResponse 400 ''400 Bad Request'' chatError)"
    let ?un = "exampleUnmarshal [] :: string \<Rightarrow> json list \<Rightarrow> _"
    let ?a1 = "askWithPayload ?rt ?un proxyClient ?u jsonRequest True []"
    let ?a2 = "askWithPayload ?rt ?un proxyClient ?u jsonRequest False (snd ?a1)"
    have e1: "snd (fst ?a1) = Some (''provider returned 400 Bad Request: '' @ chatError)"
      by code_simp
    have m: "responseFormatLikelyUnsupported ?rt
        (Some (''provider returned 400 Bad Request: '' @ chatError))"
      by code_simp
    have e2: "snd (fst ?a2) = Some (''provider returned 400 Bad Request: '' @ chatError)"
      by code_simp
    have l2: "length (snd ?a2) = 2"
      by code_simp
    from th [of ?rt ?un "[]"] e1 m j e2
    have "oc_Ask ?rt ?un proxyClient jsonRequest [] =
        (Inl (''provider returned 400 Bad Request: '' @ chatError), snd ?a2)"
      by simp
    with l2 show "fst (oc_Ask ?rt ?un proxyClient jsonRequest []) =
        Inl (''provider returned 400 Bad Request: '' @ chatError) \<and>
        length (snd (oc_Ask ?rt ?un proxyClient jsonRequest [])) = 2"
      by simp
  next
    let ?rt = "exampleRuntime (\<lambda>reqs. TransportError ''timeout'')"
    let ?un = "exampleUnmarshal [] :: string \<Rightarrow> json list \<Rightarrow> _"
    let ?a1 = "askWithPayload ?rt ?un proxyClient ?u jsonRequest True []"
    have e1: "snd (fst ?a1) = Some ''http request failed: timeout''"
      by code_simp
    have n: "\<not> responseFormatLikelyUnsupported ?rt (Some ''http request failed: timeout'')"
      by code_simp
    have l1: "length (snd ?a1) = 1"
      by code_simp
    from th [of ?rt ?un "[]"] e1 n
    have "oc_Ask ?rt ?un proxyClient jsonRequest [] =
        (Inl ''http request failed: timeout'', snd ?a1)"
      by simp
    with l1 show "fst (oc_Ask ?rt ?un proxyClient jsonRequest []) =
        Inl ''http request failed: timeout'' \<and>
        length (snd (oc_Ask ?rt ?un proxyClient jsonRequest [])) = 1"
      by simp
  qed
qed

section \<open>The Anthropic request\<close>

text \<open>
  C8. \<open>Ask\<close> of the Anthropic client does not read \<open>ExpectJSON\<close>: two requests that differ
  in it alone give the same payload (\<open>model\<close>, \<open>max_tokens\<close> 2048, \<open>system\<close>, \<open>messages\<close>),
  the same result and the same requests on the wire (URL, headers and body).
\<close>

theorem an_Ask_ignores_ExpectJSON:
  "an_payload (r\<lparr>ExpectJSON := b\<rparr>) = an_payload r \<and>
   an_payload r =
     JObject
       [(''model'', JString (Model r)),
        (''max_tokens'', JNumber ''2048''),
        (''system'', JString (Prompt r)),
        (''messages'', JArray
           [JObject
              [(''role'', JString ''user''),
               (''content'', JArray
                  [JObject [(''type'', JString ''text''), (''text'', JString (Question r))]])]])] \<and>
   an_Ask rt un c (r\<lparr>ExpectJSON := b\<rparr>) sent = an_Ask rt un c r sent"
proof -
  have p: "an_payload (r\<lparr>ExpectJSON := b\<rparr>) = an_payload r"
    by (simp add: an_payload_def)
  have "an_Ask rt un c (r\<lparr>ExpectJSON := b\<rparr>) sent = an_Ask rt un c r sent"
    by (simp add: an_Ask_def validateAskRequest_def p split: sum.splits)
  with p show ?thesis
    by (simp add: an_payload_def)
qed

section \<open>The auth header of the OpenAI-compatible client\<close>

lemma map_of_header_put:
  "map_of (header_put k v h) k' = (if k' = k then Some v else map_of h k')"
  by (induction h) auto

lemma Header_Get_Header_Set:
  "Header_Get rt k' (Header_Set rt k v req) =
     (if canonicalHeaderKey rt k' = canonicalHeaderKey rt k then Some v else Header_Get rt k' req)"
  by (simp add: Header_Get_def Header_Set_def map_of_header_put)

lemma Header_Get_setStaticHeaders:
  assumes "canonicalHeaderKey rt k \<notin> canonicalHeaderKey rt ` fst ` set hs"
  shows "Header_Get rt k (setStaticHeaders rt hs req) = Header_Get rt k req"
  using assms unfolding setStaticHeaders_def
  by (induction hs arbitrary: req) (auto simp: Header_Get_Header_Set)

lemma Header_Get_NewRequest:
  "NewRequest rt m u = Inr req \<Longrightarrow> Header_Get rt k req = None"
  by (auto simp: NewRequest_def Header_Get_def split: option.splits)

lemma Header_Get_attachPayload:
  assumes "attachPayload rt req payload = Inr req'"
    and "canonicalHeaderKey rt k \<noteq> canonicalHeaderKey rt ''Content-Type''"
  shows "Header_Get rt k req' = Header_Get rt k req"
  using assms
  by (auto simp: attachPayload_def Header_Get_def Header_Set_def map_of_header_put
      split: option.splits sum.splits)

lemma oc_setHeaders_not_required:
  "\<not> oc_requireAPIKey c \<Longrightarrow> oc_setHeaders rt c req = setStaticHeaders rt (oc_headers c) req"
  by (simp add: oc_setHeaders_def requiresAPIKey_def)

lemma doJSON_sent_set:
  assumes "doJSON rt un req payload out sent = (res, sent')"
    and "q \<in> set sent'"
  shows "q \<in> set sent \<or> attachPayload rt req payload = Inr q"
  using doJSON_sent [OF assms(1)] assms(2) by auto

lemma oc_requests_without_auth:
  assumes nr: "\<not> oc_requireAPIKey c"
    and st: "canonicalHeaderKey rt (oc_authHeader c) \<notin> canonicalHeaderKey rt ` fst ` set (oc_headers c)"
    and ct: "canonicalHeaderKey rt (oc_authHeader c) \<noteq> canonicalHeaderKey rt ''Content-Type''"
    and nw: "NewRequest rt m u = Inr req"
    and at: "attachPayload rt (oc_setHeaders rt c req) payload = Inr q"
  shows "Header_Get rt (oc_authHeader c) q = None"
proof -
  have "Header_Get rt (oc_authHeader c) q = Header_Get rt (oc_authHeader c) (oc_setHeaders rt c req)"
    using at ct by (rule Header_Get_attachPayload)
  also have "\<dots> = Header_Get rt (oc_authHeader c) req"
    using nr st by (simp add: oc_setHeaders_not_required Header_Get_setStaticHeaders)
  also have "\<dots> = None"
    using nw by (rule Header_Get_NewRequest)
  finally show ?thesis .
qed

lemma askWithPayload_requests:
  assumes "askWithPayload rt un c u r flag sent = (res, sent')" and "q \<in> set sent'"
  shows "q \<in> set sent \<or>
    (\<exists>req. NewRequest rt ''POST'' u = Inr req \<and>
       attachPayload rt (oc_setHeaders rt c req) (Some (chatPayload r flag)) = Inr q)"
proof (cases "NewRequest rt ''POST'' u")
  case (Inl e)
  with assms show ?thesis by (simp add: askWithPayload_def)
next
  case (Inr req)
  with assms(1) obtain res' where
    "doJSON rt un (oc_setHeaders rt c req) (Some (chatPayload r flag)) (Some []) sent = (res', sent')"
    by (auto simp: askWithPayload_def split: prod.splits)
  from doJSON_sent_set [OF this assms(2)] Inr show ?thesis by auto
qed

lemma oc_Ask_requests:
  assumes "q \<in> set (snd (oc_Ask rt un c r sent))"
  shows "q \<in> set sent \<or>
    (\<exists>req flag. NewRequest rt ''POST'' (joinURL (oc_base c) (oc_chatPath c)) = Inr req \<and>
       attachPayload rt (oc_setHeaders rt c req) (Some (chatPayload r flag)) = Inr q)"
proof -
  let ?u = "joinURL (oc_base c) (oc_chatPath c)"
  obtain res1 sent1 where a1: "askWithPayload rt un c ?u r True sent = (res1, sent1)"
    by (cases "askWithPayload rt un c ?u r True sent") auto
  obtain res2 sent2 where a2: "askWithPayload rt un c ?u r False sent1 = (res2, sent2)"
    by (cases "askWithPayload rt un c ?u r False sent1") auto
  have "snd (oc_Ask rt un c r sent) \<in> {sent, sent1, sent2}"
    using a1 a2
    by (auto simp: oc_Ask_def Let_def split: option.splits prod.splits)
  with assms consider "q \<in> set sent" | "q \<in> set sent1" | "q \<in> set sent2"
    by auto
  then show ?thesis
  proof cases
    case 1
    then show ?thesis by simp
  next
    case 2
    from askWithPayload_requests [OF a1 2] show ?thesis by blast
  next
    case 3
    from askWithPayload_requests [OF a2 3] askWithPayload_requests [OF a1] show ?thesis
      by blast
  qed
qed

lemma oc_ListModels_requests:
  assumes "q \<in> set (snd (oc_ListModels rt un c sent))"
  shows "q \<in> set sent \<or>
    (\<exists>req. NewRequest rt ''GET'' (joinURL (oc_base c) (oc_modelsPath c)) = Inr req \<and>
       attachPayload rt (oc_setHeaders rt c req) None = Inr q)"
proof (cases "NewRequest rt ''GET'' (joinURL (oc_base c) (oc_modelsPath c))")
  case (Inl e)
  with assms show ?thesis by (simp add: oc_ListModels_def split: if_splits)
next
  case (Inr req)
  obtain res' sent' where d:
    "doJSON rt un (oc_setHeaders rt c req) None (Some []) sent = (res', sent')"
    by (cases "doJSON rt un (oc_setHeaders rt c req) None (Some []) sent") auto
  with assms Inr have "q \<in> set sent \<or> q \<in> set sent'"
    by (auto simp: oc_ListModels_def split: if_splits option.splits prod.splits)
  with doJSON_sent_set [OF d] Inr show ?thesis by auto
qed

text \<open>
  C10, as the code has it. A client built with \<open>RequireAPIKey\<close> false does not require a
  key, whatever the key of its options. Such a client sets no header from the key: its
  \<open>setHeaders\<close> is the loop over the static headers alone, so \<open>ListModels\<close> and \<open>Ask\<close> do
  and send the same whatever the key, the name of the auth header and its prefix are. A
  request they send carries no header under the name of the auth header, unless a static
  header of the configuration has that name or that name is \<open>Content-Type\<close>. In general
  \<open>setHeaders\<close> sets the auth header, to the prefix followed by the key, exactly when the
  client requires a key and has one.
\<close>

theorem oc_no_auth_header_unless_required:
  assumes "\<not> oc_requireAPIKey c"
  shows "oc_requireAPIKey (newOpenAICompatibleClient rt settings opts) = RequireAPIKey settings \<and>
         oc_apiKey (newOpenAICompatibleClient rt settings opts) = TrimSpace (APIKey opts) \<and>
         oc_setHeaders rt c req = setStaticHeaders rt (oc_headers c) req \<and>
         oc_ListModels rt un c sent =
           oc_ListModels rt un (c\<lparr>oc_apiKey := k, oc_authHeader := h, oc_authPrefix := p\<rparr>) sent \<and>
         oc_Ask rt un' c r sent =
           oc_Ask rt un' (c\<lparr>oc_apiKey := k, oc_authHeader := h, oc_authPrefix := p\<rparr>) r sent \<and>
         (canonicalHeaderKey rt (oc_authHeader c)
            \<notin> canonicalHeaderKey rt ` fst ` set (oc_headers c) \<and>
          canonicalHeaderKey rt (oc_authHeader c) \<noteq> canonicalHeaderKey rt ''Content-Type'' \<longrightarrow>
            (\<forall>q \<in> set (snd (oc_ListModels rt un c [])) \<union> set (snd (oc_Ask rt un' c r [])).
               Header_Get rt (oc_authHeader c) q = None)) \<and>
         oc_setHeaders rt c' req =
           setStaticHeaders rt (oc_headers c')
             (if oc_requireAPIKey c' \<and> oc_apiKey c' \<noteq> []
              then Header_Set rt (oc_authHeader c') (oc_authPrefix c' @ oc_apiKey c') req
              else req)"
proof (intro conjI impI ballI)
  let ?c = "c\<lparr>oc_apiKey := k, oc_authHeader := h, oc_authPrefix := p\<rparr>"
  show "oc_requireAPIKey (newOpenAICompatibleClient rt settings opts) = RequireAPIKey settings"
    and "oc_apiKey (newOpenAICompatibleClient rt settings opts) = TrimSpace (APIKey opts)"
    by (simp_all add: newOpenAICompatibleClient_def)
  show "oc_setHeaders rt c req = setStaticHeaders rt (oc_headers c) req"
    using assms by (rule oc_setHeaders_not_required)
  have sh: "oc_setHeaders rt ?c = oc_setHeaders rt c"
    using assms by (auto simp: oc_setHeaders_def requiresAPIKey_def)
  show "oc_ListModels rt un c sent = oc_ListModels rt un ?c sent"
    using assms by (simp add: oc_ListModels_def requiresAPIKey_def sh cong: sum.case_cong)
  have aw: "askWithPayload rt un' ?c = askWithPayload rt un' c"
    by (intro ext) (simp add: askWithPayload_def sh cong: sum.case_cong)
  have an: "oc_answer ?c = oc_answer c"
    by (intro ext) (simp add: oc_answer_def cong: list.case_cong sum.case_cong)
  show "oc_Ask rt un' c r sent = oc_Ask rt un' ?c r sent"
    unfolding oc_Ask_def aw an requiresAPIKey_def using assms
    by (cases "validateAskRequest r") simp_all
  show "oc_setHeaders rt c' req =
           setStaticHeaders rt (oc_headers c')
             (if oc_requireAPIKey c' \<and> oc_apiKey c' \<noteq> []
              then Header_Set rt (oc_authHeader c') (oc_authPrefix c' @ oc_apiKey c') req
              else req)"
    by (simp add: oc_setHeaders_def requiresAPIKey_def)
next
  fix q
  assume st: "canonicalHeaderKey rt (oc_authHeader c)
            \<notin> canonicalHeaderKey rt ` fst ` set (oc_headers c) \<and>
          canonicalHeaderKey rt (oc_authHeader c) \<noteq> canonicalHeaderKey rt ''Content-Type''"
    and q: "q \<in> set (snd (oc_ListModels rt un c [])) \<union> set (snd (oc_Ask rt un' c r []))"
  from q oc_ListModels_requests [of q rt un c "[]"] oc_Ask_requests [of q rt un' c r "[]"]
  obtain m u req payload where "NewRequest rt m u = Inr req"
    and "attachPayload rt (oc_setHeaders rt c req) payload = Inr q"
    by auto
  with assms st show "Header_Get rt (oc_authHeader c) q = None"
    by (auto intro: oc_requests_without_auth)
qed

theorem oc_no_auth_header_unless_required_witness:
  "NewOpenAICompatible (exampleRuntime (okServer chatReply)) customSettings customOptions =
     Inr customClient \<and>
   \<not> oc_requireAPIKey customClient \<and>
   oc_apiKey customClient = ''secret'' \<and>
   oc_authHeader customClient = ''Authorization'' \<and>
   fst (oc_Ask (exampleRuntime (okServer chatReply))
          (exampleUnmarshal [(chatReply, [JString ''ok''])]) customClient plainRequest []) =
     Inr \<lparr>Text = ''ok''\<rparr> \<and>
   map (Header_Get (exampleRuntime (okServer chatReply)) ''Authorization'')
     (snd (oc_Ask (exampleRuntime (okServer chatReply))
             (exampleUnmarshal [(chatReply, [JString ''ok''])]) customClient plainRequest [])) =
     [None] \<and>
   oc_Ask (exampleRuntime (okServer chatReply))
     (exampleUnmarshal [(chatReply, [JString ''ok''])]) customClient plainRequest [] =
   oc_Ask (exampleRuntime (okServer chatReply))
     (exampleUnmarshal [(chatReply, [JString ''ok''])])
     (customClient\<lparr>oc_apiKey := [], oc_authHeader := ''X-Api-Key'', oc_authPrefix := []\<rparr>)
     plainRequest []"
proof -
  let ?rt = "exampleRuntime (okServer chatReply)"
  let ?un = "exampleUnmarshal [(chatReply, [JString ''ok''])]"
  let ?lm = "exampleUnmarshal [] :: string \<Rightarrow> string list \<Rightarrow> _"
  let ?ask = "oc_Ask ?rt ?un customClient plainRequest []"
  have c: "NewOpenAICompatible ?rt customSettings customOptions = Inr customClient"
    by code_simp
  have nr: "\<not> oc_requireAPIKey customClient"
    by code_simp
  have k: "oc_apiKey customClient = ''secret''"
    by code_simp
  have a: "oc_authHeader customClient = ''Authorization''"
    by code_simp
  have st: "canonicalHeaderKey ?rt (oc_authHeader customClient)
              \<notin> canonicalHeaderKey ?rt ` fst ` set (oc_headers customClient) \<and>
            canonicalHeaderKey ?rt (oc_authHeader customClient)
              \<noteq> canonicalHeaderKey ?rt ''Content-Type''"
    by code_simp
  have t: "fst ?ask = Inr \<lparr>Text = ''ok''\<rparr>"
    by code_simp
  have l: "length (snd ?ask) = 1"
    by code_simp
  note th = oc_no_auth_header_unless_required [OF nr, where rt = ?rt and un = ?lm
      and sent = "[]" and un' = ?un and r = plainRequest and k = "[]" and h = "''X-Api-Key''"
      and p = "[]"]
  from th st have "\<forall>q\<in>set (snd ?ask). Header_Get ?rt (oc_authHeader customClient) q = None"
    by blast
  with l a have h: "map (Header_Get ?rt ''Authorization'') (snd ?ask) = [None]"
    by (cases "snd ?ask") auto
  from th have "?ask = oc_Ask ?rt ?un
      (customClient\<lparr>oc_apiKey := [], oc_authHeader := ''X-Api-Key'', oc_authPrefix := []\<rparr>)
      plainRequest []"
    by blast
  with c nr k a t h show ?thesis
    by simp
qed

text \<open>Against C10 as it is stated: a custom provider that requires no key and is
  configured with the static header \<open>Authorization: Basic abc\<close> sends that header, under the
  name of its auth header, with the requests of \<open>ListModels\<close> and of \<open>Ask\<close>.\<close>

theorem oc_static_auth_header_counterexample:
  "NewOpenAICompatible (exampleRuntime (okServer chatReply)) customSettings basicAuthOptions =
     Inr basicAuthClient \<and>
   \<not> oc_requireAPIKey basicAuthClient \<and>
   oc_authHeader basicAuthClient = ''Authorization'' \<and>
   fst (oc_Ask (exampleRuntime (okServer chatReply))
          (exampleUnmarshal [(chatReply, [JString ''ok''])]) basicAuthClient plainRequest []) =
     Inr \<lparr>Text = ''ok''\<rparr> \<and>
   map (Header_Get (exampleRuntime (okServer chatReply)) (oc_authHeader basicAuthClient))
     (snd (oc_Ask (exampleRuntime (okServer chatReply))
             (exampleUnmarshal [(chatReply, [JString ''ok''])]) basicAuthClient plainRequest [])) =
     [Some ''Basic abc''] \<and>
   fst (oc_ListModels (exampleRuntime (okServer openaiCatalog))
          (exampleUnmarshal [(openaiCatalog, [''gpt-b'', ''  '', ''gpt-a''])]) basicAuthClient []) =
     Inr [\<lparr>ID = ''gpt-a'', DisplayName = ''gpt-a''\<rparr>, \<lparr>ID = ''gpt-b'', DisplayName = ''gpt-b''\<rparr>] \<and>
   map (Header_Get (exampleRuntime (okServer openaiCatalog)) (oc_authHeader basicAuthClient))
     (snd (oc_ListModels (exampleRuntime (okServer openaiCatalog))
             (exampleUnmarshal [(openaiCatalog, [''gpt-b'', ''  '', ''gpt-a''])])
             basicAuthClient [])) =
     [Some ''Basic abc'']"
  by code_simp

section \<open>Content extraction\<close>

text \<open>The fragments of a list as the specification words them: the \<open>text\<close> of each item
  (empty when the item is not an object or its \<open>text\<close> is not a string), kept when it is
  not empty after trimming, in the order of the list.\<close>

definition fragmentText :: "json \<Rightarrow> string" where
  "fragmentText item =
     (case item of
        JObject obj \<Rightarrow> (case map_of obj ''text'' of Some (JString t) \<Rightarrow> t | _ \<Rightarrow> [])
      | _ \<Rightarrow> [])"

definition usableFragments :: "json list \<Rightarrow> string list" where
  "usableFragments items = filter (\<lambda>t. TrimSpace t \<noteq> []) (map fragmentText items)"

lemma TrimSpace_empty: "TrimSpace [] = []"
  by (simp add: TrimSpace_def TrimLeftSpace_Nil TrimRightSpace_Nil)

lemma textParts_usableFragments: "textParts items = usableFragments items"
proof (induction items)
  case Nil
  then show ?case by (simp add: usableFragments_def)
next
  case (Cons item items)
  then show ?case
    by (cases item)
      (auto simp: usableFragments_def fragmentText_def Let_def TrimSpace_empty
        split: option.splits json.splits)
qed

text \<open>
  C5, as the code has it. A string is returned trimmed. Of a list, the usable fragments
  are joined with newlines in their order and the joined string is then trimmed as a
  whole (the claim leaves this last trimming out); a list with no usable fragment gives
  the error \<open>array content had no text parts\<close>. Every other value gives the error
  \<open>unsupported content type\<close> followed by the name of its type.
\<close>

theorem extractMessageContent_cases:
  "extractMessageContent (JString s) = Inr (TrimSpace s) \<and>
   extractMessageContent (JArray items) =
     (if usableFragments items = [] then Inl ''array content had no text parts''
      else Inr (TrimSpace (Join (usableFragments items) ''\<newline>''))) \<and>
   extractMessageContent
     (JArray [JObject [(''text'', JString ''a'')], JObject [(''text'', JString ''b'')]]) =
     Inr ''a\<newline>b'' \<and>
   extractMessageContent JNull = Inl ''unsupported content type <nil>'' \<and>
   extractMessageContent (JBool b) = Inl ''unsupported content type bool'' \<and>
   extractMessageContent (JNumber n) = Inl ''unsupported content type float64'' \<and>
   extractMessageContent (JObject obj) = Inl ''unsupported content type map[string]interface {}''"
proof -
  have "extractMessageContent
     (JArray [JObject [(''text'', JString ''a'')], JObject [(''text'', JString ''b'')]]) =
     Inr ''a\<newline>b''"
    by code_simp
  then show ?thesis
    by (simp add: extractMessageContent_def goTypeName_def textParts_usableFragments Let_def)
qed

text \<open>Against C5 as it is stated: for two fragments with spaces around them the result is
  neither the fragments joined nor the trimmed fragments joined.\<close>

theorem extractMessageContent_trims_joined_counterexample:
  "extractMessageContent
     (JArray [JObject [(''text'', JString '' a '')], JObject [(''text'', JString '' b '')]]) =
     Inr ''a \<newline> b'' \<and>
   usableFragments [JObject [(''text'', JString '' a '')], JObject [(''text'', JString '' b '')]] =
     ['' a '', '' b ''] \<and>
   Join ['' a '', '' b ''] ''\<newline>'' = '' a \<newline> b '' \<and>
   Join (map TrimSpace ['' a '', '' b '']) ''\<newline>'' = ''a\<newline>b''"
  by code_simp

section \<open>The Gemini catalog\<close>

text \<open>The entry of the result that the loop of \<open>ListModels\<close> makes of a catalog entry.\<close>

definition ge_entryID :: "geminiModelEntry \<Rightarrow> string" where
  "ge_entryID m = TrimPrefix (TrimSpace (gm_name m)) ''models/''"

definition ge_entryModel :: "geminiModelEntry \<Rightarrow> Model" where
  "ge_entryModel m =
     \<lparr>ID = ge_entryID m,
      DisplayName = (if TrimSpace (gm_displayName m) = [] then ge_entryID m
                     else TrimSpace (gm_displayName m))\<rparr>"

lemma supportsGenerateContent_iff:
  "supportsGenerateContent methods =
     (\<exists>m\<in>set methods. EqualFold (TrimSpace m) ''generateContent'')"
  by (induction methods) auto

lemma ge_models_filter:
  "ge_models es =
     map ge_entryModel
       (filter (\<lambda>m. supportsGenerateContent (gm_supportedGenerationMethods m) \<and>
                    ge_entryID m \<noteq> []) es)"
  by (induction es) (auto simp: Let_def ge_entryModel_def ge_entryID_def)

lemma ge_ListModels_decoded:
  assumes "ge_apiKey c \<noteq> []"
    and "NewRequest rt ''GET'' (joinURL (ge_base c) ''/models'') = Inr req"
    and "server rt (sent @ [ge_setHeaders rt c req]) = HTTPResponse code status body"
    and "code < 400" and "TrimSpace body \<noteq> []" and "un body [] = (None, es)"
  shows "ge_ListModels rt un c sent =
           (Inr (sortModels (ge_models es)), sent @ [ge_setHeaders rt c req])"
  using assms
  by (simp add: ge_ListModels_def doJSON_def attachPayload_def client_Do_def)

text \<open>
  C6, as the code has it. The loop keeps, in their order, the catalog entries that support
  \<open>generateContent\<close> and whose id (the name trimmed and without its \<open>models/\<close> prefix) is
  not empty; the claim leaves the second condition out. An entry supports
  \<open>generateContent\<close> when one of its methods, trimmed, equals it up to the case of the
  letters. The result of \<open>ListModels\<close> for a decoded catalog is the sorted list of the
  models of the entries kept, so a model whose methods omit \<open>generateContent\<close> is not in it.
\<close>

theorem ge_ListModels_keeps_generateContent:
  "ge_models es =
     map ge_entryModel
       (filter (\<lambda>m. supportsGenerateContent (gm_supportedGenerationMethods m) \<and>
                    ge_entryID m \<noteq> []) es) \<and>
   supportsGenerateContent methods =
     (\<exists>m\<in>set methods. map asciiLower (TrimSpace m) = ''generatecontent'') \<and>
   (ge_apiKey c \<noteq> [] \<and>
    NewRequest rt ''GET'' (joinURL (ge_base c) ''/models'') = Inr req \<and>
    server rt (sent @ [ge_setHeaders rt c req]) = HTTPResponse code status body \<and>
    code < 400 \<and> TrimSpace body \<noteq> [] \<and> un body [] = (None, es) \<longrightarrow>
      fst (ge_ListModels rt un c sent) = Inr (sortModels (ge_models es)) \<and>
      set (sortModels (ge_models es)) =
        ge_entryModel `
          {m \<in> set es. supportsGenerateContent (gm_supportedGenerationMethods m) \<and>
                        ge_entryID m \<noteq> []})"
proof (intro conjI impI)
  show f: "ge_models es =
     map ge_entryModel
       (filter (\<lambda>m. supportsGenerateContent (gm_supportedGenerationMethods m) \<and>
                    ge_entryID m \<noteq> []) es)"
    by (rule ge_models_filter)
  have "map asciiLower ''generateContent'' = ''generatecontent''"
    by code_simp
  then show "supportsGenerateContent methods =
     (\<exists>m\<in>set methods. map asciiLower (TrimSpace m) = ''generatecontent'')"
    by (simp add: supportsGenerateContent_iff EqualFold_def)
  show "set (sortModels (ge_models es)) =
        ge_entryModel `
          {m \<in> set es. supportsGenerateContent (gm_supportedGenerationMethods m) \<and>
                        ge_entryID m \<noteq> []}"
    by (simp add: set_sortModels f)
next
  assume "ge_apiKey c \<noteq> [] \<and>
    NewRequest rt ''GET'' (joinURL (ge_base c) ''/models'') = Inr req \<and>
    server rt (sent @ [ge_setHeaders rt c req]) = HTTPResponse code status body \<and>
    code < 400 \<and> TrimSpace body \<noteq> [] \<and> un body [] = (None, es)"
  then show "fst (ge_ListModels rt un c sent) = Inr (sortModels (ge_models es))"
    by (simp add: ge_ListModels_decoded)
qed

text \<open>Against C6 as it is stated: an entry that supports \<open>generateContent\<close> and whose name is
  the bare prefix is not kept.\<close>

theorem ge_ListModels_drops_nameless_counterexample:
  "supportsGenerateContent [''generateContent''] \<and>
   ge_models [\<lparr>gm_name = ''models/'', gm_displayName = ''Nameless'',
               gm_supportedGenerationMethods = [''generateContent'']\<rparr>] = []"
  by code_simp

theorem ge_ListModels_keeps_generateContent_witness:
  "ge_apiKey geminiExample \<noteq> [] \<and>
   NewRequest (exampleRuntime (okServer geminiCatalog)) ''GET''
     (joinURL (ge_base geminiExample) ''/models'') = Inr geminiModelsRequest \<and>
   server (exampleRuntime (okServer geminiCatalog))
     ([] @ [ge_setHeaders (exampleRuntime (okServer geminiCatalog)) geminiExample
              geminiModelsRequest]) = HTTPResponse 200 ''200 OK'' geminiCatalog \<and>
   (200::int) < 400 \<and> TrimSpace geminiCatalog \<noteq> [] \<and>
   exampleUnmarshal [(geminiCatalog, geminiEntries)] geminiCatalog [] = (None, geminiEntries) \<and>
   fst (ge_ListModels (exampleRuntime (okServer geminiCatalog))
          (exampleUnmarshal [(geminiCatalog, geminiEntries)]) geminiExample []) =
     Inr [\<lparr>ID = ''gemini-1.5-pro'', DisplayName = ''gemini-1.5-pro''\<rparr>,
          \<lparr>ID = ''gemini-2.0-flash'', DisplayName = ''Gemini 2.0 Flash''\<rparr>]"
proof -
  let ?rt = "exampleRuntime (okServer geminiCatalog)"
  let ?un = "exampleUnmarshal [(geminiCatalog, geminiEntries)]"
  have k: "ge_apiKey geminiExample \<noteq> []"
    by code_simp
  have n: "NewRequest ?rt ''GET'' (joinURL (ge_base geminiExample) ''/models'') =
      Inr geminiModelsRequest"
    by code_simp
  have s: "server ?rt ([] @ [ge_setHeaders ?rt geminiExample geminiModelsRequest]) =
      HTTPResponse 200 ''200 OK'' geminiCatalog"
    by (simp add: exampleRuntime_def okServer_def)
  have b: "TrimSpace geminiCatalog \<noteq> []"
    by code_simp
  have u: "?un geminiCatalog [] = (None, geminiEntries)"
    by (simp add: exampleUnmarshal_def)
  have m: "sortModels (ge_models geminiEntries) =
     [\<lparr>ID = ''gemini-1.5-pro'', DisplayName = ''gemini-1.5-pro''\<rparr>,
      \<lparr>ID = ''gemini-2.0-flash'', DisplayName = ''Gemini 2.0 Flash''\<rparr>]"
    by code_simp
  from ge_ListModels_keeps_generateContent
    [where c = geminiExample and rt = ?rt and req = geminiModelsRequest and sent = "[]"
       and code = 200 and status = "''200 OK''" and body = geminiCatalog and un = ?un
       and es = geminiEntries]
    k n s b u
  have "fst (ge_ListModels ?rt ?un geminiExample []) = Inr (sortModels (ge_models geminiEntries))"
    by simp
  with m k n s b u show ?thesis
    by simp
qed

section \<open>The model id of a Gemini request\<close>

lemma setStaticHeaders_keeps:
  "req_method (setStaticHeaders rt hs q) = req_method q \<and>
   req_url (setStaticHeaders rt hs q) = req_url q"
  unfolding setStaticHeaders_def
  by (induction hs arbitrary: q) (auto simp: Header_Set_def)

lemma attachPayload_keeps:
  "attachPayload rt req payload = Inr q \<Longrightarrow>
     req_method q = req_method req \<and> req_url q = req_url req"
  by (auto simp: attachPayload_def Header_Set_def split: option.splits sum.splits)

lemma NewRequest_fields:
  "NewRequest rt m u = Inr req \<Longrightarrow> req_method req = m \<and> req_url req = u"
  by (auto simp: NewRequest_def split: option.splits)

lemma ge_Ask_requests:
  assumes "q \<in> set (snd (ge_Ask rt un c r sent))"
  shows "q \<in> set sent \<or>
    (\<exists>req payload.
       NewRequest rt ''POST'' (joinURL (ge_base c) (ge_path (ge_modelID r))) = Inr req \<and>
       attachPayload rt (ge_setHeaders rt c req) payload = Inr q)"
proof (cases "NewRequest rt ''POST'' (joinURL (ge_base c) (ge_path (ge_modelID r)))")
  case (Inl e)
  with assms show ?thesis
    by (auto simp: ge_Ask_def split: option.splits if_splits)
next
  case (Inr req)
  let ?req = "ge_setHeaders rt c req"
  obtain err1 out1 sent1 where d1:
    "doJSON rt un ?req (Some (ge_payload r (ExpectJSON r))) (Some []) sent = ((err1, out1), sent1)"
    by (metis prod.collapse)
  obtain res2 sent2 where d2:
    "doJSON rt un ?req (Some (ge_payload r False)) out1 sent1 = (res2, sent2)"
    by (metis prod.collapse)
  have "snd (ge_Ask rt un c r sent) \<in> {sent, sent1, sent2}"
    using Inr d1 d2
    by (auto simp: ge_Ask_def split: option.splits if_splits prod.splits)
  with assms consider "q \<in> set sent" | "q \<in> set sent1" | "q \<in> set sent2"
    by auto
  then show ?thesis
  proof cases
    case 1
    then show ?thesis by simp
  next
    case 2
    from doJSON_sent_set [OF d1 2] Inr show ?thesis by blast
  next
    case 3
    from doJSON_sent_set [OF d2 3] doJSON_sent_set [OF d1] Inr show ?thesis by blast
  qed
qed

lemma TrimPrefix_once: "TrimPrefix (p @ x) p = x"
  by (simp add: TrimPrefix_def HasPrefix_def)

text \<open>
  C7, as the code has it. The model id of a request is its model, trimmed, without one
  leading \<open>models/\<close>: a second \<open>models/\<close> stays. Every request that \<open>Ask\<close> sends is a
  POST to \<open>/models/<id>:generateContent\<close> under the base URL. When the id is empty, \<open>Ask\<close>
  fails and sends nothing; the error is the validation error of the request (\<open>model is
  required\<close>, or the one of \<open>validateAskRequest\<close>) for a client that has a key, and a
  client with no key reports \<open>GEMINI_API_KEY not configured\<close> first unless
  \<open>validateAskRequest\<close> has already failed, since the check of the key comes before the
  prefix is stripped.
\<close>

theorem ge_Ask_model_id:
  "ge_modelID r = TrimPrefix (TrimSpace (Model r)) ''models/'' \<and>
   TrimPrefix (''models/'' @ x) ''models/'' = x \<and>
   (\<not> HasPrefix x ''models/'' \<longrightarrow> TrimPrefix x ''models/'' = x) \<and>
   ge_modelID (r\<lparr>Model := ''models/gemini-2.0-flash''\<rparr>) = ''gemini-2.0-flash'' \<and>
   ge_path ''gemini-2.0-flash'' = ''/models/gemini-2.0-flash:generateContent'' \<and>
   (\<forall>q\<in>set (snd (ge_Ask rt un c r [])).
      req_method q = ''POST'' \<and> req_url q = joinURL (ge_base c) (ge_path (ge_modelID r))) \<and>
   (ge_modelID r = [] \<longrightarrow>
      ge_Ask rt un c r sent =
        (Inl (case validateAskRequest r of
                Some e \<Rightarrow> e
              | None \<Rightarrow> if ge_apiKey c = [] then ''GEMINI_API_KEY not configured''
                        else ''model is required''), sent))"
proof (intro conjI impI ballI)
  show "ge_modelID r = TrimPrefix (TrimSpace (Model r)) ''models/''"
    by (simp add: ge_modelID_def)
  show "TrimPrefix (''models/'' @ x) ''models/'' = x"
    by (rule TrimPrefix_once)
  show "TrimPrefix x ''models/'' = x" if "\<not> HasPrefix x ''models/''"
    using that by (simp add: TrimPrefix_def)
  have "TrimSpace ''models/gemini-2.0-flash'' = ''models/gemini-2.0-flash''"
    by code_simp
  then show "ge_modelID (r\<lparr>Model := ''models/gemini-2.0-flash''\<rparr>) = ''gemini-2.0-flash''"
    by (simp add: ge_modelID_def TrimPrefix_def HasPrefix_def)
  show "ge_path ''gemini-2.0-flash'' = ''/models/gemini-2.0-flash:generateContent''"
    by (simp add: ge_path_def)
  show "ge_Ask rt un c r sent =
        (Inl (case validateAskRequest r of
                Some e \<Rightarrow> e
              | None \<Rightarrow> if ge_apiKey c = [] then ''GEMINI_API_KEY not configured''
                        else ''model is required''), sent)"
    if "ge_modelID r = []"
    using that by (simp add: ge_Ask_def split: option.splits)
next
  fix q
  assume "q \<in> set (snd (ge_Ask rt un c r []))"
  from ge_Ask_requests [OF this] obtain req payload where
    n: "NewRequest rt ''POST'' (joinURL (ge_base c) (ge_path (ge_modelID r))) = Inr req"
    and a: "attachPayload rt (ge_setHeaders rt c req) payload = Inr q"
    by auto
  have "req_method (ge_setHeaders rt c req) = req_method req \<and>
        req_url (ge_setHeaders rt c req) = req_url req"
    by (simp add: ge_setHeaders_def setStaticHeaders_keeps Header_Set_def)
  with NewRequest_fields [OF n] attachPayload_keeps [OF a]
  show "req_method q = ''POST''"
    and "req_url q = joinURL (ge_base c) (ge_path (ge_modelID r))"
    by simp_all
qed

text \<open>Against C7 as it is stated: for a client with no key, a model that is the bare prefix
  gives the configuration error, not a validation error.\<close>

theorem ge_Ask_key_before_model_counterexample:
  "ge_modelID prefixOnlyRequest = [] \<and>
   ge_Ask (exampleRuntime (okServer [])) (exampleUnmarshal [])
     (newGeminiClient \<lparr>APIKey = [], BaseURL = [], Headers = []\<rparr>) prefixOnlyRequest [] =
     (Inl ''GEMINI_API_KEY not configured'', [])"
  by code_simp

theorem ge_Ask_model_id_witness:
  "ge_modelID prefixOnlyRequest = [] \<and>
   ge_apiKey geminiExample = ''g-test'' \<and>
   ge_Ask (exampleRuntime (okServer geminiReply)) (exampleUnmarshal [(geminiReply, [[''ok'']])])
     geminiExample prefixOnlyRequest [] = (Inl ''model is required'', []) \<and>
   \<not> HasPrefix ''gemini-2.0-flash'' ''models/'' \<and>
   TrimPrefix ''gemini-2.0-flash'' ''models/'' = ''gemini-2.0-flash'' \<and>
   fst (ge_Ask (exampleRuntime (okServer geminiReply))
          (exampleUnmarshal [(geminiReply, [[''ok'']])]) geminiExample flashRequest []) =
     Inr \<lparr>Text = ''ok''\<rparr> \<and>
   map req_url (snd (ge_Ask (exampleRuntime (okServer geminiReply))
          (exampleUnmarshal [(geminiReply, [[''ok'']])]) geminiExample flashRequest [])) =
     [''https://generativelanguage.googleapis.com/v1beta/models/gemini-2.0-flash:generateContent'']"
proof -
  let ?rt = "exampleRuntime (okServer geminiReply)"
  let ?un = "exampleUnmarshal [(geminiReply, [[''ok'']])]"
  let ?ask = "ge_Ask ?rt ?un geminiExample flashRequest []"
  have e: "ge_modelID prefixOnlyRequest = []"
    by code_simp
  have k: "ge_apiKey geminiExample = ''g-test''"
    by code_simp
  have v: "validateAskRequest prefixOnlyRequest = None"
    by code_simp
  have p: "\<not> HasPrefix ''gemini-2.0-flash'' ''models/''"
    by code_simp
  have t: "fst ?ask = Inr \<lparr>Text = ''ok''\<rparr>"
    by code_simp
  have l: "length (snd ?ask) = 1"
    by code_simp
  have u: "joinURL (ge_base geminiExample) (ge_path (ge_modelID flashRequest)) =
      ''https://generativelanguage.googleapis.com/v1beta/models/gemini-2.0-flash:generateContent''"
    by code_simp
  note th1 = ge_Ask_model_id [where r = prefixOnlyRequest and c = geminiExample and rt = ?rt
      and un = ?un and sent = "[]" and x = "''gemini-2.0-flash''"]
  note th2 = ge_Ask_model_id [where r = flashRequest and c = geminiExample and rt = ?rt
      and un = ?un and sent = "[]" and x = "''gemini-2.0-flash''"]
  from th1 e k v have f: "ge_Ask ?rt ?un geminiExample prefixOnlyRequest [] =
      (Inl ''model is required'', [])"
    by simp
  from th1 p have s: "TrimPrefix ''gemini-2.0-flash'' ''models/'' = ''gemini-2.0-flash''"
    by blast
  from th2 u have "\<forall>q\<in>set (snd ?ask). req_url q =
      ''https://generativelanguage.googleapis.com/v1beta/models/gemini-2.0-flash:generateContent''"
    by simp
  with l have m: "map req_url (snd ?ask) =
     [''https://generativelanguage.googleapis.com/v1beta/models/gemini-2.0-flash:generateContent'']"
    by (cases "snd ?ask") auto
  from e k f p s t m show ?thesis
    by simp
qed

section \<open>The text of an answer\<close>

lemma TrimSpace_Join_nonblank:
  assumes "parts \<noteq> []" and "\<forall>p\<in>set parts. TrimSpace p \<noteq> []"
  shows "TrimSpace (Join parts ''\<newline>'') \<noteq> []"
proof
  assume "TrimSpace (Join parts ''\<newline>'') = []"
  moreover from assms(1) have "hd parts \<in> set parts" by simp
  ultimately have "TrimSpace (hd parts) = []"
    by (rule TrimSpace_Join_Nil)
  with assms show False by simp
qed

lemma an_parts_nonblank: "p \<in> set (an_parts blocks) \<Longrightarrow> TrimSpace p \<noteq> []"
  by (induction blocks rule: an_parts.induct) (auto split: if_splits)

lemma ge_parts_nonblank: "p \<in> set (ge_parts ts) \<Longrightarrow> TrimSpace p \<noteq> []"
  by (induction ts) (auto split: if_splits)

lemma usableFragments_nonblank: "p \<in> set (usableFragments items) \<Longrightarrow> TrimSpace p \<noteq> []"
  by (simp add: usableFragments_def)

lemma extractMessageContent_trimmed:
  "extractMessageContent content = Inr t \<Longrightarrow> TrimSpace t = t"
  by (cases content)
    (auto simp: extractMessageContent_def Let_def TrimSpace_idem split: if_splits)

lemma extractMessageContent_list_nonblank:
  "extractMessageContent (JArray items) = Inr t \<Longrightarrow> t \<noteq> []"
  by (auto simp: extractMessageContent_def Let_def textParts_usableFragments
      usableFragments_nonblank TrimSpace_Join_nonblank split: if_splits)

lemma oc_Ask_success:
  assumes "fst (oc_Ask rt un c r sent) = Inr resp"
  shows "\<exists>content. extractMessageContent content = Inr (Text resp)"
proof -
  from assms obtain choices where "oc_answer c choices = Inr resp"
    by (auto simp: oc_Ask_def Let_def split: option.splits if_splits prod.splits)
  then show ?thesis
    by (auto simp: oc_answer_def split: list.splits sum.splits)
qed

lemma ge_answer_success:
  "ge_answer candidates = Inr resp \<Longrightarrow> TrimSpace (Text resp) \<noteq> []"
  by (auto simp: ge_answer_def Let_def ge_parts_nonblank TrimSpace_Join_nonblank
      split: list.splits if_splits)

lemma ge_Ask_success:
  assumes "fst (ge_Ask rt un c r sent) = Inr resp"
  shows "\<exists>candidates. ge_answer candidates = Inr resp"
  using assms
  by (auto simp: ge_Ask_def split: option.splits if_splits sum.splits prod.splits)

lemma an_Ask_success:
  assumes "fst (an_Ask rt un c r sent) = Inr resp"
  shows "TrimSpace (Text resp) \<noteq> []"
  using assms
  by (auto simp: an_Ask_def Let_def an_parts_nonblank TrimSpace_Join_nonblank
      split: option.splits if_splits sum.splits prod.splits)

lemma ol_Ask_success:
  assumes "fst (ol_Ask rt un c r sent) = Inr resp"
  shows "TrimSpace (Text resp) \<noteq> []"
  using assms
  by (auto simp: ol_Ask_def Let_def split: option.splits if_splits sum.splits prod.splits)

lemma an_parts_filter:
  "an_parts blocks =
     map snd (filter (\<lambda>b. fst b = ''text'' \<and> TrimSpace (snd b) \<noteq> []) blocks)"
  by (induction blocks rule: an_parts.induct) auto

lemma ge_parts_filter: "ge_parts ts = filter (\<lambda>t. TrimSpace t \<noteq> []) ts"
  by (induction ts) auto

lemma ol_Ask_decoded:
  assumes "validateAskRequest r = None"
    and "NewRequest rt ''POST'' (joinURL (ol_base c) ''/api/chat'') = Inr req"
    and "doJSON rt un req (Some (ol_payload r)) (Some []) sent = ((None, Some content), sent')"
  shows "ol_Ask rt un c r sent =
           (if TrimSpace content = [] then Inl ''ollama response had empty content''
            else Inr \<lparr>Text = content\<rparr>, sent')"
  using assms by (simp add: ol_Ask_def)

lemma an_Ask_decoded:
  assumes "validateAskRequest r = None" and "an_apiKey c \<noteq> []"
    and "NewRequest rt ''POST'' (joinURL (an_base c) ''/v1/messages'') = Inr req"
    and "doJSON rt un (an_setHeaders rt c req) (Some (an_payload r)) (Some []) sent =
           ((None, Some blocks), sent')"
  shows "an_Ask rt un c r sent =
           (if an_parts blocks = [] then Inl ''no text content returned by Anthropic''
            else Inr \<lparr>Text = Join (an_parts blocks) ''\<newline>''\<rparr>, sent')"
  using assms by (simp add: an_Ask_def Let_def)

lemma ge_Ask_attempts:
  assumes "validateAskRequest r = None" and "ge_apiKey c \<noteq> []" and "ge_modelID r \<noteq> []"
    and "NewRequest rt ''POST'' (joinURL (ge_base c) (ge_path (ge_modelID r))) = Inr req"
    and "doJSON rt un (ge_setHeaders rt c req) (Some (ge_payload r (ExpectJSON r))) (Some [])
           sent = ((err1, out1), sent1)"
    and "doJSON rt un (ge_setHeaders rt c req) (Some (ge_payload r False)) out1 sent1 =
           ((err2, out2), sent2)"
  shows "ge_Ask rt un c r sent =
           (if err1 \<noteq> None \<and> ExpectJSON r \<and> responseFormatLikelyUnsupported rt err1
            then (case err2 of Some e \<Rightarrow> Inl e
                  | None \<Rightarrow> ge_answer (case out2 of Some resp \<Rightarrow> resp | None \<Rightarrow> []), sent2)
            else (case err1 of Some e \<Rightarrow> Inl e
                  | None \<Rightarrow> ge_answer (case out1 of Some resp \<Rightarrow> resp | None \<Rightarrow> []), sent1))"
  using assms by (auto simp: ge_Ask_def split: option.splits)

lemma ge_answer_cases:
  "ge_answer candidates =
     (case candidates of
        [] \<Rightarrow> Inl ''no candidates returned by Gemini''
      | first # rest \<Rightarrow>
          if filter (\<lambda>t. TrimSpace t \<noteq> []) first = []
          then Inl ''Gemini response had no text parts''
          else Inr \<lparr>Text = Join (filter (\<lambda>t. TrimSpace t \<noteq> []) first) ''\<newline>''\<rparr>)"
  by (simp add: ge_answer_def Let_def ge_parts_filter split: list.splits)

lemma oc_answer_none: "oc_answer c [] = Inl (''no choices returned by '' @ oc_name c)"
  by (simp add: oc_answer_def)

lemma oc_answer_list:
  "oc_answer c (JArray items # rest) =
     (if usableFragments items = []
      then Inl (''decode '' @ oc_name c @ '' response content: array content had no text parts'')
      else Inr \<lparr>Text = TrimSpace (Join (usableFragments items) ''\<newline>'')\<rparr>)"
  by (simp add: oc_answer_def extractMessageContent_def Let_def textParts_usableFragments)

lemma oc_answer_string: "oc_answer c (JString s # rest) = Inr \<lparr>Text = TrimSpace s\<rparr>"
  by (simp add: oc_answer_def extractMessageContent_def)

lemma oc_answer_other:
  assumes "\<forall>s. content \<noteq> JString s" and "\<forall>items. content \<noteq> JArray items"
  shows "oc_answer c (content # rest) =
     Inl (''decode '' @ oc_name c @ '' response content: unsupported content type ''
          @ goTypeName content)"
  using assms by (cases content) (simp_all add: oc_answer_def extractMessageContent_def)

lemma oc_Ask_last_attempt:
  assumes "validateAskRequest r = None"
    and "\<not> (requiresAPIKey c \<and> oc_apiKey c = [])"
    and "askWithPayload rt un c (joinURL (oc_base c) (oc_chatPath c)) r True sent =
           ((resp1, err1), sent1)"
    and "askWithPayload rt un c (joinURL (oc_base c) (oc_chatPath c)) r False sent1 =
           ((resp2, err2), sent2)"
    and "(choices, None) =
           (if err1 \<noteq> None \<and> ExpectJSON r \<and> responseFormatLikelyUnsupported rt err1
            then (resp2, err2) else (resp1, err1))"
  shows "fst (oc_Ask rt un c r sent) = oc_answer c choices"
  using assms(5) oc_Ask_attempts [OF assms(1-4)]
  by (auto split: if_splits)

lemma askWithPayload_decoded:
  assumes "NewRequest rt ''POST'' u = Inr req"
    and "doJSON rt un (oc_setHeaders rt c req) (Some (chatPayload r flag)) (Some []) sent =
           ((err, Some choices), sent')"
  shows "askWithPayload rt un c u r flag sent = ((choices, err), sent')"
  using assms by (simp add: askWithPayload_def)

lemma pair_of_fst: "fst p = a \<Longrightarrow> p = (a, snd p)"
  by auto

lemma pair_of_parts: "p = ((fst (fst p), snd (fst p)), snd p)"
  by simp

lemma NewRequest_example:
  "NewRequest (exampleRuntime srv) m u =
     Inr \<lparr>req_method = m, req_url = u, req_header = [], req_body = None,
          req_contentLength = 0\<rparr>"
  by (simp add: NewRequest_def exampleRuntime_def)

text \<open>
  C3, as the code has it. A text that \<open>Ask\<close> of the Ollama, Anthropic or Gemini client
  returns is not empty, and not blank either (it has a character that is not white
  space); nothing makes it trimmed. A text that \<open>Ask\<close> of the OpenAI-compatible client
  returns is trimmed, and it is not empty when the content was a list.

  A response with no usable content is an error of \<open>Ask\<close>. Once \<open>doJSON\<close> has returned no
  error and left the decoded response in \<open>resp\<close>: \<open>Ask\<close> of the Ollama client returns the
  content as it is, and an error when the content is blank; \<open>Ask\<close> of the Anthropic client
  returns the texts of the \<open>text\<close> blocks that are not blank, joined with newlines, and an
  error when there is none; \<open>Ask\<close> of the Gemini client (the attempt that counts is the
  retry when the first attempt failed for its response format) returns the texts of the
  parts of the first candidate that are not blank, joined with newlines, and an error
  when there is no candidate or no such part. For \<open>Ask\<close> of the OpenAI-compatible client
  (the attempt that counts is again the retry when there is one), when the attempt
  returned the choices with no error: no choice is an error; a first choice whose content
  is a list gives the usable fragments joined with newlines and trimmed, which is not
  empty, and an error when no fragment is usable; a first choice whose content is a
  string that is not blank gives that string trimmed; a content that is neither a string
  nor a list is an error. The choices of an attempt are those that \<open>doJSON\<close> decoded.
\<close>

theorem Ask_success_text:
  "(fst (ol_Ask rt un1 c1 r sent) = Inr resp1 \<longrightarrow>
      Text resp1 \<noteq> [] \<and> TrimSpace (Text resp1) \<noteq> []) \<and>
   (fst (an_Ask rt un2 c2 r sent) = Inr resp2 \<longrightarrow>
      Text resp2 \<noteq> [] \<and> TrimSpace (Text resp2) \<noteq> []) \<and>
   (fst (ge_Ask rt un3 c3 r sent) = Inr resp3 \<longrightarrow>
      Text resp3 \<noteq> [] \<and> TrimSpace (Text resp3) \<noteq> []) \<and>
   (fst (oc_Ask rt un4 c4 r sent) = Inr resp4 \<longrightarrow> TrimSpace (Text resp4) = Text resp4) \<and>
   (extractMessageContent (JArray items) = Inr t \<longrightarrow> t \<noteq> [] \<and> TrimSpace t = t) \<and>
   (validateAskRequest r = None \<and>
    NewRequest rt ''POST'' (joinURL (ol_base c1) ''/api/chat'') = Inr req1 \<and>
    doJSON rt un1 req1 (Some (ol_payload r)) (Some []) sent = ((None, Some answer), sent1) \<longrightarrow>
      ol_Ask rt un1 c1 r sent =
        (if TrimSpace answer = [] then Inl ''ollama response had empty content''
         else Inr \<lparr>Text = answer\<rparr>, sent1)) \<and>
   (validateAskRequest r = None \<and> an_apiKey c2 \<noteq> [] \<and>
    NewRequest rt ''POST'' (joinURL (an_base c2) ''/v1/messages'') = Inr req2 \<and>
    doJSON rt un2 (an_setHeaders rt c2 req2) (Some (an_payload r)) (Some []) sent =
      ((None, Some blocks), sent2) \<longrightarrow>
      an_Ask rt un2 c2 r sent =
        (if filter (\<lambda>b. fst b = ''text'' \<and> TrimSpace (snd b) \<noteq> []) blocks = []
         then Inl ''no text content returned by Anthropic''
         else Inr \<lparr>Text = Join (map snd
                 (filter (\<lambda>b. fst b = ''text'' \<and> TrimSpace (snd b) \<noteq> []) blocks))
                 ''\<newline>''\<rparr>, sent2)) \<and>
   (validateAskRequest r = None \<and> ge_apiKey c3 \<noteq> [] \<and> ge_modelID r \<noteq> [] \<and>
    NewRequest rt ''POST'' (joinURL (ge_base c3) (ge_path (ge_modelID r))) = Inr req3 \<and>
    doJSON rt un3 (ge_setHeaders rt c3 req3) (Some (ge_payload r (ExpectJSON r))) (Some [])
      sent = ((gerr1, gout1), gsent1) \<and>
    doJSON rt un3 (ge_setHeaders rt c3 req3) (Some (ge_payload r False)) gout1 gsent1 =
      ((gerr2, gout2), gsent2) \<and>
    (None, Some candidates) =
      (if gerr1 \<noteq> None \<and> ExpectJSON r \<and> responseFormatLikelyUnsupported rt gerr1
       then (gerr2, gout2) else (gerr1, gout1)) \<longrightarrow>
      fst (ge_Ask rt un3 c3 r sent) =
        (case candidates of
           [] \<Rightarrow> Inl ''no candidates returned by Gemini''
         | first # others \<Rightarrow>
             if filter (\<lambda>t. TrimSpace t \<noteq> []) first = []
             then Inl ''Gemini response had no text parts''
             else Inr \<lparr>Text = Join (filter (\<lambda>t. TrimSpace t \<noteq> []) first) ''\<newline>''\<rparr>)) \<and>
   (validateAskRequest r = None \<and> \<not> (requiresAPIKey c4 \<and> oc_apiKey c4 = []) \<and>
    askWithPayload rt un4 c4 (joinURL (oc_base c4) (oc_chatPath c4)) r True sent =
      ((oresp1, oerr1), osent1) \<and>
    askWithPayload rt un4 c4 (joinURL (oc_base c4) (oc_chatPath c4)) r False osent1 =
      ((oresp2, oerr2), osent2) \<and>
    (choices, None) =
      (if oerr1 \<noteq> None \<and> ExpectJSON r \<and> responseFormatLikelyUnsupported rt oerr1
       then (oresp2, oerr2) else (oresp1, oerr1)) \<longrightarrow>
      (choices = [] \<longrightarrow>
         fst (oc_Ask rt un4 c4 r sent) = Inl (''no choices returned by '' @ oc_name c4)) \<and>
      (choices = JArray frags # rest \<longrightarrow>
         fst (oc_Ask rt un4 c4 r sent) =
           (if usableFragments frags = []
            then Inl (''decode '' @ oc_name c4
                      @ '' response content: array content had no text parts'')
            else Inr \<lparr>Text = TrimSpace (Join (usableFragments frags) ''\<newline>'')\<rparr>) \<and>
         (usableFragments frags \<noteq> [] \<longrightarrow>
            TrimSpace (Join (usableFragments frags) ''\<newline>'') \<noteq> [])) \<and>
      (choices = JString s # rest \<and> TrimSpace s \<noteq> [] \<longrightarrow>
         fst (oc_Ask rt un4 c4 r sent) = Inr \<lparr>Text = TrimSpace s\<rparr>) \<and>
      (choices = content # rest \<and> (\<forall>v. content \<noteq> JString v) \<and>
       (\<forall>v. content \<noteq> JArray v) \<longrightarrow>
         fst (oc_Ask rt un4 c4 r sent) =
           Inl (''decode '' @ oc_name c4 @ '' response content: unsupported content type ''
                @ goTypeName content))) \<and>
   (NewRequest rt ''POST'' u = Inr req4 \<and>
    doJSON rt un4 (oc_setHeaders rt c4 req4) (Some (chatPayload r flag)) (Some []) sent =
      ((err, Some decoded), sent4) \<longrightarrow>
      askWithPayload rt un4 c4 u r flag sent = ((decoded, err), sent4))"
proof (intro conjI impI; (elim conjE)?)
  have nb: "s \<noteq> []" if "TrimSpace s \<noteq> []" for s
    using that TrimSpace_empty by auto
  show "Text resp1 \<noteq> []" and "TrimSpace (Text resp1) \<noteq> []"
    if "fst (ol_Ask rt un1 c1 r sent) = Inr resp1"
    using ol_Ask_success [OF that] nb by auto
  show "Text resp2 \<noteq> []" and "TrimSpace (Text resp2) \<noteq> []"
    if "fst (an_Ask rt un2 c2 r sent) = Inr resp2"
    using an_Ask_success [OF that] nb by auto
  show "Text resp3 \<noteq> []" and "TrimSpace (Text resp3) \<noteq> []"
    if "fst (ge_Ask rt un3 c3 r sent) = Inr resp3"
    using ge_Ask_success [OF that] ge_answer_success nb by auto
  show "TrimSpace (Text resp4) = Text resp4"
    if "fst (oc_Ask rt un4 c4 r sent) = Inr resp4"
    using oc_Ask_success [OF that] extractMessageContent_trimmed by auto
  show "t \<noteq> []" and "TrimSpace t = t"
    if "extractMessageContent (JArray items) = Inr t"
    using that extractMessageContent_list_nonblank extractMessageContent_trimmed by auto
  show "ol_Ask rt un1 c1 r sent =
        (if TrimSpace answer = [] then Inl ''ollama response had empty content''
         else Inr \<lparr>Text = answer\<rparr>, sent1)"
    if "validateAskRequest r = None"
      and "NewRequest rt ''POST'' (joinURL (ol_base c1) ''/api/chat'') = Inr req1"
      and "doJSON rt un1 req1 (Some (ol_payload r)) (Some []) sent = ((None, Some answer), sent1)"
    using that by (rule ol_Ask_decoded)
  show "an_Ask rt un2 c2 r sent =
        (if filter (\<lambda>b. fst b = ''text'' \<and> TrimSpace (snd b) \<noteq> []) blocks = []
         then Inl ''no text content returned by Anthropic''
         else Inr \<lparr>Text = Join (map snd
                 (filter (\<lambda>b. fst b = ''text'' \<and> TrimSpace (snd b) \<noteq> []) blocks))
                 ''\<newline>''\<rparr>, sent2)"
    if "validateAskRequest r = None" and "an_apiKey c2 \<noteq> []"
      and "NewRequest rt ''POST'' (joinURL (an_base c2) ''/v1/messages'') = Inr req2"
      and "doJSON rt un2 (an_setHeaders rt c2 req2) (Some (an_payload r)) (Some []) sent =
        ((None, Some blocks), sent2)"
    using an_Ask_decoded [OF that] by (simp add: an_parts_filter)
  show "fst (ge_Ask rt un3 c3 r sent) =
        (case candidates of
           [] \<Rightarrow> Inl ''no candidates returned by Gemini''
         | first # others \<Rightarrow>
             if filter (\<lambda>t. TrimSpace t \<noteq> []) first = []
             then Inl ''Gemini response had no text parts''
             else Inr \<lparr>Text = Join (filter (\<lambda>t. TrimSpace t \<noteq> []) first) ''\<newline>''\<rparr>)"
    if "validateAskRequest r = None" and "ge_apiKey c3 \<noteq> []" and "ge_modelID r \<noteq> []"
      and "NewRequest rt ''POST'' (joinURL (ge_base c3) (ge_path (ge_modelID r))) = Inr req3"
      and "doJSON rt un3 (ge_setHeaders rt c3 req3) (Some (ge_payload r (ExpectJSON r)))
             (Some []) sent = ((gerr1, gout1), gsent1)"
      and "doJSON rt un3 (ge_setHeaders rt c3 req3) (Some (ge_payload r False)) gout1 gsent1 =
             ((gerr2, gout2), gsent2)"
      and "(None, Some candidates) =
             (if gerr1 \<noteq> None \<and> ExpectJSON r \<and> responseFormatLikelyUnsupported rt gerr1
              then (gerr2, gout2) else (gerr1, gout1))"
  proof -
    from that(7) ge_Ask_attempts [OF that(1-6)]
    have "fst (ge_Ask rt un3 c3 r sent) = ge_answer candidates"
      by (auto split: if_splits)
    then show ?thesis
      by (simp only: ge_answer_cases)
  qed
  assume v: "validateAskRequest r = None"
    and k: "\<not> (requiresAPIKey c4 \<and> oc_apiKey c4 = [])"
    and a1: "askWithPayload rt un4 c4 (joinURL (oc_base c4) (oc_chatPath c4)) r True sent =
      ((oresp1, oerr1), osent1)"
    and a2: "askWithPayload rt un4 c4 (joinURL (oc_base c4) (oc_chatPath c4)) r False osent1 =
      ((oresp2, oerr2), osent2)"
    and l: "(choices, None) =
      (if oerr1 \<noteq> None \<and> ExpectJSON r \<and> responseFormatLikelyUnsupported rt oerr1
       then (oresp2, oerr2) else (oresp1, oerr1))"
  have a: "fst (oc_Ask rt un4 c4 r sent) = oc_answer c4 choices"
    using v k a1 a2 l by (rule oc_Ask_last_attempt)
  show "fst (oc_Ask rt un4 c4 r sent) = Inl (''no choices returned by '' @ oc_name c4)"
    if "choices = []"
    using a that by (simp add: oc_answer_none)
  show "fst (oc_Ask rt un4 c4 r sent) =
           (if usableFragments frags = []
            then Inl (''decode '' @ oc_name c4
                      @ '' response content: array content had no text parts'')
            else Inr \<lparr>Text = TrimSpace (Join (usableFragments frags) ''\<newline>'')\<rparr>)"
    if "choices = JArray frags # rest"
    using a that by (simp only: oc_answer_list)
  show "TrimSpace (Join (usableFragments frags) ''\<newline>'') \<noteq> []"
    if "usableFragments frags \<noteq> []"
    using that by (simp add: TrimSpace_Join_nonblank usableFragments_nonblank)
  show "fst (oc_Ask rt un4 c4 r sent) = Inr \<lparr>Text = TrimSpace s\<rparr>"
    if "choices = JString s # rest"
    using a that by (simp only: oc_answer_string)
  show "fst (oc_Ask rt un4 c4 r sent) =
           Inl (''decode '' @ oc_name c4 @ '' response content: unsupported content type ''
                @ goTypeName content)"
    if "choices = content # rest" and "\<forall>v. content \<noteq> JString v"
      and "\<forall>v. content \<noteq> JArray v"
    using a that oc_answer_other [of content c4 rest] by simp
next
  assume "NewRequest rt ''POST'' u = Inr req4"
    and "doJSON rt un4 (oc_setHeaders rt c4 req4) (Some (chatPayload r flag)) (Some []) sent =
      ((err, Some decoded), sent4)"
  then show "askWithPayload rt un4 c4 u r flag sent = ((decoded, err), sent4)"
    by (rule askWithPayload_decoded)
qed

theorem Ask_success_text_witness:
  "(fst (ol_Ask (exampleRuntime (okServer ollamaReply))
           (exampleUnmarshal [(ollamaReply, '' hi '')]) ollamaExample plainRequest []) =
      Inr \<lparr>Text = '' hi ''\<rparr> \<and> '' hi '' \<noteq> [] \<and> TrimSpace '' hi '' \<noteq> []) \<and>
   (fst (an_Ask (exampleRuntime (okServer anthropicReply))
           (exampleUnmarshal [(anthropicReply, [(''text'', '' hi '')])]) anthropicExample
           plainRequest []) = Inr \<lparr>Text = '' hi ''\<rparr>) \<and>
   (fst (ge_Ask (exampleRuntime (okServer geminiPaddedReply))
           (exampleUnmarshal [(geminiPaddedReply, [['' hi '']])]) geminiExample
           plainRequest []) = Inr \<lparr>Text = '' hi ''\<rparr>) \<and>
   (fst (oc_Ask (exampleRuntime (okServer chatReply))
           (exampleUnmarshal [(chatReply, [JString ''ok''])]) proxyClient plainRequest []) =
      Inr \<lparr>Text = ''ok''\<rparr> \<and> TrimSpace ''ok'' = ''ok'') \<and>
   (extractMessageContent (JArray [JObject [(''text'', JString '' a '')]]) = Inr ''a'' \<and>
    ''a'' \<noteq> [] \<and> TrimSpace ''a'' = ''a'') \<and>
   fst (ol_Ask (exampleRuntime (okServer ollamaBlankReply))
          (exampleUnmarshal [(ollamaBlankReply, '' '')]) ollamaExample plainRequest []) =
     Inl ''ollama response had empty content'' \<and>
   fst (an_Ask (exampleRuntime (okServer anthropicToolReply))
          (exampleUnmarshal [(anthropicToolReply, [(''tool_use'', []), (''text'', '' '')])])
          anthropicExample plainRequest []) =
     Inl ''no text content returned by Anthropic'' \<and>
   fst (ge_Ask (exampleRuntime geminiFallbackServer)
          (exampleUnmarshal [(geminiPaddedReply, [['' hi '']])]) geminiExample
          flashRequest []) = Inr \<lparr>Text = '' hi ''\<rparr> \<and>
   fst (ge_Ask (exampleRuntime (okServer geminiNoCandidatesReply))
          (exampleUnmarshal [(geminiNoCandidatesReply, [])]) geminiExample plainRequest []) =
     Inl ''no candidates returned by Gemini'' \<and>
   fst (ge_Ask (exampleRuntime (okServer geminiBlankReply))
          (exampleUnmarshal [(geminiBlankReply, [['' '']])]) geminiExample plainRequest []) =
     Inl ''Gemini response had no text parts'' \<and>
   fst (oc_Ask (exampleRuntime (okServer chatListReply))
          (exampleUnmarshal [(chatListReply, [JArray chatListItems])]) proxyClient
          plainRequest []) = Inr \<lparr>Text = ''part-1\<newline>part-2''\<rparr> \<and>
   fst (oc_Ask (exampleRuntime (okServer chatBlankListReply))
          (exampleUnmarshal [(chatBlankListReply, [JArray chatBlankListItems])]) proxyClient
          plainRequest []) =
     Inl ''decode proxy response content: array content had no text parts'' \<and>
   fst (oc_Ask (exampleRuntime (okServer chatNoChoicesReply))
          (exampleUnmarshal [(chatNoChoicesReply, [])]) proxyClient plainRequest []) =
     Inl ''no choices returned by proxy'' \<and>
   fst (oc_Ask (exampleRuntime (okServer chatNullReply))
          (exampleUnmarshal [(chatNullReply, [JNull])]) proxyClient plainRequest []) =
     Inl ''decode proxy response content: unsupported content type <nil>'' \<and>
   fst (oc_Ask (exampleRuntime fallbackServer)
          (exampleUnmarshal [(chatReply, [JString ''ok''])]) proxyClient jsonRequest []) =
     Inr \<lparr>Text = ''ok''\<rparr> \<and>
   fst (askWithPayload (exampleRuntime (okServer chatListReply))
          (exampleUnmarshal [(chatListReply, [JArray chatListItems])]) proxyClient
          (joinURL (oc_base proxyClient) (oc_chatPath proxyClient)) plainRequest True []) =
     ([JArray chatListItems], None)"
proof -
  let ?ol = "ol_Ask (exampleRuntime (okServer ollamaReply))
           (exampleUnmarshal [(ollamaReply, '' hi '')]) ollamaExample plainRequest []"
  let ?an = "an_Ask (exampleRuntime (okServer anthropicReply))
           (exampleUnmarshal [(anthropicReply, [(''text'', '' hi '')])]) anthropicExample
           plainRequest []"
  let ?ge = "ge_Ask (exampleRuntime (okServer geminiPaddedReply))
           (exampleUnmarshal [(geminiPaddedReply, [['' hi '']])]) geminiExample
           plainRequest []"
  let ?oc = "oc_Ask (exampleRuntime (okServer chatReply))
           (exampleUnmarshal [(chatReply, [JString ''ok''])]) proxyClient plainRequest []"
  let ?post = "\<lambda>u. \<lparr>req_method = ''POST'', req_url = u, req_header = [], req_body = None,
                     req_contentLength = 0\<rparr>"
  have 1: "fst ?ol = Inr \<lparr>Text = '' hi ''\<rparr>"
    by code_simp
  have 2: "fst ?an = Inr \<lparr>Text = '' hi ''\<rparr>"
    by code_simp
  have 3: "fst ?ge = Inr \<lparr>Text = '' hi ''\<rparr>"
    by code_simp
  have 4: "fst ?oc = Inr \<lparr>Text = ''ok''\<rparr>"
    by code_simp
  have 5: "extractMessageContent (JArray [JObject [(''text'', JString '' a '')]]) = Inr ''a''"
    by code_simp
  note first = Ask_success_text [THEN conjunct1, rule_format, OF 1]
    Ask_success_text [THEN conjunct2, THEN conjunct1, rule_format, OF 2]
    Ask_success_text [THEN conjunct2, THEN conjunct2, THEN conjunct1, rule_format, OF 3]
    Ask_success_text [THEN conjunct2, THEN conjunct2, THEN conjunct2, THEN conjunct1,
      rule_format, OF 4]
    Ask_success_text [THEN conjunct2, THEN conjunct2, THEN conjunct2, THEN conjunct2,
      THEN conjunct1, rule_format, OF 5]
  note ollama = Ask_success_text [THEN conjunct2, THEN conjunct2, THEN conjunct2,
      THEN conjunct2, THEN conjunct2, THEN conjunct1, THEN mp]
  note anthropic = Ask_success_text [THEN conjunct2, THEN conjunct2, THEN conjunct2,
      THEN conjunct2, THEN conjunct2, THEN conjunct2, THEN conjunct1, THEN mp]
  note gemini = Ask_success_text [THEN conjunct2, THEN conjunct2, THEN conjunct2,
      THEN conjunct2, THEN conjunct2, THEN conjunct2, THEN conjunct2, THEN conjunct1, THEN mp]
  note compatible = Ask_success_text [THEN conjunct2, THEN conjunct2, THEN conjunct2,
      THEN conjunct2, THEN conjunct2, THEN conjunct2, THEN conjunct2, THEN conjunct2,
      THEN conjunct1, THEN mp]
  note attempt = Ask_success_text [THEN conjunct2, THEN conjunct2, THEN conjunct2,
      THEN conjunct2, THEN conjunct2, THEN conjunct2, THEN conjunct2, THEN conjunct2,
      THEN conjunct2, THEN mp]
  have v: "validateAskRequest plainRequest = None"
    by code_simp
  have blank: "TrimSpace '' '' = []"
    by code_simp
  have padded: "TrimSpace '' hi '' \<noteq> []"
    by code_simp
  have joined: "Join ['' hi ''] ''\<newline>'' = '' hi ''"
    by code_simp
  have nf: "\<not> ((None :: string option) \<noteq> None \<and> ExpectJSON plainRequest \<and>
      responseFormatLikelyUnsupported rt None)" for rt
    by simp

  txt \<open>Ollama: a blank content\<close>
  let ?rtO = "exampleRuntime (okServer ollamaBlankReply)"
  let ?unO = "exampleUnmarshal [(ollamaBlankReply, '' '')]"
  let ?rqO = "?post (joinURL (ol_base ollamaExample) ''/api/chat'')"
  let ?dO = "doJSON ?rtO ?unO ?rqO (Some (ol_payload plainRequest)) (Some []) []"
  have "fst ?dO = (None, Some '' '')"
    by code_simp
  then have "?dO = ((None, Some '' ''), snd ?dO)"
    by (rule pair_of_fst)
  with v NewRequest_example
  have "validateAskRequest plainRequest = None \<and>
    NewRequest ?rtO ''POST'' (joinURL (ol_base ollamaExample) ''/api/chat'') = Inr ?rqO \<and>
    doJSON ?rtO ?unO ?rqO (Some (ol_payload plainRequest)) (Some []) [] =
      ((None, Some '' ''), snd ?dO)"
    by simp
  from ollama [OF this] blank
  have 6: "fst (ol_Ask ?rtO ?unO ollamaExample plainRequest []) =
      Inl ''ollama response had empty content''"
    by simp

  txt \<open>Anthropic: no text block that is not blank\<close>
  let ?rtA = "exampleRuntime (okServer anthropicToolReply)"
  let ?blocks = "[(''tool_use'', []), (''text'', '' '')] :: (string \<times> string) list"
  let ?unA = "exampleUnmarshal [(anthropicToolReply, ?blocks)]"
  let ?rqA = "?post (joinURL (an_base anthropicExample) ''/v1/messages'')"
  let ?dA = "doJSON ?rtA ?unA (an_setHeaders ?rtA anthropicExample ?rqA)
      (Some (an_payload plainRequest)) (Some []) []"
  have ka: "an_apiKey anthropicExample \<noteq> []"
    by code_simp
  have "fst ?dA = (None, Some ?blocks)"
    by code_simp
  then have "?dA = ((None, Some ?blocks), snd ?dA)"
    by (rule pair_of_fst)
  with v ka NewRequest_example
  have "validateAskRequest plainRequest = None \<and> an_apiKey anthropicExample \<noteq> [] \<and>
    NewRequest ?rtA ''POST'' (joinURL (an_base anthropicExample) ''/v1/messages'') = Inr ?rqA \<and>
    doJSON ?rtA ?unA (an_setHeaders ?rtA anthropicExample ?rqA)
      (Some (an_payload plainRequest)) (Some []) [] = ((None, Some ?blocks), snd ?dA)"
    by simp
  from anthropic [OF this] blank
  have 7: "fst (an_Ask ?rtA ?unA anthropicExample plainRequest []) =
      Inl ''no text content returned by Anthropic''"
    by simp

  txt \<open>Gemini: the retry answers\<close>
  let ?rtF = "exampleRuntime geminiFallbackServer"
  let ?unG = "exampleUnmarshal [(geminiPaddedReply, [['' hi '']])]"
  let ?rqF = "?post (joinURL (ge_base geminiExample) (ge_path (ge_modelID flashRequest)))"
  let ?da = "doJSON ?rtF ?unG (ge_setHeaders ?rtF geminiExample ?rqF)
      (Some (ge_payload flashRequest (ExpectJSON flashRequest))) (Some []) []"
  let ?db = "doJSON ?rtF ?unG (ge_setHeaders ?rtF geminiExample ?rqF)
      (Some (ge_payload flashRequest False)) (snd (fst ?da)) (snd ?da)"
  have vf: "validateAskRequest flashRequest = None"
    by code_simp
  have kg: "ge_apiKey geminiExample \<noteq> []"
    by code_simp
  have mf: "ge_modelID flashRequest \<noteq> []"
    by code_simp
  have ef: "fst (fst ?da) \<noteq> None \<and> ExpectJSON flashRequest \<and>
      responseFormatLikelyUnsupported ?rtF (fst (fst ?da))"
    by code_simp
  have "fst ?db = (None, Some [['' hi '']])"
    by code_simp
  then have pb: "?db = ((None, Some [['' hi '']]), snd ?db)"
    by (rule pair_of_fst)
  have pa: "?da = ((fst (fst ?da), snd (fst ?da)), snd ?da)"
    by (rule pair_of_parts)
  have la: "(None, Some [['' hi '']]) =
      (if fst (fst ?da) \<noteq> None \<and> ExpectJSON flashRequest \<and>
          responseFormatLikelyUnsupported ?rtF (fst (fst ?da))
       then (None, Some [['' hi '']]) else (fst (fst ?da), snd (fst ?da)))"
    by (rule if_P [OF ef, symmetric])
  have "validateAskRequest flashRequest = None \<and> ge_apiKey geminiExample \<noteq> [] \<and>
    ge_modelID flashRequest \<noteq> [] \<and>
    NewRequest ?rtF ''POST'' (joinURL (ge_base geminiExample) (ge_path (ge_modelID flashRequest)))
      = Inr ?rqF \<and>
    doJSON ?rtF ?unG (ge_setHeaders ?rtF geminiExample ?rqF)
      (Some (ge_payload flashRequest (ExpectJSON flashRequest))) (Some []) [] =
      ((fst (fst ?da), snd (fst ?da)), snd ?da) \<and>
    doJSON ?rtF ?unG (ge_setHeaders ?rtF geminiExample ?rqF)
      (Some (ge_payload flashRequest False)) (snd (fst ?da)) (snd ?da) =
      ((None, Some [['' hi '']]), snd ?db) \<and>
    (None, Some [['' hi '']]) =
      (if fst (fst ?da) \<noteq> None \<and> ExpectJSON flashRequest \<and>
          responseFormatLikelyUnsupported ?rtF (fst (fst ?da))
       then (None, Some [['' hi '']]) else (fst (fst ?da), snd (fst ?da)))"
    by (intro conjI) (rule vf kg mf NewRequest_example pa pb la)+
  from gemini [OF this] padded joined
  have 8: "fst (ge_Ask ?rtF ?unG geminiExample flashRequest []) = Inr \<lparr>Text = '' hi ''\<rparr>"
    by simp

  txt \<open>Gemini: no candidate\<close>
  let ?rtN = "exampleRuntime (okServer geminiNoCandidatesReply)"
  let ?unN = "exampleUnmarshal [(geminiNoCandidatesReply, [] :: string list list)]"
  let ?rqP = "?post (joinURL (ge_base geminiExample) (ge_path (ge_modelID plainRequest)))"
  let ?dc = "doJSON ?rtN ?unN (ge_setHeaders ?rtN geminiExample ?rqP)
      (Some (ge_payload plainRequest (ExpectJSON plainRequest))) (Some []) []"
  let ?dd = "doJSON ?rtN ?unN (ge_setHeaders ?rtN geminiExample ?rqP)
      (Some (ge_payload plainRequest False)) (Some []) (snd ?dc)"
  have mi: "ge_modelID plainRequest \<noteq> []"
    by code_simp
  have "fst ?dc = (None, Some [])"
    by code_simp
  then have pc: "?dc = ((None, Some []), snd ?dc)"
    by (rule pair_of_fst)
  have pd: "?dd = ((fst (fst ?dd), snd (fst ?dd)), snd ?dd)"
    by (rule pair_of_parts)
  have lc: "(None, Some []) =
      (if (None :: string option) \<noteq> None \<and> ExpectJSON plainRequest \<and>
          responseFormatLikelyUnsupported ?rtN None
       then (fst (fst ?dd), snd (fst ?dd)) else (None, Some []))"
    by (rule if_not_P [OF nf, symmetric])
  have "validateAskRequest plainRequest = None \<and> ge_apiKey geminiExample \<noteq> [] \<and>
    ge_modelID plainRequest \<noteq> [] \<and>
    NewRequest ?rtN ''POST'' (joinURL (ge_base geminiExample) (ge_path (ge_modelID plainRequest)))
      = Inr ?rqP \<and>
    doJSON ?rtN ?unN (ge_setHeaders ?rtN geminiExample ?rqP)
      (Some (ge_payload plainRequest (ExpectJSON plainRequest))) (Some []) [] =
      ((None, Some []), snd ?dc) \<and>
    doJSON ?rtN ?unN (ge_setHeaders ?rtN geminiExample ?rqP)
      (Some (ge_payload plainRequest False)) (Some []) (snd ?dc) =
      ((fst (fst ?dd), snd (fst ?dd)), snd ?dd) \<and>
    (None, Some []) =
      (if (None :: string option) \<noteq> None \<and> ExpectJSON plainRequest \<and>
          responseFormatLikelyUnsupported ?rtN None
       then (fst (fst ?dd), snd (fst ?dd)) else (None, Some []))"
    by (intro conjI) (rule v kg mi NewRequest_example pc pd lc)+
  from gemini [OF this]
  have 9: "fst (ge_Ask ?rtN ?unN geminiExample plainRequest []) =
      Inl ''no candidates returned by Gemini''"
    by simp

  txt \<open>Gemini: no part that is not blank\<close>
  let ?rtB = "exampleRuntime (okServer geminiBlankReply)"
  let ?unB = "exampleUnmarshal [(geminiBlankReply, [['' '']])]"
  let ?de = "doJSON ?rtB ?unB (ge_setHeaders ?rtB geminiExample ?rqP)
      (Some (ge_payload plainRequest (ExpectJSON plainRequest))) (Some []) []"
  let ?df = "doJSON ?rtB ?unB (ge_setHeaders ?rtB geminiExample ?rqP)
      (Some (ge_payload plainRequest False)) (Some [['' '']]) (snd ?de)"
  have "fst ?de = (None, Some [['' '']])"
    by code_simp
  then have pe: "?de = ((None, Some [['' '']]), snd ?de)"
    by (rule pair_of_fst)
  have pf: "?df = ((fst (fst ?df), snd (fst ?df)), snd ?df)"
    by (rule pair_of_parts)
  have le: "(None, Some [['' '']]) =
      (if (None :: string option) \<noteq> None \<and> ExpectJSON plainRequest \<and>
          responseFormatLikelyUnsupported ?rtB None
       then (fst (fst ?df), snd (fst ?df)) else (None, Some [['' '']]))"
    by (rule if_not_P [OF nf, symmetric])
  have "validateAskRequest plainRequest = None \<and> ge_apiKey geminiExample \<noteq> [] \<and>
    ge_modelID plainRequest \<noteq> [] \<and>
    NewRequest ?rtB ''POST'' (joinURL (ge_base geminiExample) (ge_path (ge_modelID plainRequest)))
      = Inr ?rqP \<and>
    doJSON ?rtB ?unB (ge_setHeaders ?rtB geminiExample ?rqP)
      (Some (ge_payload plainRequest (ExpectJSON plainRequest))) (Some []) [] =
      ((None, Some [['' '']]), snd ?de) \<and>
    doJSON ?rtB ?unB (ge_setHeaders ?rtB geminiExample ?rqP)
      (Some (ge_payload plainRequest False)) (Some [['' '']]) (snd ?de) =
      ((fst (fst ?df), snd (fst ?df)), snd ?df) \<and>
    (None, Some [['' '']]) =
      (if (None :: string option) \<noteq> None \<and> ExpectJSON plainRequest \<and>
          responseFormatLikelyUnsupported ?rtB None
       then (fst (fst ?df), snd (fst ?df)) else (None, Some [['' '']]))"
    by (intro conjI) (rule v kg mi NewRequest_example pe pf le)+
  from gemini [OF this] blank
  have 10: "fst (ge_Ask ?rtB ?unB geminiExample plainRequest []) =
      Inl ''Gemini response had no text parts''"
    by simp

  txt \<open>OpenAI-compatible: a list with usable fragments\<close>
  let ?u = "joinURL (oc_base proxyClient) (oc_chatPath proxyClient)"
  have kp: "\<not> (requiresAPIKey proxyClient \<and> oc_apiKey proxyClient = [])"
    by code_simp
  have np: "oc_name proxyClient = ''proxy''"
    by code_simp
  let ?rtL = "exampleRuntime (okServer chatListReply)"
  let ?unL = "exampleUnmarshal [(chatListReply, [JArray chatListItems])]"
  let ?aL = "askWithPayload ?rtL ?unL proxyClient ?u plainRequest True []"
  let ?bL = "askWithPayload ?rtL ?unL proxyClient ?u plainRequest False (snd ?aL)"
  have "fst ?aL = ([JArray chatListItems], None)"
    by code_simp
  then have paL: "?aL = (([JArray chatListItems], None), snd ?aL)"
    by (rule pair_of_fst)
  have pbL: "?bL = ((fst (fst ?bL), snd (fst ?bL)), snd ?bL)"
    by (rule pair_of_parts)
  have lL: "([JArray chatListItems], None) =
      (if (None :: string option) \<noteq> None \<and> ExpectJSON plainRequest \<and>
          responseFormatLikelyUnsupported ?rtL None
       then (fst (fst ?bL), snd (fst ?bL)) else ([JArray chatListItems], None))"
    by (rule if_not_P [OF nf, symmetric])
  have hL: "validateAskRequest plainRequest = None \<and>
    \<not> (requiresAPIKey proxyClient \<and> oc_apiKey proxyClient = []) \<and>
    askWithPayload ?rtL ?unL proxyClient ?u plainRequest True [] =
      (([JArray chatListItems], None), snd ?aL) \<and>
    askWithPayload ?rtL ?unL proxyClient ?u plainRequest False (snd ?aL) =
      ((fst (fst ?bL), snd (fst ?bL)), snd ?bL) \<and>
    ([JArray chatListItems], None) =
      (if (None :: string option) \<noteq> None \<and> ExpectJSON plainRequest \<and>
          responseFormatLikelyUnsupported ?rtL None
       then (fst (fst ?bL), snd (fst ?bL)) else ([JArray chatListItems], None))"
    by (intro conjI) (rule v kp paL pbL lL)+
  have uL: "usableFragments chatListItems = [''part-1'', ''part-2 '']"
    by code_simp
  have tL: "TrimSpace (Join [''part-1'', ''part-2 ''] ''\<newline>'') = ''part-1\<newline>part-2''"
    by code_simp
  from compatible [OF hL, THEN conjunct2, THEN conjunct1, THEN mp, OF refl] uL tL
  have 11: "fst (oc_Ask ?rtL ?unL proxyClient plainRequest []) =
      Inr \<lparr>Text = ''part-1\<newline>part-2''\<rparr>"
    by simp

  txt \<open>OpenAI-compatible: a list with no usable fragment\<close>
  let ?rtK = "exampleRuntime (okServer chatBlankListReply)"
  let ?unK = "exampleUnmarshal [(chatBlankListReply, [JArray chatBlankListItems])]"
  let ?aK = "askWithPayload ?rtK ?unK proxyClient ?u plainRequest True []"
  let ?bK = "askWithPayload ?rtK ?unK proxyClient ?u plainRequest False (snd ?aK)"
  have "fst ?aK = ([JArray chatBlankListItems], None)"
    by code_simp
  then have paK: "?aK = (([JArray chatBlankListItems], None), snd ?aK)"
    by (rule pair_of_fst)
  have pbK: "?bK = ((fst (fst ?bK), snd (fst ?bK)), snd ?bK)"
    by (rule pair_of_parts)
  have lK: "([JArray chatBlankListItems], None) =
      (if (None :: string option) \<noteq> None \<and> ExpectJSON plainRequest \<and>
          responseFormatLikelyUnsupported ?rtK None
       then (fst (fst ?bK), snd (fst ?bK)) else ([JArray chatBlankListItems], None))"
    by (rule if_not_P [OF nf, symmetric])
  have hK: "validateAskRequest plainRequest = None \<and>
    \<not> (requiresAPIKey proxyClient \<and> oc_apiKey proxyClient = []) \<and>
    askWithPayload ?rtK ?unK proxyClient ?u plainRequest True [] =
      (([JArray chatBlankListItems], None), snd ?aK) \<and>
    askWithPayload ?rtK ?unK proxyClient ?u plainRequest False (snd ?aK) =
      ((fst (fst ?bK), snd (fst ?bK)), snd ?bK) \<and>
    ([JArray chatBlankListItems], None) =
      (if (None :: string option) \<noteq> None \<and> ExpectJSON plainRequest \<and>
          responseFormatLikelyUnsupported ?rtK None
       then (fst (fst ?bK), snd (fst ?bK)) else ([JArray chatBlankListItems], None))"
    by (intro conjI) (rule v kp paK pbK lK)+
  have uK: "usableFragments chatBlankListItems = []"
    by code_simp
  from compatible [OF hK, THEN conjunct2, THEN conjunct1, THEN mp, OF refl] uK np
  have 12: "fst (oc_Ask ?rtK ?unK proxyClient plainRequest []) =
      Inl ''decode proxy response content: array content had no text parts''"
    by simp

  txt \<open>OpenAI-compatible: no choice\<close>
  let ?rtE = "exampleRuntime (okServer chatNoChoicesReply)"
  let ?unE = "exampleUnmarshal [(chatNoChoicesReply, [] :: json list)]"
  let ?aE = "askWithPayload ?rtE ?unE proxyClient ?u plainRequest True []"
  let ?bE = "askWithPayload ?rtE ?unE proxyClient ?u plainRequest False (snd ?aE)"
  have "fst ?aE = ([], None)"
    by code_simp
  then have paE: "?aE = (([], None), snd ?aE)"
    by (rule pair_of_fst)
  have pbE: "?bE = ((fst (fst ?bE), snd (fst ?bE)), snd ?bE)"
    by (rule pair_of_parts)
  have lE: "([], None) =
      (if (None :: string option) \<noteq> None \<and> ExpectJSON plainRequest \<and>
          responseFormatLikelyUnsupported ?rtE None
       then (fst (fst ?bE), snd (fst ?bE)) else ([], None))"
    by (rule if_not_P [OF nf, symmetric])
  have hE: "validateAskRequest plainRequest = None \<and>
    \<not> (requiresAPIKey proxyClient \<and> oc_apiKey proxyClient = []) \<and>
    askWithPayload ?rtE ?unE proxyClient ?u plainRequest True [] = (([], None), snd ?aE) \<and>
    askWithPayload ?rtE ?unE proxyClient ?u plainRequest False (snd ?aE) =
      ((fst (fst ?bE), snd (fst ?bE)), snd ?bE) \<and>
    ([], None) =
      (if (None :: string option) \<noteq> None \<and> ExpectJSON plainRequest \<and>
          responseFormatLikelyUnsupported ?rtE None
       then (fst (fst ?bE), snd (fst ?bE)) else ([], None))"
    by (intro conjI) (rule v kp paE pbE lE)+
  from compatible [OF hE, THEN conjunct1, THEN mp, OF refl] np
  have 13: "fst (oc_Ask ?rtE ?unE proxyClient plainRequest []) =
      Inl ''no choices returned by proxy''"
    by simp

  txt \<open>OpenAI-compatible: a content that is neither a string nor a list\<close>
  let ?rtU = "exampleRuntime (okServer chatNullReply)"
  let ?unU = "exampleUnmarshal [(chatNullReply, [JNull])]"
  let ?aU = "askWithPayload ?rtU ?unU proxyClient ?u plainRequest True []"
  let ?bU = "askWithPayload ?rtU ?unU proxyClient ?u plainRequest False (snd ?aU)"
  have "fst ?aU = ([JNull], None)"
    by code_simp
  then have paU: "?aU = (([JNull], None), snd ?aU)"
    by (rule pair_of_fst)
  have pbU: "?bU = ((fst (fst ?bU), snd (fst ?bU)), snd ?bU)"
    by (rule pair_of_parts)
  have lU: "([JNull], None) =
      (if (None :: string option) \<noteq> None \<and> ExpectJSON plainRequest \<and>
          responseFormatLikelyUnsupported ?rtU None
       then (fst (fst ?bU), snd (fst ?bU)) else ([JNull], None))"
    by (rule if_not_P [OF nf, symmetric])
  have hU: "validateAskRequest plainRequest = None \<and>
    \<not> (requiresAPIKey proxyClient \<and> oc_apiKey proxyClient = []) \<and>
    askWithPayload ?rtU ?unU proxyClient ?u plainRequest True [] = (([JNull], None), snd ?aU) \<and>
    askWithPayload ?rtU ?unU proxyClient ?u plainRequest False (snd ?aU) =
      ((fst (fst ?bU), snd (fst ?bU)), snd ?bU) \<and>
    ([JNull], None) =
      (if (None :: string option) \<noteq> None \<and> ExpectJSON plainRequest \<and>
          responseFormatLikelyUnsupported ?rtU None
       then (fst (fst ?bU), snd (fst ?bU)) else ([JNull], None))"
    by (intro conjI) (rule v kp paU pbU lU)+
  have other: "[JNull] = JNull # [] \<and> (\<forall>v. JNull \<noteq> JString v) \<and> (\<forall>v. JNull \<noteq> JArray v)"
    by simp
  have tn: "goTypeName JNull = ''<nil>''"
    by code_simp
  from compatible [OF hU, THEN conjunct2, THEN conjunct2, THEN conjunct2, THEN mp, OF other]
    np tn
  have 14: "fst (oc_Ask ?rtU ?unU proxyClient plainRequest []) =
      Inl ''decode proxy response content: unsupported content type <nil>''"
    by simp

  txt \<open>OpenAI-compatible: the retry answers with a string\<close>
  let ?rtS = "exampleRuntime fallbackServer"
  let ?unS = "exampleUnmarshal [(chatReply, [JString ''ok''])]"
  let ?aS = "askWithPayload ?rtS ?unS proxyClient ?u jsonRequest True []"
  let ?bS = "askWithPayload ?rtS ?unS proxyClient ?u jsonRequest False (snd ?aS)"
  have vj: "validateAskRequest jsonRequest = None"
    by code_simp
  have eS: "snd (fst ?aS) \<noteq> None \<and> ExpectJSON jsonRequest \<and>
      responseFormatLikelyUnsupported ?rtS (snd (fst ?aS))"
    by code_simp
  have paS: "?aS = ((fst (fst ?aS), snd (fst ?aS)), snd ?aS)"
    by (rule pair_of_parts)
  have "fst ?bS = ([JString ''ok''], None)"
    by code_simp
  then have pbS: "?bS = (([JString ''ok''], None), snd ?bS)"
    by (rule pair_of_fst)
  have lS: "([JString ''ok''], None) =
      (if snd (fst ?aS) \<noteq> None \<and> ExpectJSON jsonRequest \<and>
          responseFormatLikelyUnsupported ?rtS (snd (fst ?aS))
       then ([JString ''ok''], None) else (fst (fst ?aS), snd (fst ?aS)))"
    by (rule if_P [OF eS, symmetric])
  have hS: "validateAskRequest jsonRequest = None \<and>
    \<not> (requiresAPIKey proxyClient \<and> oc_apiKey proxyClient = []) \<and>
    askWithPayload ?rtS ?unS proxyClient ?u jsonRequest True [] =
      ((fst (fst ?aS), snd (fst ?aS)), snd ?aS) \<and>
    askWithPayload ?rtS ?unS proxyClient ?u jsonRequest False (snd ?aS) =
      (([JString ''ok''], None), snd ?bS) \<and>
    ([JString ''ok''], None) =
      (if snd (fst ?aS) \<noteq> None \<and> ExpectJSON jsonRequest \<and>
          responseFormatLikelyUnsupported ?rtS (snd (fst ?aS))
       then ([JString ''ok''], None) else (fst (fst ?aS), snd (fst ?aS)))"
    by (intro conjI) (rule vj kp paS pbS lS)+
  have tok: "TrimSpace ''ok'' = ''ok''"
    by code_simp
  then have str: "[JString ''ok''] = JString ''ok'' # [] \<and> TrimSpace ''ok'' \<noteq> []"
    by simp
  from compatible [OF hS, THEN conjunct2, THEN conjunct2, THEN conjunct1, THEN mp, OF str] tok
  have 15: "fst (oc_Ask ?rtS ?unS proxyClient jsonRequest []) = Inr \<lparr>Text = ''ok''\<rparr>"
    by simp

  txt \<open>The choices of an attempt are the decoded ones\<close>
  let ?rqL = "?post ?u"
  let ?dL = "doJSON ?rtL ?unL (oc_setHeaders ?rtL proxyClient ?rqL)
      (Some (chatPayload plainRequest True)) (Some []) []"
  have "fst ?dL = (None, Some [JArray chatListItems])"
    by code_simp
  then have pdL: "?dL = ((None, Some [JArray chatListItems]), snd ?dL)"
    by (rule pair_of_fst)
  have "NewRequest ?rtL ''POST'' ?u = Inr ?rqL \<and>
    doJSON ?rtL ?unL (oc_setHeaders ?rtL proxyClient ?rqL)
      (Some (chatPayload plainRequest True)) (Some []) [] =
      ((None, Some [JArray chatListItems]), snd ?dL)"
    by (intro conjI) (rule NewRequest_example pdL)+
  from attempt [OF this]
  have 16: "fst (askWithPayload ?rtL ?unL proxyClient ?u plainRequest True []) =
      ([JArray chatListItems], None)"
    by simp
  from first 1 2 3 4 5 6 7 8 9 10 11 12 13 14 15 16 show ?thesis
    by simp
qed

text \<open>Against C3 as it is stated: the three clients return a text with the spaces the
  provider sent around it, and the OpenAI-compatible client returns an empty text when
  the content of the reply is the empty string.\<close>

theorem Ask_text_untrimmed_or_empty_counterexample:
  "fst (ol_Ask (exampleRuntime (okServer ollamaReply))
          (exampleUnmarshal [(ollamaReply, '' hi '')]) ollamaExample plainRequest []) =
     Inr \<lparr>Text = '' hi ''\<rparr> \<and>
   fst (an_Ask (exampleRuntime (okServer anthropicReply))
          (exampleUnmarshal [(anthropicReply, [(''text'', '' hi '')])]) anthropicExample
          plainRequest []) = Inr \<lparr>Text = '' hi ''\<rparr> \<and>
   fst (ge_Ask (exampleRuntime (okServer geminiPaddedReply))
          (exampleUnmarshal [(geminiPaddedReply, [['' hi '']])]) geminiExample
          plainRequest []) = Inr \<lparr>Text = '' hi ''\<rparr> \<and>
   TrimSpace '' hi '' = ''hi'' \<and>
   fst (oc_Ask (exampleRuntime (okServer chatEmptyReply))
          (exampleUnmarshal [(chatEmptyReply, [JString []])]) proxyClient plainRequest []) =
     Inr \<lparr>Text = []\<rparr>"
  by code_simp

end
